theory Spec2Isabelle
  imports Complex_Main
begin

section \<open>Data model of the WebXR layers polyfill\<close>

text \<open>
  The enums of \<^verbatim>\<open>src/types.ts\<close>. \<^verbatim>\<open>XRLayerLayout.default\<close> is written
  \<open>layout_default\<close>, \<^verbatim>\<open>XRLayerLayout.mono\<close> is written \<open>layout_mono\<close> and the
  eyes are written \<open>eye_none\<close>, \<open>eye_left\<close>, \<open>eye_right\<close>, since the plain names are
  taken in HOL. An \<^verbatim>\<open>XRView\<close> is an object, compared by identity when it is a key
  of a \<^verbatim>\<open>Map\<close>: \<open>view_id\<close> is that identity.

  JavaScript numbers are modelled as exact rationals (type \<open>number\<close>): the arithmetic
  of the modelled functions is a multiplication or a division by a view count, and IEEE
  rounding is not part of the model. A thrown exception is the \<open>Inl\<close> branch of a sum.
\<close>

datatype XRTextureType = texture | texture_array

datatype XRLayerLayout =
  layout_default | layout_mono | stereo | stereo_left_right | stereo_top_bottom

datatype XREye = eye_none | eye_left | eye_right

datatype error = TypeError string | Error string

datatype gl_version = WebGL1 | WebGL2

type_synonym number = rat

type_synonym GLenum = nat

type_synonym WebGLTexture = nat

record XRView =
  view_id :: nat
  v_eye :: XREye
  recommendedViewportScale :: "number option"

record XRViewportPolyfill =
  vp_x :: number
  vp_y :: number
  vp_width :: number
  vp_height :: number

record PolyfillTexture =
  pt_texture :: WebGLTexture
  textureFormat :: GLenum
  pt_width :: number
  pt_height :: number
  pt_layers :: nat
  pt_type :: XRTextureType

section \<open>Viewport packing: utils/initialize-viewport.ts\<close>

text \<open>
  \<^verbatim>\<open>initializeViewport(viewport, texture, layout, offset, numViews)\<close> overwrites all
  four fields of the viewport it is given, so the model returns the new viewport.
\<close>

definition initializeViewport ::
  "PolyfillTexture \<Rightarrow> XRLayerLayout \<Rightarrow> number \<Rightarrow> number \<Rightarrow> XRViewportPolyfill" where
  "initializeViewport tex layout offset numViews =
     (if layout = stereo_left_right then
        \<lparr> vp_x = (pt_width tex * offset) / numViews, vp_y = 0,
          vp_width = pt_width tex / numViews, vp_height = pt_height tex \<rparr>
      else if layout = stereo_top_bottom then
        \<lparr> vp_x = 0, vp_y = (pt_height tex * offset) / numViews,
          vp_width = pt_width tex, vp_height = pt_height tex / numViews \<rparr>
      else
        \<lparr> vp_x = 0, vp_y = 0, vp_width = pt_width tex, vp_height = pt_height tex \<rparr>)"

section \<open>Layout resolution: XRCompositionLayerPolyfill.determineLayoutAttribute\<close>

text \<open>
  The method reads \<^verbatim>\<open>this.session.internalViews\<close>; the model takes the view list as
  an argument (\<open>None\<close> is an undefined list). \<^verbatim>\<open>context instanceof
  WebGL2RenderingContext\<close> is the version of the context.
\<close>

definition determineLayoutAttribute ::
  "XRView list option \<Rightarrow> XRTextureType \<Rightarrow> gl_version \<Rightarrow> XRLayerLayout
     \<Rightarrow> error + XRLayerLayout" where
  "determineLayoutAttribute internalViews textureType context layout =
     (if context \<noteq> WebGL2 \<and> textureType = texture_array then Inl (TypeError '''')
      else if layout = layout_mono then Inr layout
      else if layout = layout_default
              \<and> (case internalViews of None \<Rightarrow> False | Some vs \<Rightarrow> length vs = 1)
        then Inr layout_mono
      else if layout = layout_default \<and> textureType = texture_array then Inr layout
      else if layout = layout_default \<or> layout = stereo then Inr stereo_left_right
      else Inr layout)"

section \<open>Rendering context\<close>

text \<open>
  The polyfill receives its \<^verbatim>\<open>WebGLRenderingContext\<close> or
  \<^verbatim>\<open>WebGL2RenderingContext\<close> from the application. The model keeps what the
  polyfill asks of it: which of the two it is, whether \<^verbatim>\<open>getExtension('WEBGL_depth_texture')\<close>
  gives an extension, \<^verbatim>\<open>isContextLost()\<close>, \<^verbatim>\<open>MAX_TEXTURE_SIZE\<close>, and the
  textures it has created. \<^verbatim>\<open>createTexture()\<close> returns a new texture object each
  time: the handle is the count of textures created before it. The calls that only
  upload or bind (\<^verbatim>\<open>texImage2D\<close>, \<^verbatim>\<open>bindTexture\<close>, ...) return nothing the polyfill
  reads and are left out.
\<close>

record XRWebGLRenderingContext =
  context_id :: nat
  version :: gl_version
  WEBGL_depth_texture :: bool
  contextLost :: bool
  MAX_TEXTURE_SIZE :: number
  texturesCreated :: nat

definition createTexture ::
  "XRWebGLRenderingContext \<Rightarrow> WebGLTexture \<times> XRWebGLRenderingContext" where
  "createTexture c = (texturesCreated c, c\<lparr>texturesCreated := Suc (texturesCreated c)\<rparr>)"

text \<open>The depth formats of the WebGL API: 0x1902, 0x84F9, 0x81A6, 0x88F0.\<close>

definition DEPTH_COMPONENT :: GLenum where "DEPTH_COMPONENT = 6402"

definition DEPTH_STENCIL :: GLenum where "DEPTH_STENCIL = 34041"

definition DEPTH_COMPONENT24 :: GLenum where "DEPTH_COMPONENT24 = 33190"

definition DEPTH24_STENCIL8 :: GLenum where "DEPTH24_STENCIL8 = 35056"

definition getSupportedDepthFormats :: "XRWebGLRenderingContext \<Rightarrow> GLenum list" where
  "getSupportedDepthFormats c =
     (if version c = WebGL1 \<and> \<not> WEBGL_depth_texture c then []
      else [DEPTH_COMPONENT, DEPTH_STENCIL]
           @ (if version c = WebGL2 then [DEPTH_COMPONENT24, DEPTH24_STENCIL8] else []))"

text \<open>
  \<^verbatim>\<open>_createGenericPolyfillTexture\<close>: the metadata record is built from the arguments as
  they are passed in; the rest of the method chooses the arguments of the upload call.
\<close>

definition createGenericPolyfillTexture ::
  "XRWebGLRenderingContext \<Rightarrow> XRTextureType \<Rightarrow> number \<Rightarrow> number \<Rightarrow> GLenum \<Rightarrow> nat \<Rightarrow> nat
     \<Rightarrow> error + (PolyfillTexture \<times> XRWebGLRenderingContext)" where
  "createGenericPolyfillTexture c tt w h fmt mipmapLevel numLayers =
     (if tt = texture_array \<and> version c = WebGL1
        then Inl (Error ''WebGL 1 does not support texture array'')
      else (case createTexture c of (t, c') \<Rightarrow>
        Inr (\<lparr> pt_texture = t, textureFormat = fmt, pt_width = w, pt_height = h,
               pt_layers = numLayers, pt_type = tt \<rparr>, c')))"

definition createNewColorTexture ::
  "XRWebGLRenderingContext \<Rightarrow> number \<Rightarrow> number \<Rightarrow> XRTextureType \<Rightarrow> GLenum \<Rightarrow> nat
     \<Rightarrow> error + (PolyfillTexture \<times> XRWebGLRenderingContext)" where
  "createNewColorTexture c w h tt colorFmt numLayers =
     createGenericPolyfillTexture c tt w h colorFmt 0 numLayers"

definition createNewDepthStencilTexture ::
  "XRWebGLRenderingContext \<Rightarrow> number \<Rightarrow> number \<Rightarrow> XRTextureType \<Rightarrow> GLenum \<Rightarrow> nat
     \<Rightarrow> error + (PolyfillTexture \<times> XRWebGLRenderingContext)" where
  "createNewDepthStencilTexture c w h tt depthFmt numLayers =
     createGenericPolyfillTexture c tt w h depthFmt 0 numLayers"

section \<open>Session and layers\<close>

text \<open>
  Modelled from the spec: \<^verbatim>\<open>utils/is-reference-space.ts\<close> is not among the sources;
  every caller uses \<^verbatim>\<open>isReferenceSpace(space)\<close> as the test that the space is an
  \<^verbatim>\<open>XRReferenceSpace\<close>. A space is therefore one of two kinds. \<^verbatim>\<open>init.space\<close> may
  be \<^verbatim>\<open>null\<close> (the default inits have it so): \<open>None\<close>.
\<close>

datatype XRSpace = XRReferenceSpace | XROtherSpace

definition isReferenceSpace :: "XRSpace option \<Rightarrow> bool" where
  "isReferenceSpace sp = (sp = Some XRReferenceSpace)"

datatype layer_kind = Projection | Quad | Cylinder | Equirect | Cube

record HTMLVideoElement =
  videoWidth :: number
  videoHeight :: number

text \<open>
  One record for the init dictionaries of \<^verbatim>\<open>types.ts\<close>, after the defaults of the
  layer class have been merged in: \<^verbatim>\<open>XRLayerInit\<close> with the \<^verbatim>\<open>textureType\<close> of quad,
  cylinder, equirect and projection layers and the \<^verbatim>\<open>scaleFactor\<close> of projection
  layers. \<^verbatim>\<open>depthFormat\<close> is optional in \<^verbatim>\<open>XRLayerInit\<close>. Of the geometry of a
  layer the model keeps the \<^verbatim>\<open>width\<close> and \<^verbatim>\<open>height\<close> of a quad layer and the
  \<^verbatim>\<open>aspectRatio\<close> of a cylinder layer (\<open>None\<close> when the dictionary does not have
  the member); radii, angles and transforms are only stored by the classes and are left
  out.
\<close>

record XRLayerInit =
  space :: "XRSpace option"
  colorFormat :: GLenum
  depthFormat :: "GLenum option"
  mipLevels :: number
  viewPixelWidth :: number
  viewPixelHeight :: number
  init_layout :: XRLayerLayout
  init_isStatic :: bool
  textureType :: XRTextureType
  scaleFactor :: number
  init_width :: "number option"
  init_height :: "number option"
  init_aspectRatio :: "number option"

text \<open>
  A layer object: the fields of \<^verbatim>\<open>XRCompositionLayerPolyfill\<close> and, for quad and
  cylinder layers, their size. \<^verbatim>\<open>needsRedraw\<close> is \<^verbatim>\<open>undefined\<close> (\<open>None\<close>) until it
  is first assigned; the three texture fields are \<^verbatim>\<open>undefined\<close> until allocation.
  \<^verbatim>\<open>isStatic\<close> is only tested for truth, so a field never assigned is \<open>False\<close>.
  \<^verbatim>\<open>session\<close> and \<^verbatim>\<open>context\<close> are references, kept as the identifier of the object
  referred to and \<^verbatim>\<open>undefined\<close> until \<^verbatim>\<open>initialize\<close> has run; a media layer is
  initialised without a context. A projection layer keeps
  its metadata in \<^verbatim>\<open>_colorTexturesMeta\<close> and the others in \<^verbatim>\<open>_texturesMeta\<close>: one
  field here, read by the \<^verbatim>\<open>colorTexturesMeta\<close> getter of either.
\<close>

record layer =
  kind :: layer_kind
  media :: "HTMLVideoElement option"
  init :: XRLayerInit
  layout :: XRLayerLayout
  needsRedraw :: "bool option"
  isStatic :: bool
  layer_session :: "nat option"
  layer_context :: "nat option"
  p_colorTextures :: "WebGLTexture list option"
  p_depthStencilTextures :: "WebGLTexture list option"
  p_texturesMeta :: "PolyfillTexture list option"
  hasRunDeferredInitialize :: bool
  quad_width :: "number option"
  quad_height :: "number option"
  aspectRatio :: "number option"

text \<open>
  The only task the polyfill queues is the closure of \<^verbatim>\<open>getSubImage\<close> that sets
  \<^verbatim>\<open>layer.needsRedraw = false\<close> on the layer it has captured.
\<close>

datatype task = ClearNeedsRedraw nat

text \<open>
  The session: \<^verbatim>\<open>XRSessionWithLayer\<close>. \<^verbatim>\<open>getBaseLayer()\<close> is read for the size of
  its framebuffer only, which the model keeps in the session.
\<close>

record XRSessionWithLayer =
  session_id :: nat
  ended :: bool
  internalViews :: "XRView list option"
  taskQueue :: "task list"
  framebufferWidth :: number
  framebufferHeight :: number

definition isMediaLayer :: "layer \<Rightarrow> bool" where
  "isMediaLayer l = (media l \<noteq> None)"

definition getTextureType :: "layer \<Rightarrow> XRTextureType" where
  "getTextureType l =
     (case kind l of
        Cube \<Rightarrow> texture
      | Projection \<Rightarrow> textureType (init l)
      | _ \<Rightarrow> if isMediaLayer l then texture else textureType (init l))"

definition noViews :: "XRView list option \<Rightarrow> bool" where
  "noViews vs = (case vs of None \<Rightarrow> True | Some l \<Rightarrow> length l = 0)"

definition isEmptyList :: "'a list option \<Rightarrow> bool" where
  "isEmptyList xs = (case xs of None \<Rightarrow> True | Some l \<Rightarrow> length l = 0)"

section \<open>Deferred initialisation\<close>

text \<open>
  Methods of a layer change the layer and, through \<^verbatim>\<open>createTexture\<close>, its context,
  and may throw after having changed them: they return the outcome together with the
  layer and the context as they are left. The session is only read.
\<close>

type_synonym 'a layer_result = "(error + 'a) \<times> layer \<times> XRWebGLRenderingContext"

text \<open>
  \<^verbatim>\<open>determineMaximumScaleFactor\<close> divides \<^verbatim>\<open>MAX_TEXTURE_SIZE\<close> by the largest
  view dimension. For a base layer of size zero JavaScript gives \<^verbatim>\<open>Infinity\<close>, which
  \<^verbatim>\<open>Math.min\<close> then ignores: \<open>None\<close> here.
\<close>

definition determineMaximumScaleFactor ::
  "XRSessionWithLayer \<Rightarrow> layer \<Rightarrow> XRWebGLRenderingContext \<Rightarrow> number option" where
  "determineMaximumScaleFactor s l c =
     (let largestWidth = (if layout l = stereo_left_right
                          then framebufferWidth s * 2 else framebufferWidth s);
          largestHeight = (if layout l = stereo_top_bottom
                           then framebufferHeight s * 2 else framebufferHeight s);
          largestViewDimension = max largestWidth largestHeight
      in if largestViewDimension = 0 then None
         else Some (MAX_TEXTURE_SIZE c / largestViewDimension))"

text \<open>
  \<^verbatim>\<open>_deferredInitialize\<close> of the quad, cylinder and equirect layers (the three are the
  same text), of the projection layer, and the empty one of the base class that a cube
  layer inherits.
\<close>

definition deferredInitialize ::
  "XRSessionWithLayer \<Rightarrow> layer \<Rightarrow> XRWebGLRenderingContext \<Rightarrow> unit layer_result" where
  "deferredInitialize s l c =
     (case kind l of
        Cube \<Rightarrow> (Inr (), l, c)
      | Projection \<Rightarrow>
          (let l1 = l\<lparr>isStatic := False\<rparr> in
           case determineLayoutAttribute (internalViews s) (textureType (init l1)) (version c)
                  layout_default of
             Inl e \<Rightarrow> (Inl e, l1, c)
           | Inr lay \<Rightarrow>
               (let l2 = l1\<lparr>layout := lay, needsRedraw := Some True\<rparr>;
                    maxScaleFactor = determineMaximumScaleFactor s l2 c
                in (Inr (),
                    l2\<lparr>init := (init l2)\<lparr>scaleFactor :=
                           (case maxScaleFactor of
                              None \<Rightarrow> scaleFactor (init l2)
                            | Some m \<Rightarrow> min (scaleFactor (init l2)) m)\<rparr>\<rparr>, c)))
      | _ \<Rightarrow>
          (case determineLayoutAttribute (internalViews s) (textureType (init l)) (version c)
                  (init_layout (init l)) of
             Inl e \<Rightarrow> (Inl e, l, c)
           | Inr lay \<Rightarrow> (Inr (), l\<lparr>layout := lay, needsRedraw := Some True\<rparr>, c)))"

definition initializeIfNeeded ::
  "XRSessionWithLayer \<Rightarrow> layer \<Rightarrow> XRWebGLRenderingContext \<Rightarrow> unit layer_result" where
  "initializeIfNeeded s l c =
     (if \<not> hasRunDeferredInitialize l
        then deferredInitialize s (l\<lparr>hasRunDeferredInitialize := True\<rparr>) c
      else (Inr (), l, c))"

section \<open>Texture allocation\<close>

definition setColorTextures :: "PolyfillTexture list \<Rightarrow> layer \<Rightarrow> layer" where
  "setColorTextures ts l =
     l\<lparr>p_texturesMeta := Some ts, p_colorTextures := Some (map pt_texture ts)\<rparr>"

definition setDepthStencilTextures :: "PolyfillTexture list \<Rightarrow> layer \<Rightarrow> layer" where
  "setDepthStencilTextures ts l = l\<lparr>p_depthStencilTextures := Some (map pt_texture ts)\<rparr>"

text \<open>
  \<^verbatim>\<open>XRCompositionLayerPolyfill._allocateColorTexturesInternal(textureType, init)\<close>,
  used by quad, cylinder and equirect layers. The two branches of the source under
  layout mono make the same call, with the default of one layer.
\<close>

definition allocateColorTexturesInternal ::
  "XRSessionWithLayer \<Rightarrow> XRTextureType \<Rightarrow> XRLayerInit \<Rightarrow> layer \<Rightarrow> XRWebGLRenderingContext
     \<Rightarrow> unit layer_result" where
  "allocateColorTexturesInternal s tt ini l c =
     (if noViews (internalViews s) then (Inr (), l, c)
      else (case initializeIfNeeded s l c of
          (Inl e, l1, c1) \<Rightarrow> (Inl e, l1, c1)
        | (Inr u, l1, c1) \<Rightarrow>
            if layout l1 = layout_mono then
              (case createNewColorTexture c1 (viewPixelWidth ini) (viewPixelHeight ini) tt
                      (colorFormat ini) 1 of
                 Inl e \<Rightarrow> (Inl e, l1, c1)
               | Inr (newTexture, c2) \<Rightarrow> (Inr (), setColorTextures [newTexture] l1, c2))
            else if layout l1 = stereo then
              (if tt = texture_array then
                 (case createNewColorTexture c1 (viewPixelWidth ini) (viewPixelHeight ini) tt
                         (colorFormat ini) 2 of
                    Inl e \<Rightarrow> (Inl e, l1, c1)
                  | Inr (newTexture, c2) \<Rightarrow> (Inr (), setColorTextures [newTexture] l1, c2))
               else
                 (case createNewColorTexture c1 (viewPixelWidth ini) (viewPixelHeight ini) tt
                         (colorFormat ini) 1 of
                    Inl e \<Rightarrow> (Inl e, l1, c1)
                  | Inr (texture1, c2) \<Rightarrow>
                      (case createNewColorTexture c2 (viewPixelWidth ini) (viewPixelHeight ini)
                              tt (colorFormat ini) 1 of
                         Inl e \<Rightarrow> (Inl e, l1, c2)
                       | Inr (texture2, c3) \<Rightarrow>
                           (Inr (), setColorTextures [texture1, texture2] l1, c3))))
            else if layout l1 = stereo_left_right then
              (case createNewColorTexture c1 (viewPixelWidth ini * 2) (viewPixelHeight ini) tt
                      (colorFormat ini) 1 of
                 Inl e \<Rightarrow> (Inl e, l1, c1)
               | Inr (newTexture, c2) \<Rightarrow> (Inr (), setColorTextures [newTexture] l1, c2))
            else if layout l1 = stereo_top_bottom then
              (case createNewColorTexture c1 (viewPixelWidth ini) (viewPixelHeight ini * 2) tt
                      (colorFormat ini) 1 of
                 Inl e \<Rightarrow> (Inl e, l1, c1)
               | Inr (newTexture, c2) \<Rightarrow> (Inr (), setColorTextures [newTexture] l1, c2))
            else (Inr (), l1, c1)))"

text \<open>
  \<^verbatim>\<open>XRCompositionLayerPolyfill._allocateDepthStencilTexturesInternal(textureType,
  init)\<close>. \<^verbatim>\<open>!init.depthFormat\<close> holds for a missing format and for the format 0.
  Under layout mono the source creates the texture of the single-texture kind with
  \<^verbatim>\<open>_createNewColorTexture\<close>, which makes the same call.
\<close>

definition allocateDepthStencilTexturesInternal ::
  "XRTextureType \<Rightarrow> XRLayerInit \<Rightarrow> layer \<Rightarrow> XRWebGLRenderingContext \<Rightarrow> unit layer_result" where
  "allocateDepthStencilTexturesInternal tt ini l c =
     (case depthFormat ini of
        None \<Rightarrow> (Inr (), l\<lparr>p_depthStencilTextures := Some []\<rparr>, c)
      | Some depthFmt \<Rightarrow>
      if depthFmt = 0 then (Inr (), l\<lparr>p_depthStencilTextures := Some []\<rparr>, c)
      else if depthFmt \<notin> set (getSupportedDepthFormats c)
        then (Inl (Error ''Depth format provided is not supported in non-projection layers.''),
              l, c)
      else if mipLevels ini < 1
        then (Inl (Error ''Invalid miplevel. Miplevel needs to be >= 1''), l, c)
      else if layout l = layout_mono then
        (if tt = texture_array then
           (case createNewDepthStencilTexture c (viewPixelWidth ini) (viewPixelHeight ini) tt
                   depthFmt 1 of
              Inl e \<Rightarrow> (Inl e, l, c)
            | Inr (newTexture, c1) \<Rightarrow> (Inr (), setDepthStencilTextures [newTexture] l, c1))
         else
           (case createNewColorTexture c (viewPixelWidth ini) (viewPixelHeight ini) tt
                   depthFmt 1 of
              Inl e \<Rightarrow> (Inl e, l, c)
            | Inr (newTexture, c1) \<Rightarrow> (Inr (), setDepthStencilTextures [newTexture] l, c1)))
      else if layout l = stereo then
        (if tt = texture_array then
           (case createNewDepthStencilTexture c (viewPixelWidth ini) (viewPixelHeight ini) tt
                   depthFmt 2 of
              Inl e \<Rightarrow> (Inl e, l, c)
            | Inr (newTexture, c1) \<Rightarrow> (Inr (), setDepthStencilTextures [newTexture] l, c1))
         else
           (case createNewDepthStencilTexture c (viewPixelWidth ini) (viewPixelHeight ini) tt
                   depthFmt 1 of
              Inl e \<Rightarrow> (Inl e, l, c)
            | Inr (texture1, c1) \<Rightarrow>
                (case createNewDepthStencilTexture c1 (viewPixelWidth ini)
                        (viewPixelHeight ini) tt depthFmt 1 of
                   Inl e \<Rightarrow> (Inl e, l, c1)
                 | Inr (texture2, c2) \<Rightarrow>
                     (Inr (), setDepthStencilTextures [texture1, texture2] l, c2))))
      else if layout l = stereo_left_right then
        (case createNewDepthStencilTexture c (viewPixelWidth ini * 2) (viewPixelHeight ini) tt
                depthFmt 1 of
           Inl e \<Rightarrow> (Inl e, l, c)
         | Inr (newTexture, c1) \<Rightarrow> (Inr (), setDepthStencilTextures [newTexture] l, c1))
      else if layout l = stereo_top_bottom then
        (case createNewDepthStencilTexture c (viewPixelWidth ini) (viewPixelHeight ini * 2) tt
                depthFmt 1 of
           Inl e \<Rightarrow> (Inl e, l, c)
         | Inr (newTexture, c1) \<Rightarrow> (Inr (), setDepthStencilTextures [newTexture] l, c1))
      else (Inr (), l, c))"

subsection \<open>Cube layers: XRCubeLayer.ts\<close>

definition createCubeTexture ::
  "XRWebGLRenderingContext \<Rightarrow> XRLayerInit \<Rightarrow> GLenum
     \<Rightarrow> PolyfillTexture \<times> XRWebGLRenderingContext" where
  "createCubeTexture c ini fmt =
     (case createTexture c of (t, c') \<Rightarrow>
        (\<lparr> pt_texture = t, textureFormat = fmt, pt_width = viewPixelWidth ini,
            pt_height = viewPixelHeight ini, pt_layers = 1, pt_type = texture \<rparr>, c'))"

definition cube_allocateColorTexturesInternal ::
  "layer \<Rightarrow> XRWebGLRenderingContext \<Rightarrow> unit layer_result" where
  "cube_allocateColorTexturesInternal l c =
     (if layout l = layout_mono then
        (case createCubeTexture c (init l) (colorFormat (init l)) of (colorTexture, c1) \<Rightarrow>
           (Inr (), setColorTextures [colorTexture] l, c1))
      else
        (case createCubeTexture c (init l) (colorFormat (init l)) of (texture1, c1) \<Rightarrow>
         case createCubeTexture c1 (init l) (colorFormat (init l)) of (texture2, c2) \<Rightarrow>
           (Inr (), setColorTextures [texture1, texture2] l, c2)))"

definition cube_allocateDepthStencilTexturesInternal ::
  "layer \<Rightarrow> XRWebGLRenderingContext \<Rightarrow> unit layer_result" where
  "cube_allocateDepthStencilTexturesInternal l c =
     (let l0 = l\<lparr>p_depthStencilTextures := Some []\<rparr> in
      case depthFormat (init l) of
        None \<Rightarrow> (Inr (), l0, c)
      | Some depthFmt \<Rightarrow>
      if depthFmt = 0 then (Inr (), l0, c)
      else if version c = WebGL1 \<and> \<not> WEBGL_depth_texture c
        then (Inl (TypeError ''Depth textures not supported in the current context''), l0, c)
      else if layout l = layout_mono then
        (case createCubeTexture c (init l) depthFmt of (depthTexture, c1) \<Rightarrow>
           (Inr (), setDepthStencilTextures [depthTexture] l0, c1))
      else
        (case createCubeTexture c (init l) depthFmt of (texture1, c1) \<Rightarrow>
         case createCubeTexture c1 (init l) depthFmt of (texture2, c2) \<Rightarrow>
           (Inr (), setDepthStencilTextures [texture1, texture2] l0, c2)))"

subsection \<open>Projection layers: XRProjectionLayer.ts\<close>

text \<open>
  The loop \<^verbatim>\<open>for (let view of views)\<close> that creates one texture of the
  single-texture kind per view.
\<close>

fun createTexturePerView ::
  "XRView list \<Rightarrow> XRWebGLRenderingContext \<Rightarrow> number \<Rightarrow> number \<Rightarrow> XRTextureType \<Rightarrow> GLenum
     \<Rightarrow> error + (PolyfillTexture list \<times> XRWebGLRenderingContext)" where
  "createTexturePerView [] c w h tt fmt = Inr ([], c)"
| "createTexturePerView (v # vs) c w h tt fmt =
     (case createGenericPolyfillTexture c tt w h fmt 0 1 of
        Inl e \<Rightarrow> Inl e
      | Inr (t, c1) \<Rightarrow>
          (case createTexturePerView vs c1 w h tt fmt of
             Inl e \<Rightarrow> Inl e
           | Inr (ts, c2) \<Rightarrow> Inr (t # ts, c2)))"

text \<open>
  The textures of a projection layer under the layout of the layer: the shared part of
  \<^verbatim>\<open>_allocateProjectionColorTextures\<close> and \<^verbatim>\<open>_allocateProjectionDepthStencilTextures\<close>
  after their guards. \<open>perViewType\<close> is the kind given to the per-view textures: the
  color method passes \<^verbatim>\<open>XRTextureType.texture\<close>, the depth method
  \<^verbatim>\<open>this.init.textureType\<close>.
\<close>

definition projectionTextures ::
  "XRSessionWithLayer \<Rightarrow> XRView list \<Rightarrow> layer \<Rightarrow> XRWebGLRenderingContext \<Rightarrow> GLenum
     \<Rightarrow> XRTextureType \<Rightarrow> error + (PolyfillTexture list \<times> XRWebGLRenderingContext)" where
  "projectionTextures s vs l c fmt perViewType =
     (let numViews = length vs;
          w = framebufferWidth s * scaleFactor (init l) / of_nat numViews;
          h = framebufferHeight s * scaleFactor (init l)
      in if layout l = layout_mono \<or> layout l = layout_default then
           (if textureType (init l) = texture_array then
              (case createGenericPolyfillTexture c texture_array w h fmt 0 numViews of
                 Inl e \<Rightarrow> Inl e
               | Inr (t, c1) \<Rightarrow> Inr ([t], c1))
            else createTexturePerView vs c w h perViewType fmt)
         else if layout l = stereo_left_right then
           (case createGenericPolyfillTexture c (textureType (init l)) (w * of_nat numViews) h
                   fmt 0 1 of
              Inl e \<Rightarrow> Inl e
            | Inr (t, c1) \<Rightarrow> Inr ([t], c1))
         else if layout l = stereo_top_bottom then
           (case createGenericPolyfillTexture c (textureType (init l)) w (h * of_nat numViews)
                   fmt 0 1 of
              Inl e \<Rightarrow> Inl e
            | Inr (t, c1) \<Rightarrow> Inr ([t], c1))
         else Inr ([], c))"

definition allocateProjectionColorTextures ::
  "XRSessionWithLayer \<Rightarrow> layer \<Rightarrow> XRWebGLRenderingContext \<Rightarrow> unit layer_result" where
  "allocateProjectionColorTextures s l c =
     (case internalViews s of
        None \<Rightarrow> (Inr (), l, c)
      | Some vs \<Rightarrow>
      if length vs = 0 then (Inr (), l, c)
      else (case projectionTextures s vs l c (colorFormat (init l)) texture of
              Inl e \<Rightarrow> (Inl e, l, c)
            | Inr (ts, c1) \<Rightarrow> (Inr (), setColorTextures ts l, c1)))"

text \<open>
  The depth format of a projection init is never missing (the default 0x1902 is merged
  in by the constructor); the method tests it against 0 only.
\<close>

definition allocateProjectionDepthStencilTextures ::
  "XRSessionWithLayer \<Rightarrow> layer \<Rightarrow> XRWebGLRenderingContext \<Rightarrow> unit layer_result" where
  "allocateProjectionDepthStencilTextures s l c =
     (case internalViews s of
        None \<Rightarrow> (Inr (), l, c)
      | Some vs \<Rightarrow>
      if length vs = 0 then (Inr (), l, c)
      else if depthFormat (init l) = Some 0
        then (Inr (), l\<lparr>p_depthStencilTextures := Some []\<rparr>, c)
      else if version c = WebGL1 \<and> \<not> WEBGL_depth_texture c
        then (Inr (), l\<lparr>p_depthStencilTextures := Some []\<rparr>, c)
      else (case initializeIfNeeded s l c of
              (Inl e, l1, c1) \<Rightarrow> (Inl e, l1, c1)
            | (Inr u, l1, c1) \<Rightarrow>
                (case projectionTextures s vs l1 c1
                        (case depthFormat (init l1) of None \<Rightarrow> 0 | Some f \<Rightarrow> f)
                        (textureType (init l1)) of
                   Inl e \<Rightarrow> (Inl e, l1, c1)
                 | Inr (ts, c2) \<Rightarrow> (Inr (), setDepthStencilTextures ts l1, c2))))"

section \<open>The texture getters of a layer\<close>

text \<open>
  \<^verbatim>\<open>get colorTextures()\<close>, \<^verbatim>\<open>get depthStencilTextures()\<close> and
  \<^verbatim>\<open>get colorTexturesMeta()\<close>: of \<^verbatim>\<open>XRProjectionLayer\<close>; of \<^verbatim>\<open>XRQuadLayer\<close>,
  \<^verbatim>\<open>XRCylinderLayer\<close> and \<^verbatim>\<open>XREquirectLayer\<close> (the same text in the three); and of
  the base class, which a cube layer inherits. A getter allocates when the field is
  missing or empty and returns the field as it then is, possibly still \<^verbatim>\<open>undefined\<close>.
\<close>

definition get_colorTextures ::
  "XRSessionWithLayer \<Rightarrow> layer \<Rightarrow> XRWebGLRenderingContext
     \<Rightarrow> (WebGLTexture list option) layer_result" where
  "get_colorTextures s l c =
     (case kind l of
        Cube \<Rightarrow> (Inr (p_colorTextures l), l, c)
      | Projection \<Rightarrow>
          (if isEmptyList (p_colorTextures l) then
             (case allocateProjectionColorTextures s l c of
                (Inl e, l1, c1) \<Rightarrow> (Inl e, l1, c1)
              | (Inr u, l1, c1) \<Rightarrow> (Inr (p_colorTextures l1), l1, c1))
           else (Inr (p_colorTextures l), l, c))
      | _ \<Rightarrow>
          (if isMediaLayer l
             then (Inl (Error ''Media layers do not have associated textures''), l, c)
           else if isEmptyList (p_colorTextures l) then
             (case allocateColorTexturesInternal s (getTextureType l) (init l) l c of
                (Inl e, l1, c1) \<Rightarrow> (Inl e, l1, c1)
              | (Inr u, l1, c1) \<Rightarrow> (Inr (p_colorTextures l1), l1, c1))
           else (Inr (p_colorTextures l), l, c)))"

definition get_colorTexturesMeta ::
  "XRSessionWithLayer \<Rightarrow> layer \<Rightarrow> XRWebGLRenderingContext
     \<Rightarrow> (PolyfillTexture list option) layer_result" where
  "get_colorTexturesMeta s l c =
     (case kind l of
        Cube \<Rightarrow> (Inr (p_texturesMeta l), l, c)
      | Projection \<Rightarrow>
          (if isEmptyList (p_colorTextures l) then
             (case allocateProjectionColorTextures s l c of
                (Inl e, l1, c1) \<Rightarrow> (Inl e, l1, c1)
              | (Inr u, l1, c1) \<Rightarrow> (Inr (p_texturesMeta l1), l1, c1))
           else (Inr (p_texturesMeta l), l, c))
      | _ \<Rightarrow>
          (if isMediaLayer l
             then (Inl (Error ''Media layers do not have associated textures''), l, c)
           else if isEmptyList (p_colorTextures l) then
             (case allocateColorTexturesInternal s (getTextureType l) (init l) l c of
                (Inl e, l1, c1) \<Rightarrow> (Inl e, l1, c1)
              | (Inr u, l1, c1) \<Rightarrow> (Inr (p_texturesMeta l1), l1, c1))
           else (Inr (p_texturesMeta l), l, c)))"

text \<open>
  The projection getter allocates only while the field is \<^verbatim>\<open>undefined\<close> and returns
  \<^verbatim>\<open>this._depthStencilTextures || []\<close>.
\<close>

definition get_depthStencilTextures ::
  "XRSessionWithLayer \<Rightarrow> layer \<Rightarrow> XRWebGLRenderingContext
     \<Rightarrow> (WebGLTexture list option) layer_result" where
  "get_depthStencilTextures s l c =
     (case kind l of
        Cube \<Rightarrow> (Inr (p_depthStencilTextures l), l, c)
      | Projection \<Rightarrow>
          (if p_depthStencilTextures l = None then
             (case allocateProjectionDepthStencilTextures s l c of
                (Inl e, l1, c1) \<Rightarrow> (Inl e, l1, c1)
              | (Inr u, l1, c1) \<Rightarrow>
                  (Inr (Some (case p_depthStencilTextures l1 of None \<Rightarrow> [] | Some ts \<Rightarrow> ts)),
                   l1, c1))
           else (Inr (p_depthStencilTextures l), l, c))
      | _ \<Rightarrow>
          (if isMediaLayer l
             then (Inl (Error ''Media layers do not have associated textures''), l, c)
           else if isEmptyList (p_depthStencilTextures l) then
             (case allocateDepthStencilTexturesInternal (getTextureType l) (init l) l c of
                (Inl e, l1, c1) \<Rightarrow> (Inl e, l1, c1)
              | (Inr u, l1, c1) \<Rightarrow> (Inr (p_depthStencilTextures l1), l1, c1))
           else (Inr (p_depthStencilTextures l), l, c)))"

text \<open>
  \<^verbatim>\<open>XRCompositionLayerPolyfill.destroy()\<close>, which no layer class overrides: the two
  texture arrays become empty arrays; the metadata, the layout and the flag of the
  deferred initialisation stay.
\<close>

definition destroy :: "layer \<Rightarrow> layer" where
  "destroy l = l\<lparr>p_colorTextures := Some [], p_depthStencilTextures := Some []\<rparr>"

section \<open>The binding and its world\<close>

text \<open>
  \<^verbatim>\<open>XRWebGLSubImagePolyfill\<close>: the constructor assigns the viewport only; the other
  fields are \<^verbatim>\<open>undefined\<close> until \<^verbatim>\<open>getSubImage\<close> or \<^verbatim>\<open>getViewSubImage\<close> assigns
  them (\<^verbatim>\<open>depthStencilTexture\<close> may be assigned \<^verbatim>\<open>null\<close>, which is \<open>None\<close> as
  well).
\<close>

record XRWebGLSubImage =
  colorTexture :: "WebGLTexture option"
  depthStencilTexture :: "WebGLTexture option"
  imageIndex :: "int option"
  textureWidth :: "number option"
  textureHeight :: "number option"
  viewport :: XRViewportPolyfill

definition new_XRWebGLSubImagePolyfill :: XRWebGLSubImage where
  "new_XRWebGLSubImagePolyfill =
     \<lparr> colorTexture = None, depthStencilTexture = None, imageIndex = None,
       textureWidth = None, textureHeight = None,
       viewport = \<lparr> vp_x = 0, vp_y = 0, vp_width = 0, vp_height = 0 \<rparr> \<rparr>"

record XRFrame =
  frame_session :: nat

text \<open>
  The world of one \<^verbatim>\<open>XRWebGLBindingPolyfill\<close>: its session, its context, the layer
  objects, and the sub-image objects it has created, each object under its identity.
  \<^verbatim>\<open>SubImageCache\<close> is the two nested \<^verbatim>\<open>Map\<close>s of the source, keyed by the identity
  of the context, of the layer and (for \<open>viewCache\<close>) of the view.
\<close>

record world =
  binding_session :: XRSessionWithLayer
  binding_context :: XRWebGLRenderingContext
  layers :: "nat \<rightharpoonup> layer"
  layersCreated :: nat
  subimages :: "nat \<rightharpoonup> XRWebGLSubImage"
  subimagesCreated :: nat
  cache :: "nat \<rightharpoonup> (nat \<rightharpoonup> (XREye \<rightharpoonup> nat))"
  viewCache :: "nat \<rightharpoonup> (nat \<rightharpoonup> (nat \<rightharpoonup> nat))"

definition cacheSubImage :: "nat \<Rightarrow> nat \<Rightarrow> nat \<Rightarrow> XREye \<Rightarrow> world \<Rightarrow> world" where
  "cacheSubImage subimage ctx lid e w =
     (let eyeMap = Map.empty(e \<mapsto> subimage);
          layerMap = Map.empty(lid \<mapsto> eyeMap)
      in w\<lparr>cache := (cache w)(ctx \<mapsto> layerMap)\<rparr>)"

definition tryGetCachedSubImage :: "world \<Rightarrow> nat \<Rightarrow> nat \<Rightarrow> XREye \<Rightarrow> nat option" where
  "tryGetCachedSubImage w ctx lid e =
     (case cache w ctx of
        None \<Rightarrow> None
      | Some layerMap \<Rightarrow>
          (case layerMap lid of None \<Rightarrow> None | Some eyeMap \<Rightarrow> eyeMap e))"

definition cacheViewSubImage :: "nat \<Rightarrow> nat \<Rightarrow> nat \<Rightarrow> XRView \<Rightarrow> world \<Rightarrow> world" where
  "cacheViewSubImage subimage ctx lid v w =
     (let viewMap = Map.empty(view_id v \<mapsto> subimage);
          layerMap = Map.empty(lid \<mapsto> viewMap)
      in w\<lparr>viewCache := (viewCache w)(ctx \<mapsto> layerMap)\<rparr>)"

definition tryGetCachedViewSubImage :: "world \<Rightarrow> nat \<Rightarrow> nat \<Rightarrow> XRView \<Rightarrow> nat option" where
  "tryGetCachedViewSubImage w ctx lid v =
     (case viewCache w ctx of
        None \<Rightarrow> None
      | Some layerMap \<Rightarrow>
          (case layerMap lid of None \<Rightarrow> None | Some viewMap \<Rightarrow> viewMap (view_id v)))"

text \<open>\<^verbatim>\<open>new XRWebGLSubImagePolyfill()\<close>: a new object, under a new identity.\<close>

definition newSubImage :: "world \<Rightarrow> nat \<times> world" where
  "newSubImage w =
     (subimagesCreated w,
      w\<lparr>subimages := (subimages w)(subimagesCreated w \<mapsto> new_XRWebGLSubImagePolyfill),
        subimagesCreated := Suc (subimagesCreated w)\<rparr>)"

definition queueTask :: "task \<Rightarrow> world \<Rightarrow> world" where
  "queueTask t w = w\<lparr>binding_session := (binding_session w)\<lparr>taskQueue := taskQueue (binding_session w) @ [t]\<rparr>\<rparr>"

definition putLayer :: "nat \<Rightarrow> layer \<Rightarrow> XRWebGLRenderingContext \<Rightarrow> world \<Rightarrow> world" where
  "putLayer lid l c w = w\<lparr>layers := (layers w)(lid \<mapsto> l), binding_context := c\<rparr>"

text \<open>\<^verbatim>\<open>layer.destroy()\<close>, called on the layer of the given identity.\<close>

definition destroyLayer :: "nat \<Rightarrow> world \<Rightarrow> world" where
  "destroyLayer lid w =
     (case layers w lid of
        None \<Rightarrow> w
      | Some l \<Rightarrow> w\<lparr>layers := (layers w)(lid \<mapsto> destroy l)\<rparr>)"

text \<open>JavaScript indexing: an index outside the array gives \<^verbatim>\<open>undefined\<close>.\<close>

definition js_index :: "'a list \<Rightarrow> int \<Rightarrow> 'a option" where
  "js_index xs i = (if 0 \<le> i \<and> nat i < length xs then Some (xs ! nat i) else None)"

subsection \<open>getSubImage\<close>

text \<open>
  \<^verbatim>\<open>validateStateofSubImageCreation(layer, frame)\<close>. The binding's session and context
  are those of the world. \<^verbatim>\<open>!layer.colorTextures || !layer.colorTextures.length\<close>
  runs the getter once, and once more when the first result is not \<^verbatim>\<open>undefined\<close>.
  Reading a member of \<^verbatim>\<open>undefined\<close> is a \<^verbatim>\<open>TypeError\<close> of the language.
\<close>

definition validateStateofSubImageCreation ::
  "XRSessionWithLayer \<Rightarrow> XRFrame \<Rightarrow> layer \<Rightarrow> XRWebGLRenderingContext \<Rightarrow> bool layer_result" where
  "validateStateofSubImageCreation s frame l c =
     (if Some (frame_session frame) \<noteq> layer_session l then (Inr False, l, c)
      else if Some (session_id s) \<noteq> layer_session l then (Inr False, l, c)
      else if Some (context_id c) \<noteq> layer_context l then (Inr False, l, c)
      else (case get_colorTextures s l c of
          (Inl e, l1, c1) \<Rightarrow> (Inl e, l1, c1)
        | (Inr None, l1, c1) \<Rightarrow> (Inr False, l1, c1)
        | (Inr (Some ts1), l1, c1) \<Rightarrow>
            (case get_colorTextures s l1 c1 of
               (Inl e, l2, c2) \<Rightarrow> (Inl e, l2, c2)
             | (Inr None, l2, c2) \<Rightarrow> (Inl (TypeError ''length of undefined''), l2, c2)
             | (Inr (Some ts2), l2, c2) \<Rightarrow>
                 if length ts2 = 0 then (Inr False, l2, c2)
                 else if isStatic l2 \<and> needsRedraw l2 = Some False then (Inr False, l2, c2)
                 else (Inr True, l2, c2))))"

text \<open>
  Lines 210 to 219 of \<^verbatim>\<open>XRWebGLBinding.ts\<close>: the texture slot is chosen by the eye
  under layout stereo only.
\<close>

definition selectIndex :: "XRLayerLayout \<Rightarrow> XREye \<Rightarrow> error + nat" where
  "selectIndex lay e =
     (if lay = stereo then
        (if e = eye_none then Inl (TypeError '''')
         else if e = eye_right then Inr 1 else Inr 0)
      else Inr 0)"

text \<open>
  Lines 243 to 249: \<^verbatim>\<open>subimage.depthStencilTexture\<close>, with one run of the getter
  for each time the source reads \<^verbatim>\<open>layer.depthStencilTextures\<close>.
\<close>

definition subImageDepthStencilTexture ::
  "XRSessionWithLayer \<Rightarrow> nat \<Rightarrow> layer \<Rightarrow> XRWebGLRenderingContext
     \<Rightarrow> (WebGLTexture option) layer_result" where
  "subImageDepthStencilTexture s index l c =
     (case get_depthStencilTextures s l c of
        (Inl e, l1, c1) \<Rightarrow> (Inl e, l1, c1)
      | (Inr None, l1, c1) \<Rightarrow> (Inr None, l1, c1)
      | (Inr (Some d1), l1, c1) \<Rightarrow>
          (case get_depthStencilTextures s l1 c1 of
             (Inl e, l2, c2) \<Rightarrow> (Inl e, l2, c2)
           | (Inr None, l2, c2) \<Rightarrow> (Inl (TypeError ''length of undefined''), l2, c2)
           | (Inr (Some d2), l2, c2) \<Rightarrow>
               if length d2 = 0 then (Inr None, l2, c2)
               else (case get_depthStencilTextures s l2 c2 of
                   (Inl e, l3, c3) \<Rightarrow> (Inl e, l3, c3)
                 | (Inr None, l3, c3) \<Rightarrow> (Inl (TypeError ''index of undefined''), l3, c3)
                 | (Inr (Some d3), l3, c3) \<Rightarrow>
                     (Inr (js_index d3 (if getTextureType l2 = texture then int index else 0)),
                      l3, c3))))"

text \<open>
  Lines 210 to 267: the fields of the sub-image, from the layer as validation has left
  it. The source assigns them to the new object one by one; the model builds the object
  once all of them are known.
\<close>

definition resolveSubImage ::
  "XRSessionWithLayer \<Rightarrow> XREye \<Rightarrow> layer \<Rightarrow> XRWebGLRenderingContext
     \<Rightarrow> XRWebGLSubImage layer_result" where
  "resolveSubImage s e l c =
     (case selectIndex (layout l) e of
        Inl err \<Rightarrow> (Inl err, l, c)
      | Inr index \<Rightarrow>
      (let imgIndex = (if getTextureType l = texture_array then int index else 0);
           textureIndex = (if getTextureType l = texture then int index else 0)
       in case get_colorTextures s l c of
          (Inl err, l1, c1) \<Rightarrow> (Inl err, l1, c1)
        | (Inr None, l1, c1) \<Rightarrow> (Inl (TypeError ''index of undefined''), l1, c1)
        | (Inr (Some cts), l1, c1) \<Rightarrow>
      (case subImageDepthStencilTexture s index l1 c1 of
          (Inl err, l2, c2) \<Rightarrow> (Inl err, l2, c2)
        | (Inr depth, l2, c2) \<Rightarrow>
      (case get_colorTexturesMeta s l2 c2 of
          (Inl err, l3, c3) \<Rightarrow> (Inl err, l3, c3)
        | (Inr None, l3, c3) \<Rightarrow> (Inl (TypeError ''index of undefined''), l3, c3)
        | (Inr (Some metas), l3, c3) \<Rightarrow>
      (case js_index metas textureIndex of
          None \<Rightarrow> (Inl (TypeError ''width of undefined''), l3, c3)
        | Some layerMeta \<Rightarrow>
      (let viewsPerTexture =
             (if layout l3 = stereo_left_right \<or> layout l3 = stereo_top_bottom
              then 2 else 1)
       in (Inr \<lparr> colorTexture = js_index cts textureIndex,
                  depthStencilTexture = depth,
                  imageIndex = Some imgIndex,
                  textureWidth = Some (pt_width layerMeta),
                  textureHeight = Some (pt_height layerMeta),
                  viewport = initializeViewport layerMeta (layout l3) (of_nat index)
                               viewsPerTexture \<rparr>, l3, c3)))))))"

text \<open>
  \<^verbatim>\<open>XRWebGLBindingPolyfill.getSubImage(layer, frame, eye)\<close>. The layer is passed by
  its identity; the result is the identity of the sub-image returned. A throw leaves
  the world as it is at that point.
\<close>

definition getSubImage :: "nat \<Rightarrow> XRFrame \<Rightarrow> XREye \<Rightarrow> world \<Rightarrow> (error + nat) \<times> world" where
  "getSubImage lid frame e w =
     (case layers w lid of
        None \<Rightarrow> (Inl (TypeError ''isStatic of undefined''), w)
      | Some l \<Rightarrow>
      if isStatic l \<and> needsRedraw l = Some False
        then (Inl (Error ''Invalid state for subimage creation''), w)
      else (case tryGetCachedSubImage w (context_id (binding_context w)) lid e of
          Some existingSubImage \<Rightarrow> (Inr existingSubImage, w)
        | None \<Rightarrow>
      (case newSubImage w of (subimage, w1) \<Rightarrow>
       if kind l = Projection then (Inl (TypeError ''''), w1)
       else if layout l = layout_default then (Inl (TypeError ''''), w1)
       else (case validateStateofSubImageCreation (binding_session w1) frame l (binding_context w1) of
          (Inl err, l1, c1) \<Rightarrow> (Inl err, putLayer lid l1 c1 w1)
        | (Inr False, l1, c1) \<Rightarrow>
            (Inl (Error ''Invalid state for subimage creation''), putLayer lid l1 c1 w1)
        | (Inr True, l1, c1) \<Rightarrow>
      (case resolveSubImage (binding_session w1) e l1 c1 of
          (Inl err, l2, c2) \<Rightarrow> (Inl err, putLayer lid l2 c2 w1)
        | (Inr si, l2, c2) \<Rightarrow>
            (let w2 = putLayer lid l2 c2 w1;
                 w3 = w2\<lparr>subimages := (subimages w2)(subimage \<mapsto> si)\<rparr>;
                 w4 = queueTask (ClearNeedsRedraw lid) w3
             in (Inr subimage, cacheSubImage subimage (context_id (binding_context w4)) lid e w4)))))))"

subsection \<open>The deferred tasks of the session\<close>

text \<open>
  The loop at the end of the injected frame callback of \<^verbatim>\<open>XRSessionWithLayer\<close>:
  \<^verbatim>\<open>while (this.taskQueue.length > 0) { const task = this.taskQueue.shift(); task() }\<close>.
  A task does not queue tasks, so the loop is a recursion over the queue.
\<close>

definition runTask :: "task \<Rightarrow> (nat \<rightharpoonup> layer) \<Rightarrow> (nat \<rightharpoonup> layer)" where
  "runTask t ls =
     (case t of ClearNeedsRedraw lid \<Rightarrow>
        (case ls lid of
           None \<Rightarrow> ls
         | Some l \<Rightarrow> ls(lid \<mapsto> l\<lparr>needsRedraw := Some False\<rparr>)))"

fun runTasks :: "task list \<Rightarrow> (nat \<rightharpoonup> layer) \<Rightarrow> (nat \<rightharpoonup> layer)" where
  "runTasks [] ls = ls"
| "runTasks (t # ts) ls = runTasks ts (runTask t ls)"

definition runTaskQueue :: "world \<Rightarrow> world" where
  "runTaskQueue w =
     w\<lparr>layers := runTasks (taskQueue (binding_session w)) (layers w),
       binding_session := (binding_session w)\<lparr>taskQueue := []\<rparr>\<rparr>"

subsection \<open>getViewSubImage\<close>

text \<open>
  \<^verbatim>\<open>XRSessionWithLayer.getViewIndex(view)\<close>: the position of the first view of the
  session with the eye and the viewport scale of the given one, or -1.
\<close>

fun findViewIndex :: "XRView list \<Rightarrow> XRView \<Rightarrow> nat \<Rightarrow> int" where
  "findViewIndex [] view i = - 1"
| "findViewIndex (testView # rest) view i =
     (if v_eye view = v_eye testView
         \<and> recommendedViewportScale view = recommendedViewportScale testView
      then int i else findViewIndex rest view (Suc i))"

definition getViewIndex :: "XRView list \<Rightarrow> XRView \<Rightarrow> int" where
  "getViewIndex vs view = findViewIndex vs view 0"

text \<open>
  \<^verbatim>\<open>layer.colorTexturesMeta[_textureIndex]\<close>, read for a member or handed to
  \<^verbatim>\<open>initializeViewport\<close>, which reads its members.
\<close>

definition colorTexturesMetaAt ::
  "XRSessionWithLayer \<Rightarrow> int \<Rightarrow> layer \<Rightarrow> XRWebGLRenderingContext
     \<Rightarrow> PolyfillTexture layer_result" where
  "colorTexturesMetaAt s i l c =
     (case get_colorTexturesMeta s l c of
        (Inl err, l1, c1) \<Rightarrow> (Inl err, l1, c1)
      | (Inr None, l1, c1) \<Rightarrow> (Inl (TypeError ''index of undefined''), l1, c1)
      | (Inr (Some metas), l1, c1) \<Rightarrow>
          (case js_index metas i of
             None \<Rightarrow> (Inl (TypeError ''width of undefined''), l1, c1)
           | Some m \<Rightarrow> (Inr m, l1, c1)))"

text \<open>Lines 306 to 354 of \<^verbatim>\<open>XRWebGLBinding.ts\<close>, for a session with views \<open>vs\<close>.\<close>

definition resolveViewSubImage ::
  "XRSessionWithLayer \<Rightarrow> XRView list \<Rightarrow> int \<Rightarrow> layer \<Rightarrow> XRWebGLRenderingContext
     \<Rightarrow> XRWebGLSubImage layer_result" where
  "resolveViewSubImage s vs index l c =
     (let imgIndex = (if getTextureType l = texture_array then index else 0);
          textureIndex =
            (if layout l = layout_default \<and> getTextureType l = texture then index else 0)
      in case get_colorTextures s l c of
          (Inl err, l1, c1) \<Rightarrow> (Inl err, l1, c1)
        | (Inr None, l1, c1) \<Rightarrow> (Inl (TypeError ''index of undefined''), l1, c1)
        | (Inr (Some cts), l1, c1) \<Rightarrow>
      (case get_depthStencilTextures s l1 c1 of
          (Inl err, l2, c2) \<Rightarrow> (Inl err, l2, c2)
        | (Inr None, l2, c2) \<Rightarrow> (Inl (TypeError ''length of undefined''), l2, c2)
        | (Inr (Some d1), l2, c2) \<Rightarrow>
      (case (if length d1 = 0 then (Inr None, l2, c2)
             else (case get_depthStencilTextures s l2 c2 of
                 (Inl err, l3, c3) \<Rightarrow> (Inl err, l3, c3)
               | (Inr None, l3, c3) \<Rightarrow> (Inl (TypeError ''index of undefined''), l3, c3)
               | (Inr (Some d2), l3, c3) \<Rightarrow>
                   (Inr (js_index d2
                           (if layout l2 = layout_default \<and> getTextureType l2 = texture
                            then index else 0)), l3, c3))) of
          (Inl err, l3, c3) \<Rightarrow> (Inl err, l3, c3)
        | (Inr depth, l3, c3) \<Rightarrow>
      (case colorTexturesMetaAt s textureIndex l3 c3 of
          (Inl err, l4, c4) \<Rightarrow> (Inl err, l4, c4)
        | (Inr metaW, l4, c4) \<Rightarrow>
      (case colorTexturesMetaAt s textureIndex l4 c4 of
          (Inl err, l5, c5) \<Rightarrow> (Inl err, l5, c5)
        | (Inr metaH, l5, c5) \<Rightarrow>
      (case colorTexturesMetaAt s textureIndex l5 c5 of
          (Inl err, l6, c6) \<Rightarrow> (Inl err, l6, c6)
        | (Inr meta, l6, c6) \<Rightarrow>
          (Inr \<lparr> colorTexture = js_index cts textureIndex,
                 depthStencilTexture = depth,
                 imageIndex = Some imgIndex,
                 textureWidth = Some (pt_width metaW),
                 textureHeight = Some (pt_height metaH),
                 viewport = initializeViewport meta (layout l6) (of_int index)
                              (of_nat (length vs)) \<rparr>, l6, c6)))))))"

text \<open>
  \<^verbatim>\<open>XRWebGLBindingPolyfill.getViewSubImage(layer, view)\<close>. The layer it is given is
  taken to be one of this binding's context, as the layers made by
  \<^verbatim>\<open>createProjectionLayer\<close> are: the method does not check it.
\<close>

definition getViewSubImage :: "nat \<Rightarrow> XRView \<Rightarrow> world \<Rightarrow> (error + nat) \<times> world" where
  "getViewSubImage lid view w =
     (case tryGetCachedViewSubImage w (context_id (binding_context w)) lid view of
        Some existingSubImage \<Rightarrow> (Inr existingSubImage, w)
      | None \<Rightarrow>
      (case newSubImage w of (subimage, w1) \<Rightarrow>
      (case internalViews (binding_session w1) of
         None \<Rightarrow> (Inr subimage, w1)
       | Some vs \<Rightarrow>
       if length vs = 0 then (Inr subimage, w1)
       else (case layers w1 lid of
          None \<Rightarrow> (Inl (TypeError ''getTextureType of undefined''), w1)
        | Some l \<Rightarrow>
      (case resolveViewSubImage (binding_session w1) vs (getViewIndex vs view) l
              (binding_context w1) of
          (Inl err, l1, c1) \<Rightarrow> (Inl err, putLayer lid l1 c1 w1)
        | (Inr si, l1, c1) \<Rightarrow>
            (let w2 = putLayer lid (l1\<lparr>needsRedraw := Some False\<rparr>) c1 w1;
                 w3 = w2\<lparr>subimages := (subimages w2)(subimage \<mapsto> si)\<rparr>
             in (Inr subimage,
                 cacheViewSubImage subimage (context_id (binding_context w3)) lid view w3)))))))"

section \<open>Creating layers\<close>

text \<open>
  The constructor of \<^verbatim>\<open>XRQuadLayer\<close>, \<^verbatim>\<open>XRCylinderLayer\<close> and
  \<^verbatim>\<open>XREquirectLayer\<close> for a layer without media. The defaults merged into the init
  that the model keeps are the \<^verbatim>\<open>width\<close> and \<^verbatim>\<open>height\<close> 1.0 of a quad layer and the
  \<^verbatim>\<open>aspectRatio\<close> 2.0 of a cylinder layer.
\<close>

definition withDefault :: "'a \<Rightarrow> 'a option \<Rightarrow> 'a option" where
  "withDefault d v = (case v of None \<Rightarrow> Some d | Some a \<Rightarrow> Some a)"

definition new_layer :: "layer_kind \<Rightarrow> XRLayerInit \<Rightarrow> layer" where
  "new_layer k ini =
     (let ini1 = (if k = Quad
                  then ini\<lparr>init_width := withDefault 1 (init_width ini),
                           init_height := withDefault 1 (init_height ini)\<rparr>
                  else if k = Cylinder
                  then ini\<lparr>init_aspectRatio := withDefault 2 (init_aspectRatio ini)\<rparr>
                  else ini)
      in \<lparr> kind = k, media = None, init = ini1, layout = init_layout ini1,
           needsRedraw = None, isStatic = init_isStatic ini,
           layer_session = None, layer_context = None,
           p_colorTextures = None, p_depthStencilTextures = None, p_texturesMeta = None,
           hasRunDeferredInitialize = False,
           quad_width = (if k = Quad then init_width ini1 else None),
           quad_height = (if k = Quad then init_height ini1 else None),
           aspectRatio = (if k = Cylinder then init_aspectRatio ini1 else None) \<rparr>)"

definition new_XREquirectLayer :: "XRLayerInit \<Rightarrow> error + layer" where
  "new_XREquirectLayer ini =
     (if \<not> isReferenceSpace (space ini)
        then Inl (TypeError ''Equirect layer's space needs to be an XRReferenceSpace'')
      else Inr (new_layer Equirect ini))"

text \<open>
  The constructor of \<^verbatim>\<open>XRCubeLayer\<close>; the \<^verbatim>\<open>switch\<close> throws for three of the five
  layouts.
\<close>

definition new_XRCubeLayer :: "XRLayerInit \<Rightarrow> error + layer" where
  "new_XRCubeLayer ini =
     (if \<not> isReferenceSpace (space ini)
        then Inl (TypeError ''XRCubeLayer's space needs to be an XRReferenceSpace'')
      else (case init_layout ini of
          layout_default \<Rightarrow> Inl (TypeError ''Invalid layout format for XRCubeLayer'')
        | stereo_left_right \<Rightarrow> Inl (TypeError ''Invalid layout format for XRCubeLayer'')
        | stereo_top_bottom \<Rightarrow> Inl (TypeError ''Invalid layout format for XRCubeLayer'')
        | _ \<Rightarrow>
            Inr ((new_layer Cube ini)\<lparr>layout := init_layout ini, needsRedraw := Some True\<rparr>)))"

text \<open>
  The constructor of \<^verbatim>\<open>XRProjectionLayer\<close> merges the default depth format 0x1902
  into the init. It assigns neither \<^verbatim>\<open>layout\<close> nor \<^verbatim>\<open>isStatic\<close>; both are assigned by
  the deferred initialisation that \<^verbatim>\<open>initialize\<close> runs before the layer is handed out,
  and \<open>layout_default\<close> stands for the missing layout until then.
\<close>

definition new_XRProjectionLayer :: "XRLayerInit \<Rightarrow> layer" where
  "new_XRProjectionLayer ini =
     (new_layer Projection (ini\<lparr>depthFormat := withDefault 6402 (depthFormat ini)\<rparr>))
       \<lparr>layout := layout_default, isStatic := False\<rparr>"

text \<open>\<^verbatim>\<open>XRCompositionLayerPolyfill.initialize(session, context)\<close>.\<close>

definition initialize ::
  "XRSessionWithLayer \<Rightarrow> XRWebGLRenderingContext option \<Rightarrow> layer \<Rightarrow> layer" where
  "initialize s c l =
     (case c of
        None \<Rightarrow> l\<lparr>layer_session := Some (session_id s)\<rparr>
      | Some ctx \<Rightarrow>
          l\<lparr>layer_session := Some (session_id s), layer_context := Some (context_id ctx)\<rparr>)"

definition addLayer :: "layer \<Rightarrow> world \<Rightarrow> nat \<times> world" where
  "addLayer l w =
     (layersCreated w,
      w\<lparr>layers := (layers w)(layersCreated w \<mapsto> l), layersCreated := Suc (layersCreated w)\<rparr>)"

subsection \<open>The factory methods of XRWebGLBindingPolyfill\<close>

definition createProjectionLayer :: "XRLayerInit \<Rightarrow> world \<Rightarrow> (error + nat) \<times> world" where
  "createProjectionLayer ini w =
     (let l = new_XRProjectionLayer ini in
      if ended (binding_session w) then (Inl (Error ''Session has ended''), w)
      else if contextLost (binding_context w) then (Inl (Error ''context is lost''), w)
      else (case initializeIfNeeded (binding_session w)
                   (initialize (binding_session w) (Some (binding_context w)) l)
                   (binding_context w) of
          (Inl err, l1, c1) \<Rightarrow> (Inl err, w)
        | (Inr u, l1, c1) \<Rightarrow>
            (case addLayer l1 (w\<lparr>binding_context := c1\<rparr>) of (lid, w1) \<Rightarrow> (Inr lid, w1))))"

definition createQuadLayer :: "XRLayerInit \<Rightarrow> world \<Rightarrow> (error + nat) \<times> world" where
  "createQuadLayer ini w =
     (if ended (binding_session w) then (Inl (Error ''Session has ended''), w)
      else if contextLost (binding_context w) then (Inl (Error ''context is lost''), w)
      else if init_layout ini = layout_default
        then (Inl (TypeError ''Trying to create a quad layer with default layout''), w)
      else (case addLayer (initialize (binding_session w) (Some (binding_context w))
                             (new_layer Quad ini)) w of
              (lid, w1) \<Rightarrow> (Inr lid, w1)))"

definition createCylinderLayer :: "XRLayerInit \<Rightarrow> world \<Rightarrow> (error + nat) \<times> world" where
  "createCylinderLayer ini w =
     (if ended (binding_session w) then (Inl (Error ''Session has ended''), w)
      else if contextLost (binding_context w) then (Inl (Error ''context is lost''), w)
      else if init_layout ini = layout_default
        then (Inl (TypeError ''Cylinder Layer cannot have a default layout''), w)
      else (case addLayer (initialize (binding_session w) (Some (binding_context w))
                             (new_layer Cylinder ini)) w of
              (lid, w1) \<Rightarrow> (Inr lid, w1)))"

definition createEquirectLayer :: "XRLayerInit \<Rightarrow> world \<Rightarrow> (error + nat) \<times> world" where
  "createEquirectLayer ini w =
     (if ended (binding_session w) then (Inl (Error ''Session has ended''), w)
      else if contextLost (binding_context w) then (Inl (Error ''context is lost''), w)
      else if init_layout ini = layout_default
        then (Inl (TypeError ''Equirect Layer cannot have a default layout''), w)
      else if \<not> isReferenceSpace (space ini)
        then (Inl (TypeError ''Equirect layer requires an XRReferenceSpace''), w)
      else (case new_XREquirectLayer ini of
          Inl err \<Rightarrow> (Inl err, w)
        | Inr l \<Rightarrow>
            (case addLayer (initialize (binding_session w) (Some (binding_context w)) l) w of
               (lid, w1) \<Rightarrow> (Inr lid, w1))))"

text \<open>
  \<^verbatim>\<open>createCubeLayer\<close>: \<^verbatim>\<open>XRCubeLayer.initialize\<close> allocates the color and the
  depth textures at once.
\<close>

definition createCubeLayer :: "XRLayerInit \<Rightarrow> world \<Rightarrow> (error + nat) \<times> world" where
  "createCubeLayer ini w =
     (if ended (binding_session w) then (Inl (Error ''Session has ended''), w)
      else if contextLost (binding_context w) then (Inl (Error ''context is lost''), w)
      else if version (binding_context w) \<noteq> WebGL2
        then (Inl (Error ''XRCubeLayer only work on WebGL2''), w)
      else if \<not> isReferenceSpace (space ini)
        then (Inl (TypeError ''XRCubeLayer requires a space of type XRReferenceSpace''), w)
      else (case new_XRCubeLayer ini of
          Inl err \<Rightarrow> (Inl err, w)
        | Inr l \<Rightarrow>
      (case cube_allocateColorTexturesInternal
              (initialize (binding_session w) (Some (binding_context w)) l)
              (binding_context w) of
          (Inl err, l1, c1) \<Rightarrow> (Inl err, w\<lparr>binding_context := c1\<rparr>)
        | (Inr u, l1, c1) \<Rightarrow>
      (case cube_allocateDepthStencilTexturesInternal l1 c1 of
          (Inl err, l2, c2) \<Rightarrow> (Inl err, w\<lparr>binding_context := c2\<rparr>)
        | (Inr u2, l2, c2) \<Rightarrow>
            (case addLayer l2 (w\<lparr>binding_context := c2\<rparr>) of (lid, w1) \<Rightarrow> (Inr lid, w1))))))"

section \<open>Media layers: XRMediaBinding.ts\<close>

text \<open>
  The init of a media layer, \<^verbatim>\<open>XRMediaQuadLayerInit\<close> and
  \<^verbatim>\<open>XRMediaCylinderLayerInit\<close>, of which \<^verbatim>\<open>width\<close>, \<^verbatim>\<open>height\<close> and
  \<^verbatim>\<open>aspectRatio\<close> may be \<^verbatim>\<open>undefined\<close>.

  Numbers are rationals and \<open>a / 0 = 0\<close> in HOL, where JavaScript gives
  \<^verbatim>\<open>Infinity\<close> or \<^verbatim>\<open>NaN\<close>: what is stated about the functions of this section is
  stated for a video of non-zero size and a non-zero aspect ratio.
\<close>

record XRMediaLayerInit =
  m_space :: "XRSpace option"
  m_layout :: XRLayerLayout
  invertStereo :: bool
  m_width :: "number option"
  m_height :: "number option"
  m_aspectRatio :: "number option"

definition calculateAspectRatio :: "HTMLVideoElement \<Rightarrow> XRLayerLayout \<Rightarrow> number" where
  "calculateAspectRatio video lay =
     (let w = (if lay = stereo_left_right then videoWidth video / 2 else videoWidth video);
          h = (if lay = stereo_top_bottom then videoHeight video / 2 else videoHeight video)
      in w / h)"

text \<open>
  The constructors with a video: the init is merged with the media defaults, the layer
  takes its size from it, and \<^verbatim>\<open>isStatic\<close> is not assigned. The members of
  \<^verbatim>\<open>XRLayerInit\<close> that a media init does not have are never read for a media layer
  (every read is behind \<^verbatim>\<open>isMediaLayer()\<close>); in the model they are zero.
\<close>

definition mediaLayerInit :: "XRMediaLayerInit \<Rightarrow> XRLayerInit" where
  "mediaLayerInit mi =
     \<lparr> space = m_space mi, colorFormat = 0, depthFormat = None, mipLevels = 0,
       viewPixelWidth = 0, viewPixelHeight = 0, init_layout = m_layout mi,
       init_isStatic = False, textureType = texture, scaleFactor = 0,
       init_width = m_width mi, init_height = m_height mi,
       init_aspectRatio = m_aspectRatio mi \<rparr>"

definition new_mediaLayer :: "layer_kind \<Rightarrow> XRMediaLayerInit \<Rightarrow> HTMLVideoElement \<Rightarrow> layer" where
  "new_mediaLayer k mi video =
     \<lparr> kind = k, media = Some video, init = mediaLayerInit mi, layout = m_layout mi,
       needsRedraw = None, isStatic = False,
       layer_session = None, layer_context = None,
       p_colorTextures = None, p_depthStencilTextures = None, p_texturesMeta = None,
       hasRunDeferredInitialize = False,
       quad_width = (if k = Quad then m_width mi else None),
       quad_height = (if k = Quad then m_height mi else None),
       aspectRatio = (if k = Cylinder then m_aspectRatio mi else None) \<rparr>"

text \<open>
  \<^verbatim>\<open>XRMediaBindingPolyfill.createQuadLayer(video, init)\<close>, with the three
  assignments to \<^verbatim>\<open>init\<close> in the order of the source.
\<close>

definition media_createQuadLayer ::
  "HTMLVideoElement \<Rightarrow> XRMediaLayerInit \<Rightarrow> world \<Rightarrow> (error + nat) \<times> world" where
  "media_createQuadLayer video mi w =
     (if ended (binding_session w) then (Inl (Error ''Session has ended''), w)
      else if m_layout mi = layout_default
        then (Inl (TypeError ''Media Quad layer cannot be created with layout of default''), w)
      else
       (let ar = calculateAspectRatio video (m_layout mi);
            mi1 = (if m_width mi = None \<and> m_height mi = None
                   then mi\<lparr>m_width := Some 1\<rparr> else mi);
            mi2 = (case m_height mi1 of
                     None \<Rightarrow> mi1\<lparr>m_height := map_option (\<lambda>wd. wd / ar) (m_width mi1)\<rparr>
                   | Some h \<Rightarrow> mi1);
            mi3 = (case m_width mi2 of
                     None \<Rightarrow> mi2\<lparr>m_width := map_option (\<lambda>h. h / ar) (m_height mi2)\<rparr>
                   | Some wd \<Rightarrow> mi2);
            l = (new_mediaLayer Quad mi3 video)\<lparr>needsRedraw := Some False\<rparr>
        in case addLayer (initialize (binding_session w) None l) w of
             (lid, w1) \<Rightarrow> (Inr lid, w1)))"

definition media_createCylinderLayer ::
  "HTMLVideoElement \<Rightarrow> XRMediaLayerInit \<Rightarrow> world \<Rightarrow> (error + nat) \<times> world" where
  "media_createCylinderLayer video mi w =
     (if ended (binding_session w) then (Inl (Error ''Session has ended''), w)
      else if m_layout mi = layout_default
        then (Inl (TypeError ''Media Cylinder layer cannot be created with layout of default''),
              w)
      else
       (let ar = calculateAspectRatio video (m_layout mi);
            mi1 = (case m_aspectRatio mi of
                     None \<Rightarrow> mi\<lparr>m_aspectRatio := Some ar\<rparr>
                   | Some a \<Rightarrow> mi);
            l = (new_mediaLayer Cylinder mi1 video)\<lparr>needsRedraw := Some False\<rparr>
        in case addLayer (initialize (binding_session w) None l) w of
             (lid, w1) \<Rightarrow> (Inr lid, w1)))"

text \<open>
  \<^verbatim>\<open>XRMediaBindingPolyfill.createEquirectLayer(video, init)\<close>. The constructor of
  \<^verbatim>\<open>XREquirectLayer\<close> repeats the test of the space, which has passed by then.
\<close>

definition media_createEquirectLayer ::
  "HTMLVideoElement \<Rightarrow> XRMediaLayerInit \<Rightarrow> world \<Rightarrow> (error + nat) \<times> world" where
  "media_createEquirectLayer video mi w =
     (if ended (binding_session w) then (Inl (Error ''Session has ended''), w)
      else if m_layout mi = layout_default
        then (Inl (TypeError ''Media Equirect layer cannot be created with layout of default''),
              w)
      else if \<not> isReferenceSpace (m_space mi)
        then (Inl (Error ''Media Equirect layer's space must be of type XRReferenceSpace''), w)
      else
       (let l = (new_mediaLayer Equirect mi video)\<lparr>needsRedraw := Some False\<rparr>
        in case addLayer (initialize (binding_session w) None l) w of
             (lid, w1) \<Rightarrow> (Inr lid, w1)))"

section \<open>Example objects\<close>

text \<open>
  A session with two views (or one), a WebGL2 context and a WebGL1 context without the
  depth-texture extension, an init of 512 by 512 pixels and the world of a new binding:
  the concrete inputs at which the theorems below are instantiated.
\<close>

definition leftView :: XRView where
  "leftView = \<lparr> view_id = 0, v_eye = eye_left, recommendedViewportScale = None \<rparr>"

definition rightView :: XRView where
  "rightView = \<lparr> view_id = 1, v_eye = eye_right, recommendedViewportScale = None \<rparr>"

definition stereoSession :: XRSessionWithLayer where
  "stereoSession =
     \<lparr> session_id = 7, ended = False, internalViews = Some [leftView, rightView],
       taskQueue = [], framebufferWidth = 2048, framebufferHeight = 1024 \<rparr>"

definition webgl2Context :: XRWebGLRenderingContext where
  "webgl2Context =
     \<lparr> context_id = 3, version = WebGL2, WEBGL_depth_texture = False, contextLost = False,
       MAX_TEXTURE_SIZE = 4096, texturesCreated = 0 \<rparr>"

definition webgl1Context :: XRWebGLRenderingContext where
  "webgl1Context = webgl2Context\<lparr>version := WebGL1\<rparr>"

definition init512 :: XRLayerInit where
  "init512 =
     \<lparr> space = Some XRReferenceSpace, colorFormat = 6408, depthFormat = None, mipLevels = 1,
       viewPixelWidth = 512, viewPixelHeight = 512, init_layout = layout_mono,
       init_isStatic = False, textureType = texture, scaleFactor = 1,
       init_width = None, init_height = None, init_aspectRatio = None \<rparr>"

text \<open>The constructor of \<^verbatim>\<open>XRWebGLBindingPolyfill\<close>: a binding with an empty cache.\<close>

definition new_XRWebGLBindingPolyfill ::
  "XRSessionWithLayer \<Rightarrow> XRWebGLRenderingContext \<Rightarrow> world" where
  "new_XRWebGLBindingPolyfill s c =
     \<lparr> binding_session = s, binding_context = c, layers = Map.empty, layersCreated = 0,
       subimages = Map.empty, subimagesCreated = 0, cache = Map.empty,
       viewCache = Map.empty \<rparr>"

definition monoSession :: XRSessionWithLayer where
  "monoSession = stereoSession\<lparr>internalViews := Some [leftView]\<rparr>"

definition video200x100 :: HTMLVideoElement where
  "video200x100 = \<lparr> videoWidth = 200, videoHeight = 100 \<rparr>"

definition mediaInit :: XRMediaLayerInit where
  "mediaInit =
     \<lparr> m_space = Some XRReferenceSpace, m_layout = layout_mono, invertStereo = False,
       m_width = None, m_height = None, m_aspectRatio = None \<rparr>"

section \<open>Predicates of the statements\<close>

text \<open>Quad, cylinder and equirect layers share the texture code of the base class.\<close>

definition quadLike :: "layer \<Rightarrow> bool" where
  "quadLike l = (kind l = Quad \<or> kind l = Cylinder \<or> kind l = Equirect)"

text \<open>
  \<open>allocatesColor r c shapes\<close>: the allocation \<open>r\<close>, started with context \<open>c\<close>, has
  returned normally and has left the layer with exactly one color texture per entry of
  \<open>shapes\<close>, of that width, height, number of array layers and kind, each a texture
  that the context created during the call and no two of them the same.
\<close>

definition textureShape :: "PolyfillTexture \<Rightarrow> number \<times> number \<times> nat \<times> XRTextureType" where
  "textureShape m = (pt_width m, pt_height m, pt_layers m, pt_type m)"

definition allocatesColor ::
  "unit layer_result \<Rightarrow> XRWebGLRenderingContext
     \<Rightarrow> (number \<times> number \<times> nat \<times> XRTextureType) list \<Rightarrow> bool" where
  "allocatesColor r c shapes =
     (case r of
        (Inl e, l', c') \<Rightarrow> False
      | (Inr u, l', c') \<Rightarrow>
          (case p_texturesMeta l' of
             None \<Rightarrow> False
           | Some ms \<Rightarrow>
               map textureShape ms = shapes
               \<and> p_colorTextures l' = Some (map pt_texture ms)
               \<and> distinct (map pt_texture ms)
               \<and> list_all (\<lambda>t. texturesCreated c \<le> t \<and> t < texturesCreated c')
                    (map pt_texture ms)
               \<and> texturesCreated c' = texturesCreated c + length shapes))"

definition noViewsSession :: XRSessionWithLayer where
  "noViewsSession = stereoSession\<lparr>internalViews := Some []\<rparr>"

definition stereoInit512 :: XRLayerInit where
  "stereoInit512 = init512\<lparr>init_layout := stereo\<rparr>"

definition stereoQuadWorld :: world where
  "stereoQuadWorld =
     snd (createQuadLayer stereoInit512 (new_XRWebGLBindingPolyfill stereoSession webgl2Context))"

definition frame7 :: XRFrame where
  "frame7 = \<lparr> frame_session = 7 \<rparr>"

definition monoQuadWorld :: world where
  "monoQuadWorld =
     snd (createQuadLayer init512 (new_XRWebGLBindingPolyfill stereoSession webgl2Context))"

text \<open>
  \<open>depthAllocatable c ini\<close>: \<^verbatim>\<open>_allocateDepthStencilTexturesInternal\<close> does not
  reject the depth format and the mip levels of the init on context \<open>c\<close>.
\<close>

definition depthAllocatable :: "XRWebGLRenderingContext \<Rightarrow> XRLayerInit \<Rightarrow> bool" where
  "depthAllocatable c ini =
     (case depthFormat ini of
        None \<Rightarrow> True
      | Some d \<Rightarrow> d = 0 \<or> (d \<in> set (getSupportedDepthFormats c) \<and> 1 \<le> mipLevels ini))"





section \<open>What a call may change in a layer\<close>

text \<open>
  A layer is settled while it is not a projection layer and has color textures.

  \<open>layerInitState l c\<close> relates the deferred initialisation of a quad, cylinder or
  equirect layer to its textures and its layout. Such a layer has color textures only
  after its deferred initialisation has run (\<^verbatim>\<open>destroy()\<close> takes the textures away
  again and leaves the flag set). If the layer has no media and its init asks for layout
  stereo, then before the deferred initialisation the layout is still stereo and there
  is no color texture; after it the layout is stereo-left-right, or the initialisation
  has thrown on a context without texture arrays, and then there is no color texture
  either.

  \<open>evolves l c l' c'\<close> collects what every getter and every method of the binding
  keeps of a layer \<open>l\<close> and its context \<open>c\<close> when it leaves them as \<open>l'\<close> and \<open>c'\<close>.
\<close>

definition settled :: "layer \<Rightarrow> bool" where
  "settled l = (kind l \<noteq> Projection \<and> \<not> isEmptyList (p_colorTextures l))"

definition layerInitState :: "layer \<Rightarrow> XRWebGLRenderingContext \<Rightarrow> bool" where
  "layerInitState l c =
     ((quadLike l \<and> \<not> isEmptyList (p_colorTextures l) \<longrightarrow> hasRunDeferredInitialize l)
      \<and> (if quadLike l \<and> \<not> isMediaLayer l \<and> init_layout (init l) = stereo then
           (if hasRunDeferredInitialize l then
              layout l = stereo_left_right
              \<or> (layout l = stereo \<and> version c \<noteq> WebGL2
                  \<and> textureType (init l) = texture_array
                  \<and> isEmptyList (p_colorTextures l))
            else layout l = stereo \<and> isEmptyList (p_colorTextures l))
         else True))"

definition evolves ::
  "layer \<Rightarrow> XRWebGLRenderingContext \<Rightarrow> layer \<Rightarrow> XRWebGLRenderingContext \<Rightarrow> bool" where
  "evolves l c l' c' =
     (kind l' = kind l \<and> media l' = media l
      \<and> layer_session l' = layer_session l \<and> layer_context l' = layer_context l
      \<and> init_layout (init l') = init_layout (init l)
      \<and> textureType (init l') = textureType (init l)
      \<and> context_id c' = context_id c \<and> version c' = version c
      \<and> (if kind l = Projection then \<not> isStatic l' \<or> isStatic l' = isStatic l
          else isStatic l' = isStatic l)
      \<and> (needsRedraw l' = needsRedraw l \<or> needsRedraw l' = Some True)
      \<and> (if settled l
          then layout l' = layout l \<and> p_colorTextures l' = p_colorTextures l
               \<and> p_texturesMeta l' = p_texturesMeta l
          else True)
      \<and> (hasRunDeferredInitialize l \<longrightarrow> hasRunDeferredInitialize l')
      \<and> (if layerInitState l c then layerInitState l' c' else True))"

text \<open>
  \<open>expected l e\<close>: the color texture and the viewport that lines 210 to 267 of
  \<^verbatim>\<open>getSubImage\<close> compute for eye \<open>e\<close> from the fields of a layer that has its
  textures.
\<close>

definition expected :: "layer \<Rightarrow> XREye \<Rightarrow> (WebGLTexture option \<times> XRViewportPolyfill) option" where
  "expected l e =
     (case selectIndex (layout l) e of
        Inl err \<Rightarrow> None
      | Inr index \<Rightarrow>
          (case p_colorTextures l of
             None \<Rightarrow> None
           | Some cts \<Rightarrow>
               (case p_texturesMeta l of
                  None \<Rightarrow> None
                | Some metas \<Rightarrow>
                    (case js_index metas (if getTextureType l = texture then int index else 0) of
                       None \<Rightarrow> None
                     | Some layerMeta \<Rightarrow>
                         Some (js_index cts (if getTextureType l = texture then int index else 0),
                               initializeViewport layerMeta (layout l) (of_nat index)
                                 (if layout l = stereo_left_right \<or> layout l = stereo_top_bottom
                                  then 2 else 1))))))"

section \<open>The worlds of a binding\<close>

text \<open>
  The worlds that a new binding reaches by the operations of the model: the factory
  methods of the two bindings, the application or the compositor reading the textures
  of a layer or calling its \<^verbatim>\<open>destroy()\<close>, \<^verbatim>\<open>getSubImage\<close>,
  \<^verbatim>\<open>getViewSubImage\<close>, the flush of
  the task queue, the frame callback taking the views of the first viewer pose (once,
  while the session has none), and somebody outside the polyfill assigning
  \<^verbatim>\<open>needsRedraw\<close> of a layer.
\<close>

inductive reachable :: "world \<Rightarrow> bool" where
  new_binding: "reachable (new_XRWebGLBindingPolyfill s c)"
| projection_layer: "reachable w \<Longrightarrow> reachable (snd (createProjectionLayer ini w))"
| quad_layer: "reachable w \<Longrightarrow> reachable (snd (createQuadLayer ini w))"
| cylinder_layer: "reachable w \<Longrightarrow> reachable (snd (createCylinderLayer ini w))"
| equirect_layer: "reachable w \<Longrightarrow> reachable (snd (createEquirectLayer ini w))"
| cube_layer: "reachable w \<Longrightarrow> reachable (snd (createCubeLayer ini w))"
| media_quad_layer: "reachable w \<Longrightarrow> reachable (snd (media_createQuadLayer video mi w))"
| media_cylinder_layer:
    "reachable w \<Longrightarrow> reachable (snd (media_createCylinderLayer video mi w))"
| media_equirect_layer:
    "reachable w \<Longrightarrow> reachable (snd (media_createEquirectLayer video mi w))"
| color_textures:
    "reachable w \<Longrightarrow> layers w lid = Some l \<Longrightarrow>
     get_colorTextures (binding_session w) l (binding_context w) = (r, l', c') \<Longrightarrow>
     reachable (putLayer lid l' c' w)"
| color_textures_meta:
    "reachable w \<Longrightarrow> layers w lid = Some l \<Longrightarrow>
     get_colorTexturesMeta (binding_session w) l (binding_context w) = (rm, l', c') \<Longrightarrow>
     reachable (putLayer lid l' c' w)"
| depth_stencil_textures:
    "reachable w \<Longrightarrow> layers w lid = Some l \<Longrightarrow>
     get_depthStencilTextures (binding_session w) l (binding_context w) = (r, l', c') \<Longrightarrow>
     reachable (putLayer lid l' c' w)"
| destroy_layer: "reachable w \<Longrightarrow> reachable (destroyLayer lid w)"
| sub_image: "reachable w \<Longrightarrow> reachable (snd (getSubImage lid frame e w))"
| view_sub_image: "reachable w \<Longrightarrow> reachable (snd (getViewSubImage lid view w))"
| task_queue: "reachable w \<Longrightarrow> reachable (runTaskQueue w)"
| first_pose:
    "reachable w \<Longrightarrow> noViews (internalViews (binding_session w)) \<Longrightarrow>
     reachable (w\<lparr>binding_session := (binding_session w)\<lparr>internalViews := Some vs\<rparr>\<rparr>)"
| needs_redraw:
    "reachable w \<Longrightarrow> layers w lid = Some l \<Longrightarrow>
     reachable (w\<lparr>layers := (layers w)(lid \<mapsto> l\<lparr>needsRedraw := Some b\<rparr>)\<rparr>)"

text \<open>
  What holds in every such world: a layer has an identity below the number of layers
  created and a sub-image below the number of sub-images created; every layer is in a
  state of \<open>layerInitState\<close>; a cached sub-image exists and belongs to a layer that
  exists and, if it is a quad, cylinder or equirect layer, has run its deferred
  initialisation; and the cache of view sub-images is empty while the session has no
  views. The cache is never cleared, and \<^verbatim>\<open>destroy()\<close> does not touch it: a cached
  sub-image may hold a texture that its layer has given up since.
\<close>

definition initialised :: "layer \<Rightarrow> bool" where
  "initialised l = (quadLike l \<longrightarrow> hasRunDeferredInitialize l)"

definition cacheInv :: "world \<Rightarrow> bool" where
  "cacheInv w =
     (\<forall>cid lid e r. tryGetCachedSubImage w cid lid e = Some r \<longrightarrow>
        r < subimagesCreated w
        \<and> (\<exists>l si. layers w lid = Some l \<and> initialised l \<and> subimages w r = Some si))"

text \<open>
  \<open>cachedIsCurrent w lid e\<close>: the sub-image that the cache holds for the layer and the
  eye under the context of the binding, if it holds one, has the color texture and the
  viewport that the layer gives now; it does so unless the layer has been destroyed
  after that sub-image was built.
\<close>

definition cachedIsCurrent :: "world \<Rightarrow> nat \<Rightarrow> XREye \<Rightarrow> bool" where
  "cachedIsCurrent w lid e =
     (case tryGetCachedSubImage w (context_id (binding_context w)) lid e of
        None \<Rightarrow> True
      | Some r \<Rightarrow>
          (case layers w lid of
             None \<Rightarrow> False
           | Some l \<Rightarrow>
               (case subimages w r of
                  None \<Rightarrow> False
                | Some si \<Rightarrow>
                    settled l \<and> expected l e = Some (colorTexture si, viewport si))))"

definition wellFormed :: "world \<Rightarrow> bool" where
  "wellFormed w =
     ((\<forall>lid. layers w lid \<noteq> None \<longrightarrow> lid < layersCreated w)
      \<and> (\<forall>r. subimages w r \<noteq> None \<longrightarrow> r < subimagesCreated w)
      \<and> (\<forall>lid l. layers w lid = Some l \<longrightarrow> layerInitState l (binding_context w))
      \<and> cacheInv w
      \<and> (viewCache w \<noteq> Map.empty \<longrightarrow> \<not> noViews (internalViews (binding_session w))))"

text \<open>A list of \<^verbatim>\<open>getSubImage\<close> calls, one after the other, whatever each returns.\<close>

fun getSubImages :: "(nat \<times> XRFrame \<times> XREye) list \<Rightarrow> world \<Rightarrow> world" where
  "getSubImages [] w = w"
| "getSubImages ((lid, frame, e) # calls) w = getSubImages calls (snd (getSubImage lid frame e w))"

section \<open>Viewport packing\<close>

text \<open>
  C3. For a texture of width W and height H and two views: with layout
  stereo-left-right the viewport is (0, 0, W/2, H) at offset 0 and (W/2, 0, W/2, H) at
  offset 1; with stereo-top-bottom it is (0, 0, W, H/2) at offset 0 and (0, H/2, W, H/2)
  at offset 1; with any other layout (default, mono, stereo) it is the full texture
  (0, 0, W, H), whatever the offset.
\<close>

theorem initializeViewport_packing:
  "initializeViewport tex stereo_left_right 0 2
     = \<lparr> vp_x = 0, vp_y = 0, vp_width = pt_width tex / 2, vp_height = pt_height tex \<rparr>
   \<and> initializeViewport tex stereo_left_right 1 2
     = \<lparr> vp_x = pt_width tex / 2, vp_y = 0, vp_width = pt_width tex / 2,
         vp_height = pt_height tex \<rparr>
   \<and> initializeViewport tex stereo_top_bottom 0 2
     = \<lparr> vp_x = 0, vp_y = 0, vp_width = pt_width tex, vp_height = pt_height tex / 2 \<rparr>
   \<and> initializeViewport tex stereo_top_bottom 1 2
     = \<lparr> vp_x = 0, vp_y = pt_height tex / 2, vp_width = pt_width tex,
         vp_height = pt_height tex / 2 \<rparr>
   \<and> initializeViewport tex layout_default off 2
     = \<lparr> vp_x = 0, vp_y = 0, vp_width = pt_width tex, vp_height = pt_height tex \<rparr>
   \<and> initializeViewport tex layout_mono off 2
     = \<lparr> vp_x = 0, vp_y = 0, vp_width = pt_width tex, vp_height = pt_height tex \<rparr>
   \<and> initializeViewport tex stereo off 2
     = \<lparr> vp_x = 0, vp_y = 0, vp_width = pt_width tex, vp_height = pt_height tex \<rparr>"
  by (simp add: initializeViewport_def)

section \<open>Layout resolution for the default layout\<close>

lemma determineLayoutAttribute_default:
  "determineLayoutAttribute vso tt ver layout_default =
     (if ver \<noteq> WebGL2 \<and> tt = texture_array then Inl (TypeError '''')
      else if (case vso of None \<Rightarrow> False | Some vs \<Rightarrow> length vs = 1) then Inr layout_mono
      else if tt = texture_array then Inr layout_default
      else Inr stereo_left_right)"
  by (simp add: determineLayoutAttribute_def)

lemma createProjectionLayer_layout:
  assumes "createProjectionLayer ini w = (Inr lid, w')"
  shows "\<exists>l. layers w' lid = Some l
           \<and> determineLayoutAttribute (internalViews (binding_session w)) (textureType ini)
                (version (binding_context w)) layout_default = Inr (layout l)"
  using assms
  by (auto simp: createProjectionLayer_def Let_def initializeIfNeeded_def deferredInitialize_def
        new_XRProjectionLayer_def new_layer_def initialize_def addLayer_def
      split: if_splits sum.splits prod.splits option.splits)

lemma createProjectionLayer_succeeds:
  assumes "\<not> ended (binding_session w)" and "\<not> contextLost (binding_context w)"
    and "version (binding_context w) = WebGL2 \<or> textureType ini = texture"
  shows "\<exists>lid w'. createProjectionLayer ini w = (Inr lid, w')"
  using assms
  by (auto simp: createProjectionLayer_def Let_def initializeIfNeeded_def deferredInitialize_def
        new_XRProjectionLayer_def new_layer_def initialize_def addLayer_def
        determineLayoutAttribute_default
      split: if_splits sum.splits prod.splits option.splits)

text \<open>
  C4. The layers created with layout "default" are the projection layers:
  \<^verbatim>\<open>createProjectionLayer\<close> resolves the layout with \<^verbatim>\<open>determineLayoutAttribute\<close> and
  "default" before it hands the layer out, and the other factory methods refuse that
  layout. On a session that has not ended and a context that is not lost and supports
  the texture kind the layer is created; and every layer that is created has the layout
  that \<^verbatim>\<open>determineLayoutAttribute\<close> returned: "mono" when the session's view list
  has exactly one view; with more than one view, "stereo-left-right" for the
  single-texture kind and "default" for the texture-array kind.
\<close>

theorem default_layout_resolution:
  "(\<not> ended (binding_session w) \<and> \<not> contextLost (binding_context w)
      \<and> (version (binding_context w) = WebGL2 \<or> textureType ini = texture)
     \<longrightarrow> (\<exists>lid w'. createProjectionLayer ini w = (Inr lid, w')))
   \<and> (\<forall>lid w'. createProjectionLayer ini w = (Inr lid, w') \<longrightarrow>
        (\<exists>l. layers w' lid = Some l
           \<and> determineLayoutAttribute (internalViews (binding_session w)) (textureType ini)
                (version (binding_context w)) layout_default = Inr (layout l)
           \<and> (\<forall>vs. internalViews (binding_session w) = Some vs \<and> length vs = 1
                  \<longrightarrow> layout l = layout_mono)
           \<and> (\<forall>vs. internalViews (binding_session w) = Some vs \<and> 1 < length vs
                  \<longrightarrow> (textureType ini = texture \<longrightarrow> layout l = stereo_left_right)
                    \<and> (textureType ini = texture_array \<longrightarrow> layout l = layout_default))))"
proof (intro conjI allI impI)
  assume "\<not> ended (binding_session w) \<and> \<not> contextLost (binding_context w)
      \<and> (version (binding_context w) = WebGL2 \<or> textureType ini = texture)"
  then show "\<exists>lid w'. createProjectionLayer ini w = (Inr lid, w')"
    using createProjectionLayer_succeeds by blast
next
  fix lid w'
  assume created: "createProjectionLayer ini w = (Inr lid, w')"
  from createProjectionLayer_layout [OF created] obtain l where
    l: "layers w' lid = Some l" and
    d: "determineLayoutAttribute (internalViews (binding_session w)) (textureType ini)
          (version (binding_context w)) layout_default = Inr (layout l)"
    by blast
  from d have one: "\<forall>vs. internalViews (binding_session w) = Some vs \<and> length vs = 1
            \<longrightarrow> layout l = layout_mono"
    by (auto simp: determineLayoutAttribute_default split: if_splits)
  from d have more: "\<forall>vs. internalViews (binding_session w) = Some vs \<and> 1 < length vs
            \<longrightarrow> (textureType ini = texture \<longrightarrow> layout l = stereo_left_right)
              \<and> (textureType ini = texture_array \<longrightarrow> layout l = layout_default)"
    by (auto simp: determineLayoutAttribute_default split: if_splits)
  from l d one more show "\<exists>l. layers w' lid = Some l
           \<and> determineLayoutAttribute (internalViews (binding_session w)) (textureType ini)
                (version (binding_context w)) layout_default = Inr (layout l)
           \<and> (\<forall>vs. internalViews (binding_session w) = Some vs \<and> length vs = 1
                  \<longrightarrow> layout l = layout_mono)
           \<and> (\<forall>vs. internalViews (binding_session w) = Some vs \<and> 1 < length vs
                  \<longrightarrow> (textureType ini = texture \<longrightarrow> layout l = stereo_left_right)
                    \<and> (textureType ini = texture_array \<longrightarrow> layout l = layout_default))"
    by blast
qed

theorem default_layout_resolution_witness:
  "(\<exists>lid w' l. createProjectionLayer init512
                   (new_XRWebGLBindingPolyfill monoSession webgl1Context) = (Inr lid, w')
        \<and> layers w' lid = Some l \<and> layout l = layout_mono)
   \<and> (\<exists>lid w' l. createProjectionLayer init512
                   (new_XRWebGLBindingPolyfill stereoSession webgl1Context) = (Inr lid, w')
        \<and> layers w' lid = Some l \<and> layout l = stereo_left_right)
   \<and> (\<exists>lid w' l. createProjectionLayer (init512\<lparr>textureType := texture_array\<rparr>)
                   (new_XRWebGLBindingPolyfill stereoSession webgl2Context) = (Inr lid, w')
        \<and> layers w' lid = Some l \<and> layout l = layout_default)"
proof (intro conjI)
  let ?w = "new_XRWebGLBindingPolyfill monoSession webgl1Context"
  have pre: "\<not> ended (binding_session ?w) \<and> \<not> contextLost (binding_context ?w)
      \<and> (version (binding_context ?w) = WebGL2 \<or> textureType init512 = texture)"
    by (simp add: new_XRWebGLBindingPolyfill_def monoSession_def stereoSession_def
          webgl1Context_def webgl2Context_def init512_def)
  have vs: "internalViews (binding_session ?w) = Some [leftView] \<and> length [leftView] = 1"
    by (simp add: new_XRWebGLBindingPolyfill_def monoSession_def stereoSession_def)
  from default_layout_resolution [of ?w init512] pre obtain lid w'
    where c: "createProjectionLayer init512 ?w = (Inr lid, w')" by blast
  from default_layout_resolution [of ?w init512] c vs obtain l
    where "layers w' lid = Some l" and "layout l = layout_mono" by blast
  with c show "\<exists>lid w' l. createProjectionLayer init512 ?w = (Inr lid, w')
        \<and> layers w' lid = Some l \<and> layout l = layout_mono" by blast
next
  let ?w = "new_XRWebGLBindingPolyfill stereoSession webgl1Context"
  have pre: "\<not> ended (binding_session ?w) \<and> \<not> contextLost (binding_context ?w)
      \<and> (version (binding_context ?w) = WebGL2 \<or> textureType init512 = texture)"
    by (simp add: new_XRWebGLBindingPolyfill_def stereoSession_def
          webgl1Context_def webgl2Context_def init512_def)
  have vs: "internalViews (binding_session ?w) = Some [leftView, rightView]
      \<and> 1 < length [leftView, rightView]"
    by (simp add: new_XRWebGLBindingPolyfill_def stereoSession_def)
  have tt: "textureType init512 = texture" by (simp add: init512_def)
  from default_layout_resolution [of ?w init512] pre obtain lid w'
    where c: "createProjectionLayer init512 ?w = (Inr lid, w')" by blast
  from default_layout_resolution [of ?w init512] c vs tt obtain l
    where "layers w' lid = Some l" and "layout l = stereo_left_right" by blast
  with c show "\<exists>lid w' l. createProjectionLayer init512 ?w = (Inr lid, w')
        \<and> layers w' lid = Some l \<and> layout l = stereo_left_right" by blast
next
  let ?w = "new_XRWebGLBindingPolyfill stereoSession webgl2Context"
  let ?i = "init512\<lparr>textureType := texture_array\<rparr>"
  have pre: "\<not> ended (binding_session ?w) \<and> \<not> contextLost (binding_context ?w)
      \<and> (version (binding_context ?w) = WebGL2 \<or> textureType ?i = texture)"
    by (simp add: new_XRWebGLBindingPolyfill_def stereoSession_def webgl2Context_def)
  have vs: "internalViews (binding_session ?w) = Some [leftView, rightView]
      \<and> 1 < length [leftView, rightView]"
    by (simp add: new_XRWebGLBindingPolyfill_def stereoSession_def)
  have tt: "textureType ?i = texture_array" by simp
  from default_layout_resolution [of ?w ?i] pre obtain lid w'
    where c: "createProjectionLayer ?i ?w = (Inr lid, w')" by blast
  from default_layout_resolution [of ?w ?i] c vs tt obtain l
    where "layers w' lid = Some l" and "layout l = layout_default" by blast
  with c show "\<exists>lid w' l. createProjectionLayer ?i ?w = (Inr lid, w')
        \<and> layers w' lid = Some l \<and> layout l = layout_default" by blast
qed

section \<open>Cube layers accept the layouts mono and stereo only\<close>

text \<open>
  C6. Constructing a cube layer with layout "default", "stereo-left-right" or
  "stereo-top-bottom" fails with a \<^verbatim>\<open>TypeError\<close>; with layout "mono" or "stereo" and
  a reference space the constructor returns the layer, with that layout.
\<close>

theorem cube_layer_layout_rejection:
  "(init_layout ini = layout_default \<or> init_layout ini = stereo_left_right
      \<or> init_layout ini = stereo_top_bottom
     \<longrightarrow> (\<exists>msg. new_XRCubeLayer ini = Inl (TypeError msg)))
   \<and> (isReferenceSpace (space ini)
        \<and> (init_layout ini = layout_mono \<or> init_layout ini = stereo)
     \<longrightarrow> (\<exists>l. new_XRCubeLayer ini = Inr l \<and> kind l = Cube \<and> layout l = init_layout ini))"
  by (auto simp: new_XRCubeLayer_def new_layer_def)

theorem cube_layer_layout_rejection_witness:
  "(\<exists>msg. new_XRCubeLayer (init512\<lparr>init_layout := stereo_left_right\<rparr>) = Inl (TypeError msg))
   \<and> (\<exists>msg. new_XRCubeLayer (init512\<lparr>init_layout := stereo_top_bottom\<rparr>) = Inl (TypeError msg))
   \<and> (\<exists>msg. new_XRCubeLayer (init512\<lparr>init_layout := layout_default\<rparr>) = Inl (TypeError msg))
   \<and> isReferenceSpace (space init512)
   \<and> (\<exists>l. new_XRCubeLayer init512 = Inr l \<and> layout l = layout_mono)
   \<and> (\<exists>l. new_XRCubeLayer (init512\<lparr>init_layout := stereo\<rparr>) = Inr l \<and> layout l = stereo)"
  using cube_layer_layout_rejection [of "init512\<lparr>init_layout := stereo_left_right\<rparr>"]
        cube_layer_layout_rejection [of "init512\<lparr>init_layout := stereo_top_bottom\<rparr>"]
        cube_layer_layout_rejection [of "init512\<lparr>init_layout := layout_default\<rparr>"]
        cube_layer_layout_rejection [of "init512"]
        cube_layer_layout_rejection [of "init512\<lparr>init_layout := stereo\<rparr>"]
  by (auto simp add: init512_def isReferenceSpace_def)

section \<open>Depth formats on a context without depth textures\<close>

lemma no_depth_support:
  "version c = WebGL1 \<Longrightarrow> \<not> WEBGL_depth_texture c \<Longrightarrow> getSupportedDepthFormats c = []"
  by (simp add: getSupportedDepthFormats_def)

text \<open>
  C7. On a WebGL1 context without the \<^verbatim>\<open>WEBGL_depth_texture\<close> extension no depth
  format is in the list of supported formats. For a quad, cylinder or equirect layer
  whose init requests a depth format \<open>f\<close>, the allocation of the depth textures, and
  with it the \<^verbatim>\<open>depthStencilTextures\<close> getter, throw an error and leave the layer as
  it was; the allocation of a cube layer throws as well. For a projection layer, whatever
  depth format its init requests, neither the allocation nor the getter throws, no
  texture is created, and the getter returns the empty list.
\<close>

theorem unsupported_depth_format:
  assumes "version c = WebGL1" and "\<not> WEBGL_depth_texture c"
    and "depthFormat (init lq) = Some f" and "f \<noteq> 0"
    and "quadLike lq" and "\<not> isMediaLayer lq" and "isEmptyList (p_depthStencilTextures lq)"
    and "kind lc = Cube" and "depthFormat (init lc) = Some f"
    and "kind lp = Projection" and "p_depthStencilTextures lp = None"
  shows "f \<notin> set (getSupportedDepthFormats c)
    \<and> allocateDepthStencilTexturesInternal (getTextureType lq) (init lq) lq c
        = (Inl (Error ''Depth format provided is not supported in non-projection layers.''),
           lq, c)
    \<and> get_depthStencilTextures s lq c
        = (Inl (Error ''Depth format provided is not supported in non-projection layers.''),
           lq, c)
    \<and> (\<exists>lc'. cube_allocateDepthStencilTexturesInternal lc c
          = (Inl (TypeError ''Depth textures not supported in the current context''), lc', c))
    \<and> (\<exists>lp'. allocateProjectionDepthStencilTextures s lp c = (Inr (), lp', c)
          \<and> isEmptyList (p_depthStencilTextures lp'))
    \<and> (\<exists>lp'. get_depthStencilTextures s lp c = (Inr (Some []), lp', c))"
  using assms
  by (auto simp: no_depth_support allocateDepthStencilTexturesInternal_def quadLike_def
        get_depthStencilTextures_def cube_allocateDepthStencilTexturesInternal_def Let_def
        allocateProjectionDepthStencilTextures_def isEmptyList_def
      split: layer_kind.splits option.splits)

theorem unsupported_depth_format_witness:
  "version webgl1Context = WebGL1 \<and> \<not> WEBGL_depth_texture webgl1Context
   \<and> get_depthStencilTextures stereoSession
        (new_layer Quad (init512\<lparr>depthFormat := Some DEPTH_COMPONENT\<rparr>)) webgl1Context
        = (Inl (Error ''Depth format provided is not supported in non-projection layers.''),
           new_layer Quad (init512\<lparr>depthFormat := Some DEPTH_COMPONENT\<rparr>), webgl1Context)
   \<and> (\<exists>lp'. get_depthStencilTextures stereoSession
               (new_XRProjectionLayer (init512\<lparr>depthFormat := Some DEPTH_COMPONENT\<rparr>))
               webgl1Context = (Inr (Some []), lp', webgl1Context))"
  using unsupported_depth_format [of webgl1Context
          "new_layer Quad (init512\<lparr>depthFormat := Some DEPTH_COMPONENT\<rparr>)" DEPTH_COMPONENT
          "new_layer Cube (init512\<lparr>depthFormat := Some DEPTH_COMPONENT\<rparr>)"
          "new_XRProjectionLayer (init512\<lparr>depthFormat := Some DEPTH_COMPONENT\<rparr>)"
          stereoSession]
  by (simp add: webgl1Context_def webgl2Context_def new_layer_def init512_def
        DEPTH_COMPONENT_def quadLike_def isMediaLayer_def isEmptyList_def
        new_XRProjectionLayer_def withDefault_def)

section \<open>The size of a media quad layer\<close>

text \<open>
  C8, at the input where the code departs from it. A video of 200 by 100 pixels has the
  aspect ratio 2 under layout mono. \<^verbatim>\<open>createQuadLayer\<close> of the media binding, given
  the height 2 and no width, sets the width to height / aspectRatio = 1, so that width
  divided by height is 1/2 and not the aspect ratio 2. (The branch for a missing height
  divides the width by the aspect ratio, which is right; the branch for a missing width
  divides as well, where it had to multiply.)
\<close>

theorem media_quad_width_from_height:
  "calculateAspectRatio video200x100 layout_mono = 2
   \<and> fst (media_createQuadLayer video200x100 (mediaInit\<lparr>m_height := Some 2\<rparr>)
            (new_XRWebGLBindingPolyfill stereoSession webgl2Context)) = Inr 0
   \<and> map_option quad_width
        (layers (snd (media_createQuadLayer video200x100 (mediaInit\<lparr>m_height := Some 2\<rparr>)
                        (new_XRWebGLBindingPolyfill stereoSession webgl2Context))) 0)
       = Some (Some 1)
   \<and> map_option quad_height
        (layers (snd (media_createQuadLayer video200x100 (mediaInit\<lparr>m_height := Some 2\<rparr>)
                        (new_XRWebGLBindingPolyfill stereoSession webgl2Context))) 0)
       = Some (Some 2)"
  by (simp add: calculateAspectRatio_def video200x100_def mediaInit_def
        media_createQuadLayer_def new_XRWebGLBindingPolyfill_def stereoSession_def
        addLayer_def initialize_def new_mediaLayer_def Let_def)

section \<open>Getters keep a layer within its states\<close>

lemma createNewColorTexture_ok:
  "version c = WebGL2 \<or> tt = texture \<Longrightarrow>
   createNewColorTexture c w h tt fmt n =
     Inr (\<lparr> pt_texture = texturesCreated c, textureFormat = fmt, pt_width = w, pt_height = h,
             pt_layers = n, pt_type = tt \<rparr>, c\<lparr>texturesCreated := Suc (texturesCreated c)\<rparr>)"
  by (auto simp: createNewColorTexture_def createGenericPolyfillTexture_def createTexture_def)

lemma evolves_refl [simp]: "evolves l c l c"
  by (simp add: evolves_def)

lemma evolves_trans:
  "evolves l c l1 c1 \<Longrightarrow> evolves l1 c1 l2 c2 \<Longrightarrow> evolves l c l2 c2"
  unfolding evolves_def settled_def
  by (auto split: if_splits)

lemma createGeneric_ctx:
  "createGenericPolyfillTexture c tt w h fmt m n = Inr (t, c') \<Longrightarrow>
     context_id c' = context_id c \<and> version c' = version c"
  by (auto simp: createGenericPolyfillTexture_def createTexture_def split: if_splits)

lemma createNewColor_ctx:
  "createNewColorTexture c w h tt fmt n = Inr (t, c') \<Longrightarrow>
     context_id c' = context_id c \<and> version c' = version c"
  by (simp add: createNewColorTexture_def createGeneric_ctx)

lemma createNewDepth_ctx:
  "createNewDepthStencilTexture c w h tt fmt n = Inr (t, c') \<Longrightarrow>
     context_id c' = context_id c \<and> version c' = version c"
  by (simp add: createNewDepthStencilTexture_def createGeneric_ctx)

lemma createNewColor_array_WebGL1:
  "version c \<noteq> WebGL2 \<Longrightarrow> createNewColorTexture c w h texture_array fmt n
      = Inl (Error ''WebGL 1 does not support texture array'')"
  by (cases "version c") (simp_all add: createNewColorTexture_def createGenericPolyfillTexture_def)

lemma evolves_depth_update:
  "context_id c' = context_id c \<Longrightarrow> version c' = version c \<Longrightarrow>
   evolves l c (l\<lparr>p_depthStencilTextures := d\<rparr>) c'"
  by (simp add: evolves_def settled_def layerInitState_def quadLike_def isMediaLayer_def)

lemma evolves_ctx:
  "context_id c' = context_id c \<Longrightarrow> version c' = version c \<Longrightarrow> evolves l c l c'"
  by (simp add: evolves_def settled_def layerInitState_def quadLike_def isMediaLayer_def)

lemma evolves_setDepth:
  "context_id c' = context_id c \<Longrightarrow> version c' = version c \<Longrightarrow>
   evolves l c (setDepthStencilTextures ts l) c'"
  by (simp add: setDepthStencilTextures_def evolves_depth_update)

lemma allocateDepth_evolves:
  "allocateDepthStencilTexturesInternal tt ini l c = (r, l', c') \<Longrightarrow> evolves l c l' c'"
  by (auto simp: allocateDepthStencilTexturesInternal_def evolves_depth_update evolves_setDepth
        evolves_ctx
        dest!: createNewDepth_ctx createNewColor_ctx
        split: option.splits if_splits sum.splits prod.splits)

lemma determineLayoutAttribute_Inl:
  "determineLayoutAttribute vs tt ver lay = Inl e \<Longrightarrow> ver \<noteq> WebGL2 \<and> tt = texture_array"
  by (auto simp: determineLayoutAttribute_def split: if_splits)

lemma determineLayoutAttribute_stereo:
  "determineLayoutAttribute vs tt ver stereo = Inr lay \<Longrightarrow> lay = stereo_left_right"
  by (auto simp: determineLayoutAttribute_def split: if_splits)

lemma deferredInitialize_quadLike:
  "quadLike l \<Longrightarrow> deferredInitialize s l c =
     (case determineLayoutAttribute (internalViews s) (textureType (init l)) (version c)
             (init_layout (init l)) of
        Inl e \<Rightarrow> (Inl e, l, c)
      | Inr lay \<Rightarrow> (Inr (), l\<lparr>layout := lay, needsRedraw := Some True\<rparr>, c))"
  by (auto simp: quadLike_def deferredInitialize_def)

lemma evolves_resolve:
  "isEmptyList (p_colorTextures l) \<or> kind l = Projection \<Longrightarrow>
   (quadLike l \<and> init_layout (init l) = stereo \<longrightarrow> lay = stereo_left_right) \<Longrightarrow>
   evolves l c (l\<lparr>hasRunDeferredInitialize := True, layout := lay, needsRedraw := Some True\<rparr>) c"
  by (auto simp add: evolves_def settled_def layerInitState_def quadLike_def isMediaLayer_def)

lemma evolves_resolve_fail:
  "isEmptyList (p_colorTextures l) \<or> kind l = Projection \<Longrightarrow>
   version c \<noteq> WebGL2 \<and> textureType (init l) = texture_array \<Longrightarrow>
   \<not> hasRunDeferredInitialize l \<Longrightarrow>
   evolves l c (l\<lparr>hasRunDeferredInitialize := True\<rparr>) c"
  by (auto simp add: evolves_def settled_def layerInitState_def quadLike_def isMediaLayer_def)

lemma initializeIfNeeded_quadLike_evolves:
  assumes "initializeIfNeeded s l c = (r, l', c')" and "quadLike l"
    and "isEmptyList (p_colorTextures l)"
  shows "evolves l c l' c'"
proof (cases "hasRunDeferredInitialize l")
  case True
  with assms show ?thesis by (simp add: initializeIfNeeded_def)
next
  case False
  let ?l1 = "l\<lparr>hasRunDeferredInitialize := True\<rparr>"
  have q: "quadLike ?l1" using assms(2) by (simp add: quadLike_def)
  show ?thesis
  proof (cases "determineLayoutAttribute (internalViews s) (textureType (init l)) (version c)
             (init_layout (init l))")
    case (Inl e)
    with assms False q have "l' = ?l1" "c' = c"
      by (simp_all add: initializeIfNeeded_def deferredInitialize_quadLike)
    with determineLayoutAttribute_Inl [OF Inl] assms(3) False show ?thesis
      by (simp add: evolves_resolve_fail)
  next
    case (Inr lay)
    with assms False q have "l' = ?l1\<lparr>layout := lay, needsRedraw := Some True\<rparr>" "c' = c"
      by (simp_all add: initializeIfNeeded_def deferredInitialize_quadLike)
    moreover have "quadLike l \<and> init_layout (init l) = stereo \<longrightarrow> lay = stereo_left_right"
      using Inr determineLayoutAttribute_stereo by auto
    ultimately show ?thesis using evolves_resolve [of l lay c] assms(3) by simp
  qed
qed

lemma initializeIfNeeded_quadLike_fields:
  assumes "initializeIfNeeded s l c = (r, l', c')" and "quadLike l"
  shows "c' = c \<and> p_colorTextures l' = p_colorTextures l \<and> p_texturesMeta l' = p_texturesMeta l
         \<and> p_depthStencilTextures l' = p_depthStencilTextures l
         \<and> init l' = init l \<and> kind l' = kind l \<and> media l' = media l
         \<and> (r = Inr () \<longrightarrow> hasRunDeferredInitialize l')"
proof (cases "hasRunDeferredInitialize l")
  case True
  with assms show ?thesis by (auto simp add: initializeIfNeeded_def)
next
  case False
  have "quadLike (l\<lparr>hasRunDeferredInitialize := True\<rparr>)" using assms(2) by (simp add: quadLike_def)
  with assms False show ?thesis
    by (auto simp add: initializeIfNeeded_def deferredInitialize_quadLike split: sum.splits)
qed

lemma evolves_setColor:
  assumes "isEmptyList (p_colorTextures l)"
    and "context_id c' = context_id c" and "version c' = version c"
    and "quadLike l \<and> \<not> isMediaLayer l \<and> init_layout (init l) = stereo
           \<longrightarrow> layout l = stereo_left_right"
    and "quadLike l \<longrightarrow> hasRunDeferredInitialize l"
  shows "evolves l c (setColorTextures ts l) c'"
  using assms
  by (auto simp add: evolves_def settled_def layerInitState_def quadLike_def isMediaLayer_def
        setColorTextures_def)

lemma allocateColor_step:
  assumes a: "allocateColorTexturesInternal s (getTextureType l) (init l) l c = (r, l', c')"
    and h: "hasRunDeferredInitialize l" and q: "quadLike l" and m: "\<not> isMediaLayer l"
    and e: "isEmptyList (p_colorTextures l)"
  shows "evolves l c l' c'"
proof -
  have tt: "getTextureType l = textureType (init l)"
    using q m by (auto simp: getTextureType_def quadLike_def)
  have i: "initializeIfNeeded s l c = (Inr (), l, c)" using h by (simp add: initializeIfNeeded_def)
  show ?thesis
  proof (cases "layerInitState l c \<and> init_layout (init l) = stereo \<and> layout l = stereo")
    case True
    then have "version c \<noteq> WebGL2 \<and> textureType (init l) = texture_array"
      using h q m by (auto simp add: layerInitState_def)
    with a i True tt show ?thesis
      by (auto simp: allocateColorTexturesInternal_def createNewColor_array_WebGL1
            split: if_splits)
  next
    case False
    have sc: "\<And>ts c2. context_id c2 = context_id c \<Longrightarrow> version c2 = version c \<Longrightarrow>
                 layout l \<noteq> stereo \<or> \<not> layerInitState l c \<or> init_layout (init l) \<noteq> stereo
                 \<Longrightarrow> evolves l c (setColorTextures ts l) c2"
      using e h q m
      by (auto simp add: evolves_def settled_def layerInitState_def quadLike_def
            isMediaLayer_def setColorTextures_def split: if_splits)
    from a i False show ?thesis
      by (auto simp: allocateColorTexturesInternal_def sc evolves_ctx
            dest!: createNewColor_ctx split: if_splits sum.splits prod.splits)
  qed
qed

lemma allocateColor_evolves:
  assumes a: "allocateColorTexturesInternal s (getTextureType l) (init l) l c = (r, l', c')"
    and q: "quadLike l" and m: "\<not> isMediaLayer l"
    and e: "isEmptyList (p_colorTextures l)"
  shows "evolves l c l' c'"
proof (cases "noViews (internalViews s)")
  case True
  with a show ?thesis by (simp add: allocateColorTexturesInternal_def)
next
  case False
  obtain r1 l1 c1 where i: "initializeIfNeeded s l c = (r1, l1, c1)"
    by (metis prod_cases3)
  note f = initializeIfNeeded_quadLike_fields [OF i q]
  have e1: "evolves l c l1 c1" using initializeIfNeeded_quadLike_evolves [OF i q e] .
  show ?thesis
  proof (cases r1)
    case (Inl err)
    with a i False have "l' = l1" "c' = c1" by (simp_all add: allocateColorTexturesInternal_def)
    with e1 show ?thesis by simp
  next
    case (Inr u)
    with f have h1: "hasRunDeferredInitialize l1" by simp
    have q1: "quadLike l1" using q f by (simp add: quadLike_def)
    have m1: "\<not> isMediaLayer l1" using m f by (simp add: isMediaLayer_def)
    have em1: "isEmptyList (p_colorTextures l1)" using e f by simp
    have tt1: "getTextureType l1 = getTextureType l"
      using q m q1 m1 f by (auto simp add: getTextureType_def quadLike_def)
    have i1: "initializeIfNeeded s l1 c1 = (Inr (), l1, c1)" using h1 by (simp add: initializeIfNeeded_def)
    have "allocateColorTexturesInternal s (getTextureType l1) (init l1) l1 c1 = (r, l', c')"
      using a i Inr False i1 f tt1
      by (auto simp add: allocateColorTexturesInternal_def)
    from allocateColor_step [OF this h1 q1 m1 em1] e1 show ?thesis
      by (rule evolves_trans [rotated])
  qed
qed

lemma createTexturePerView_ctx:
  "createTexturePerView vs c w h tt fmt = Inr (ts, c') \<Longrightarrow>
     context_id c' = context_id c \<and> version c' = version c"
proof (induction vs arbitrary: c ts)
  case Nil
  then show ?case by simp
next
  case (Cons v vs)
  then show ?case
    by (auto split: sum.splits prod.splits dest!: createGeneric_ctx)
qed

lemma projectionTextures_ctx:
  "projectionTextures s vs l c fmt pv = Inr (ts, c') \<Longrightarrow>
     context_id c' = context_id c \<and> version c' = version c"
  by (auto simp: projectionTextures_def Let_def split: if_splits sum.splits prod.splits
        dest!: createGeneric_ctx createTexturePerView_ctx)

lemma evolves_projection:
  assumes "kind l = Projection"
    and "context_id c' = context_id c" and "version c' = version c"
    and "kind l' = Projection" and "media l' = media l"
    and "layer_session l' = layer_session l" and "layer_context l' = layer_context l"
    and "init_layout (init l') = init_layout (init l)"
    and "textureType (init l') = textureType (init l)"
    and "\<not> isStatic l' \<or> isStatic l' = isStatic l"
    and "needsRedraw l' = needsRedraw l \<or> needsRedraw l' = Some True"
    and "hasRunDeferredInitialize l \<longrightarrow> hasRunDeferredInitialize l'"
  shows "evolves l c l' c'"
  using assms
  by (simp add: evolves_def settled_def layerInitState_def quadLike_def)

lemma allocateProjectionColor_evolves:
  assumes "allocateProjectionColorTextures s l c = (r, l', c')" and "kind l = Projection"
  shows "evolves l c l' c'"
  using assms
  by (auto simp: allocateProjectionColorTextures_def setColorTextures_def
        intro!: evolves_projection dest!: projectionTextures_ctx
        split: option.splits if_splits sum.splits prod.splits)

lemma initializeIfNeeded_projection_evolves:
  assumes "initializeIfNeeded s l c = (r, l', c')" and "kind l = Projection"
  shows "evolves l c l' c' \<and> kind l' = Projection"
  using assms
  by (auto simp: initializeIfNeeded_def deferredInitialize_def Let_def
        intro!: evolves_projection
        split: option.splits if_splits sum.splits prod.splits)

lemma allocateProjectionDepth_evolves:
  assumes a: "allocateProjectionDepthStencilTextures s l c = (r, l', c')"
    and k: "kind l = Projection"
  shows "evolves l c l' c'"
proof -
  obtain r1 l1 c1 where i: "initializeIfNeeded s l c = (r1, l1, c1)"
    by (metis prod_cases3)
  note e1 = initializeIfNeeded_projection_evolves [OF i k]
  have e2: "evolves l1 c1 l' c' \<or> (l' = l \<and> c' = c) \<or> (l' = l\<lparr>p_depthStencilTextures := Some []\<rparr> \<and> c' = c)"
    using a i
    by (auto simp: allocateProjectionDepthStencilTextures_def evolves_setDepth evolves_ctx
          dest!: projectionTextures_ctx
          split: option.splits if_splits sum.splits prod.splits)
  then show ?thesis using e1 evolves_trans evolves_depth_update [of c c l "Some []"] by auto
qed

lemma quadLike_cases: "kind l = Cube \<or> kind l = Projection \<or> quadLike l"
  by (cases "kind l") (simp_all add: quadLike_def)

lemma get_colorTextures_evolves:
  assumes "get_colorTextures s l c = (r, l', c')"
  shows "evolves l c l' c'"
proof -
  consider "kind l = Cube" | "kind l = Projection" | "quadLike l" using quadLike_cases by blast
  then show ?thesis
  proof cases
    case 1
    with assms show ?thesis by (simp add: get_colorTextures_def)
  next
    case 2
    with assms show ?thesis
      by (auto simp: get_colorTextures_def split: if_splits prod.splits sum.splits
            dest: allocateProjectionColor_evolves)
  next
    case 3
    then have "get_colorTextures s l c =
        (if isMediaLayer l
             then (Inl (Error ''Media layers do not have associated textures''), l, c)
           else if isEmptyList (p_colorTextures l) then
             (case allocateColorTexturesInternal s (getTextureType l) (init l) l c of
                (Inl e, l1, c1) \<Rightarrow> (Inl e, l1, c1)
              | (Inr u, l1, c1) \<Rightarrow> (Inr (p_colorTextures l1), l1, c1))
           else (Inr (p_colorTextures l), l, c))"
      by (auto simp: get_colorTextures_def quadLike_def)
    with assms 3 show ?thesis
      by (auto split: if_splits prod.splits sum.splits dest: allocateColor_evolves)
  qed
qed

lemma get_colorTexturesMeta_evolves:
  assumes "get_colorTexturesMeta s l c = (r, l', c')"
  shows "evolves l c l' c'"
proof -
  consider "kind l = Cube" | "kind l = Projection" | "quadLike l" using quadLike_cases by blast
  then show ?thesis
  proof cases
    case 1
    with assms show ?thesis by (simp add: get_colorTexturesMeta_def)
  next
    case 2
    with assms show ?thesis
      by (auto simp: get_colorTexturesMeta_def split: if_splits prod.splits sum.splits
            dest: allocateProjectionColor_evolves)
  next
    case 3
    then have "get_colorTexturesMeta s l c =
        (if isMediaLayer l
             then (Inl (Error ''Media layers do not have associated textures''), l, c)
           else if isEmptyList (p_colorTextures l) then
             (case allocateColorTexturesInternal s (getTextureType l) (init l) l c of
                (Inl e, l1, c1) \<Rightarrow> (Inl e, l1, c1)
              | (Inr u, l1, c1) \<Rightarrow> (Inr (p_texturesMeta l1), l1, c1))
           else (Inr (p_texturesMeta l), l, c))"
      by (auto simp: get_colorTexturesMeta_def quadLike_def)
    with assms 3 show ?thesis
      by (auto split: if_splits prod.splits sum.splits dest: allocateColor_evolves)
  qed
qed

lemma get_depthStencilTextures_evolves:
  assumes "get_depthStencilTextures s l c = (r, l', c')"
  shows "evolves l c l' c'"
proof -
  consider "kind l = Cube" | "kind l = Projection" | "quadLike l" using quadLike_cases by blast
  then show ?thesis
  proof cases
    case 1
    with assms show ?thesis by (simp add: get_depthStencilTextures_def)
  next
    case 2
    with assms show ?thesis
      by (auto simp: get_depthStencilTextures_def split: if_splits prod.splits sum.splits
            dest: allocateProjectionDepth_evolves)
  next
    case 3
    then have "get_depthStencilTextures s l c =
          (if isMediaLayer l
             then (Inl (Error ''Media layers do not have associated textures''), l, c)
           else if isEmptyList (p_depthStencilTextures l) then
             (case allocateDepthStencilTexturesInternal (getTextureType l) (init l) l c of
                (Inl e, l1, c1) \<Rightarrow> (Inl e, l1, c1)
              | (Inr u, l1, c1) \<Rightarrow> (Inr (p_depthStencilTextures l1), l1, c1))
           else (Inr (p_depthStencilTextures l), l, c))"
      by (auto simp: get_depthStencilTextures_def quadLike_def)
    with assms 3 show ?thesis
      by (auto split: if_splits prod.splits sum.splits dest: allocateDepth_evolves)
  qed
qed

lemma get_colorTextures_result:
  "get_colorTextures s l c = (Inr ts, l', c') \<Longrightarrow> ts = p_colorTextures l'"
  by (auto simp: get_colorTextures_def
        split: layer_kind.splits if_splits prod.splits sum.splits)

lemma get_colorTexturesMeta_result:
  "get_colorTexturesMeta s l c = (Inr ms, l', c') \<Longrightarrow> ms = p_texturesMeta l'"
  by (auto simp: get_colorTexturesMeta_def
        split: layer_kind.splits if_splits prod.splits sum.splits)

lemma validate_evolves:
  "validateStateofSubImageCreation s f l c = (r, l', c') \<Longrightarrow> evolves l c l' c'"
  by (auto simp: validateStateofSubImageCreation_def
        split: if_splits prod.splits sum.splits option.splits bool.splits
        dest!: get_colorTextures_evolves intro: evolves_trans)

lemma subImageDepth_evolves:
  "subImageDepthStencilTexture s i l c = (r, l', c') \<Longrightarrow> evolves l c l' c'"
  by (auto simp: subImageDepthStencilTexture_def
        split: if_splits prod.splits sum.splits option.splits
        dest!: get_depthStencilTextures_evolves intro: evolves_trans)

lemma resolveSubImage_evolves:
  "resolveSubImage s e l c = (r, l', c') \<Longrightarrow> evolves l c l' c'"
  by (auto simp: resolveSubImage_def Let_def
        split: if_splits prod.splits sum.splits option.splits
        dest!: get_colorTextures_evolves get_colorTexturesMeta_evolves subImageDepth_evolves
        intro: evolves_trans)

lemma colorTexturesMetaAt_evolves:
  "colorTexturesMetaAt s i l c = (r, l', c') \<Longrightarrow> evolves l c l' c'"
  by (auto simp: colorTexturesMetaAt_def
        split: if_splits prod.splits sum.splits option.splits
        dest!: get_colorTexturesMeta_evolves)

lemma resolveViewSubImage_evolves:
  "resolveViewSubImage s vs i l c = (r, l', c') \<Longrightarrow> evolves l c l' c'"
  by (auto simp: resolveViewSubImage_def Let_def
        split: if_splits prod.splits sum.splits option.splits
        dest!: get_colorTextures_evolves get_depthStencilTextures_evolves
          colorTexturesMetaAt_evolves)
     (blast intro: evolves_trans)+

lemma evolves_settled:
  "evolves l c l' c' \<Longrightarrow> settled l \<Longrightarrow> settled l'"
  by (auto simp: evolves_def settled_def)

lemma evolves_getTextureType:
  "evolves l c l' c' \<Longrightarrow> getTextureType l' = getTextureType l"
  by (auto simp: evolves_def getTextureType_def isMediaLayer_def split: layer_kind.splits)

lemma evolves_expected:
  assumes "evolves l c l' c'" and "settled l"
  shows "expected l' e = expected l e"
proof -
  have a: "layout l' = layout l" and b: "p_colorTextures l' = p_colorTextures l"
    and d: "p_texturesMeta l' = p_texturesMeta l"
    using assms by (auto simp: evolves_def)
  have t: "getTextureType l' = getTextureType l"
    using assms(1) by (rule evolves_getTextureType)
  show ?thesis unfolding expected_def a b d t by (rule refl)
qed

lemma get_colorTextures_settled:
  "settled l \<Longrightarrow> get_colorTextures s l c = (Inr ts, l', c') \<Longrightarrow>
     l' = l \<and> c' = c \<and> ts = p_colorTextures l"
  by (auto simp: get_colorTextures_def settled_def
        split: layer_kind.splits if_splits)

lemma get_colorTexturesMeta_settled:
  "settled l \<Longrightarrow> get_colorTexturesMeta s l c = (Inr ms, l', c') \<Longrightarrow>
     l' = l \<and> c' = c \<and> ms = p_texturesMeta l"
  by (auto simp: get_colorTexturesMeta_def settled_def
        split: layer_kind.splits if_splits)

lemma resolveSubImage_expected:
  assumes st: "settled l" and r: "resolveSubImage s e l c = (Inr si, l', c')"
  shows "expected l e = Some (colorTexture si, viewport si)"
proof -
  from r obtain index where ix: "selectIndex (layout l) e = Inr index"
    by (auto simp: resolveSubImage_def split: sum.splits)
  from r ix obtain cts l1 c1 where g1: "get_colorTextures s l c = (Inr (Some cts), l1, c1)"
    by (auto simp: resolveSubImage_def Let_def split: sum.splits prod.splits option.splits)
  from get_colorTextures_settled [OF st g1] have l1: "l1 = l" "c1 = c" "p_colorTextures l = Some cts"
    by simp_all
  from r ix g1 l1 obtain depth l2 c2 where
    g2: "subImageDepthStencilTexture s index l c = (Inr depth, l2, c2)"
    by (auto simp: resolveSubImage_def Let_def split: sum.splits prod.splits option.splits)
  note e2 = subImageDepth_evolves [OF g2]
  have st2: "settled l2" using evolves_settled [OF e2 st] .
  from r ix g1 l1 g2 obtain metas l3 c3 where
    g3: "get_colorTexturesMeta s l2 c2 = (Inr (Some metas), l3, c3)"
    by (auto simp: resolveSubImage_def Let_def split: sum.splits prod.splits option.splits)
  from get_colorTexturesMeta_settled [OF st2 g3] have l3: "l3 = l2" "c3 = c2" "p_texturesMeta l2 = Some metas"
    by simp_all
  have same: "layout l2 = layout l" "p_texturesMeta l2 = p_texturesMeta l"
    using e2 st by (auto simp: evolves_def)
  from r ix g1 l1 g2 g3 l3 same show ?thesis
    by (auto simp: resolveSubImage_def expected_def Let_def
          split: sum.splits prod.splits option.splits if_splits)
qed

lemma evolves_initialised:
  "evolves l c l' c' \<Longrightarrow> initialised l \<Longrightarrow> initialised l'"
  by (auto simp: evolves_def initialised_def quadLike_def)

lemma settled_initialised:
  "layerInitState l c \<Longrightarrow> settled l \<Longrightarrow> initialised l"
  by (simp add: layerInitState_def settled_def initialised_def)

section \<open>Every reachable world is well formed\<close>

lemma layerInitState_version:
  "version c' = version c \<Longrightarrow> layerInitState l c' = layerInitState l c"
  by (simp add: layerInitState_def)

lemma wf_layers: "wellFormed w \<Longrightarrow> layers w lid = Some l \<Longrightarrow> lid < layersCreated w"
  by (simp add: wellFormed_def)

lemma wf_subimages: "wellFormed w \<Longrightarrow> subimages w r = Some si \<Longrightarrow> r < subimagesCreated w"
  by (simp add: wellFormed_def)

lemma wf_stereoInit:
  "wellFormed w \<Longrightarrow> layers w lid = Some l \<Longrightarrow> layerInitState l (binding_context w)"
  by (simp add: wellFormed_def)

lemma wf_cacheInv: "wellFormed w \<Longrightarrow> cacheInv w"
  by (simp add: wellFormed_def)

lemma wf_viewCache:
  "wellFormed w \<Longrightarrow> noViews (internalViews (binding_session w)) \<Longrightarrow> viewCache w = Map.empty"
  by (auto simp add: wellFormed_def)

lemma wellFormedI:
  assumes "\<And>lid l. layers w lid = Some l \<Longrightarrow> lid < layersCreated w"
    and "\<And>r si. subimages w r = Some si \<Longrightarrow> r < subimagesCreated w"
    and "\<And>lid l. layers w lid = Some l \<Longrightarrow> layerInitState l (binding_context w)"
    and "cacheInv w"
    and "noViews (internalViews (binding_session w)) \<Longrightarrow> viewCache w = Map.empty"
  shows "wellFormed w"
  unfolding wellFormed_def using assms by blast

lemma cacheInv_keep:
  assumes inv: "cacheInv w" and c: "cache w' = cache w"
    and n: "subimagesCreated w \<le> subimagesCreated w'"
    and h: "\<And>r. r < subimagesCreated w \<Longrightarrow> subimages w' r = subimages w r"
    and ls: "\<And>lid l. layers w lid = Some l \<Longrightarrow> initialised l \<Longrightarrow>
               \<exists>l'. layers w' lid = Some l' \<and> initialised l'"
  shows "cacheInv w'"
  unfolding cacheInv_def
proof (intro allI impI)
  fix cid lid e r
  assume "tryGetCachedSubImage w' cid lid e = Some r"
  then have "tryGetCachedSubImage w cid lid e = Some r" using c by (simp add: tryGetCachedSubImage_def)
  with inv have "r < subimagesCreated w
      \<and> (\<exists>l si. layers w lid = Some l \<and> initialised l \<and> subimages w r = Some si)"
    unfolding cacheInv_def by blast
  then obtain l0 si where r: "r < subimagesCreated w" and l0: "layers w lid = Some l0"
    and s0: "initialised l0" and si: "subimages w r = Some si" by blast
  from ls [OF l0 s0] obtain l' where "layers w' lid = Some l'" "initialised l'" by blast
  with r n h [OF r] si
  show "r < subimagesCreated w' \<and>
        (\<exists>l si. layers w' lid = Some l \<and> initialised l \<and> subimages w' r = Some si)"
    by auto
qed

lemma wf_putLayer:
  assumes wf: "wellFormed w" and l: "layers w lid = Some l"
    and ev: "evolves l (binding_context w) l' c'"
  shows "wellFormed (putLayer lid l' c' w)"
proof (rule wellFormedI)
  let ?w = "putLayer lid l' c' w"
  have v: "version c' = version (binding_context w)" using ev by (simp add: evolves_def)
  show "cacheInv ?w"
  proof (rule cacheInv_keep [where w = w])
    show "cacheInv w" using wf by (rule wf_cacheInv)
    fix lid0 l0 assume a: "layers w lid0 = Some l0" "initialised l0"
    show "\<exists>l'. layers ?w lid0 = Some l' \<and> initialised l'"
    proof (cases "lid0 = lid")
      case True
      with a l have "l0 = l" by simp
      with a True evolves_initialised [OF ev] show ?thesis
        by (simp add: putLayer_def)
    next
      case False
      with a show ?thesis by (simp add: putLayer_def)
    qed
  qed (simp_all add: putLayer_def)
  fix lid0 l0 assume a: "layers ?w lid0 = Some l0"
  show "layerInitState l0 (binding_context ?w)"
  proof (cases "lid0 = lid")
    case True
    with a have "l0 = l'" by (simp add: putLayer_def)
    moreover have "layerInitState l (binding_context w)" using wf l by (rule wf_stereoInit)
    ultimately show ?thesis using ev by (simp add: putLayer_def evolves_def)
  next
    case False
    with a have "layers w lid0 = Some l0" by (simp add: putLayer_def)
    with wf have "layerInitState l0 (binding_context w)" by (rule wf_stereoInit)
    with v layerInitState_version [of c' "binding_context w" l0] show ?thesis
      by (simp add: putLayer_def)
  qed
  show "lid0 < layersCreated ?w"
    using a wf_layers [OF wf] l by (cases "lid0 = lid") (simp_all add: putLayer_def)
next
  fix r si assume "subimages (putLayer lid l' c' w) r = Some si"
  then show "r < subimagesCreated (putLayer lid l' c' w)"
    using wf_subimages [OF wf] by (simp add: putLayer_def)
next
  assume "noViews (internalViews (binding_session (putLayer lid l' c' w)))"
  then show "viewCache (putLayer lid l' c' w) = Map.empty"
    using wf_viewCache [OF wf] by (simp add: putLayer_def)
qed

lemma wf_same_layers:
  assumes wf: "wellFormed w"
    and "layers w' = layers w" and "layersCreated w' = layersCreated w"
    and "version (binding_context w') = version (binding_context w)"
    and "cache w' = cache w"
    and "subimagesCreated w \<le> subimagesCreated w'"
    and "\<And>r. r < subimagesCreated w \<Longrightarrow> subimages w' r = subimages w r"
    and "\<And>r si. subimages w' r = Some si \<Longrightarrow> r < subimagesCreated w'"
    and "noViews (internalViews (binding_session w')) \<Longrightarrow> viewCache w' = Map.empty"
  shows "wellFormed w'"
proof (rule wellFormedI)
  show "cacheInv w'"
    by (rule cacheInv_keep [where w = w]) (use assms wf_cacheInv in auto)
next
  fix lid l assume a: "layers w' lid = Some l"
  then show "lid < layersCreated w'" using assms wf_layers [OF wf] by simp
  from a show "layerInitState l (binding_context w')"
    using assms(2,4) wf_stereoInit [OF wf, of lid l]
      layerInitState_version [of "binding_context w'" "binding_context w" l] by simp
qed (use assms in auto)

lemma wf_newSubImage:
  assumes wf: "wellFormed w"
  shows "wellFormed (snd (newSubImage w))"
  by (rule wf_same_layers [OF wf])
     (use wf_subimages [OF wf] wf_viewCache [OF wf] in
       \<open>auto simp add: newSubImage_def less_Suc_eq split: if_splits\<close>)

lemma wf_queueTask: "wellFormed w \<Longrightarrow> wellFormed (queueTask t w)"
  by (rule wf_same_layers, assumption)
     (use wf_subimages [of w] wf_viewCache [of w] in \<open>auto simp add: queueTask_def\<close>)

lemma validate_True_settled:
  assumes "validateStateofSubImageCreation s f l c = (Inr True, l1, c1)"
    and "kind l \<noteq> Projection"
  shows "settled l1 \<and> \<not> (isStatic l1 \<and> needsRedraw l1 = Some False)
         \<and> layer_session l1 = Some (session_id s) \<and> layer_context l1 = Some (context_id c1)
         \<and> frame_session f = session_id s"
proof -
  have ev: "evolves l c l1 c1" using assms(1) by (rule validate_evolves)
  from assms(1) obtain ts1 la ca ts2 where
    g1: "get_colorTextures s l c = (Inr (Some ts1), la, ca)" and
    g2: "get_colorTextures s la ca = (Inr (Some ts2), l1, c1)" and
    n: "length ts2 \<noteq> 0" and st: "\<not> (isStatic l1 \<and> needsRedraw l1 = Some False)"
    and ids0: "Some (frame_session f) = layer_session l" "Some (session_id s) = layer_session l"
      "Some (context_id c) = layer_context l"
    by (auto simp: validateStateofSubImageCreation_def
          split: if_splits prod.splits sum.splits option.splits)
  note ids = ids0 [symmetric]
  from get_colorTextures_result [OF g2] n have "\<not> isEmptyList (p_colorTextures l1)"
    by (cases "p_colorTextures l1") (auto simp: isEmptyList_def)
  with ev assms(2) st ids show ?thesis
    by (auto simp: settled_def evolves_def)
qed

text \<open>The three ways in which \<^verbatim>\<open>getSubImage\<close> ends.\<close>

lemma getSubImage_cases:
  assumes l: "layers w lid = Some l" and g: "getSubImage lid f e w = (res, w')"
  obtains
    (unchanged) "w' = w"
      "(res = Inl (Error ''Invalid state for subimage creation'')
          \<and> isStatic l \<and> needsRedraw l = Some False)
       \<or> (\<not> (isStatic l \<and> needsRedraw l = Some False)
           \<and> (\<exists>r. res = Inr r
                  \<and> tryGetCachedSubImage w (context_id (binding_context w)) lid e = Some r))"
  | (failed) l' c' err where "res = Inl err"
      "evolves l (binding_context w) l' c'"
      "w' = putLayer lid l' c' (snd (newSubImage w))"
      "\<not> (isStatic l \<and> needsRedraw l = Some False)"
      "tryGetCachedSubImage w (context_id (binding_context w)) lid e = None"
  | (computed) l1 c1 l2 c2 si where
      "\<not> (isStatic l \<and> needsRedraw l = Some False)"
      "tryGetCachedSubImage w (context_id (binding_context w)) lid e = None"
      "kind l \<noteq> Projection" "layout l \<noteq> layout_default"
      "validateStateofSubImageCreation (binding_session w) f l (binding_context w)
         = (Inr True, l1, c1)"
      "resolveSubImage (binding_session w) e l1 c1 = (Inr si, l2, c2)"
      "res = Inr (subimagesCreated w)"
      "w' = w\<lparr> layers := (layers w)(lid \<mapsto> l2), binding_context := c2,
               subimages := (subimages w)(subimagesCreated w \<mapsto> si),
               subimagesCreated := Suc (subimagesCreated w),
               binding_session := (binding_session w)\<lparr>taskQueue :=
                 taskQueue (binding_session w) @ [ClearNeedsRedraw lid]\<rparr>,
               cache := (cache w)(context_id c2 \<mapsto>
                          Map.empty(lid \<mapsto> Map.empty(e \<mapsto> subimagesCreated w))) \<rparr>"
proof (cases "isStatic l \<and> needsRedraw l = Some False")
  case True
  with l g have "w' = w" "res = Inl (Error ''Invalid state for subimage creation'')"
    by (auto simp: getSubImage_def)
  with True show ?thesis using unchanged by blast
next
  case gate: False
  show ?thesis
  proof (cases "tryGetCachedSubImage w (context_id (binding_context w)) lid e")
    case (Some r)
    with l g gate have "w' = w" "res = Inr r" by (auto simp: getSubImage_def)
    with gate Some show ?thesis using unchanged by blast
  next
    case None
    let ?w1 = "snd (newSubImage w)"
    have w1: "binding_session ?w1 = binding_session w" "binding_context ?w1 = binding_context w"
      by (simp_all add: newSubImage_def)
    have p0: "putLayer lid l (binding_context w) ?w1 = ?w1"
      using l by (simp add: putLayer_def newSubImage_def fun_upd_idem)
    show ?thesis
    proof (cases "kind l = Projection \<or> layout l = layout_default")
      case True
      with l g gate None have "w' = ?w1" "\<exists>err. res = Inl err"
        by (auto simp: getSubImage_def split: prod.splits if_splits)
      with p0 gate None show ?thesis using failed [of _ l "binding_context w"] by auto
    next
      case False
      obtain rv l1 c1 where v: "validateStateofSubImageCreation (binding_session w) f l
          (binding_context w) = (rv, l1, c1)" by (metis prod_cases3)
      note ev1 = validate_evolves [OF v]
      show ?thesis
      proof (cases "rv = Inr True")
        case nv: False
        with l g gate None False v w1 have "w' = putLayer lid l1 c1 ?w1" "\<exists>err. res = Inl err"
          by (auto simp: getSubImage_def split: prod.splits sum.splits bool.splits)
        with ev1 gate None show ?thesis using failed by blast
      next
        case True
        obtain rr l2 c2 where rs: "resolveSubImage (binding_session w) e l1 c1 = (rr, l2, c2)"
          by (metis prod_cases3)
        have ev2: "evolves l (binding_context w) l2 c2"
          using ev1 resolveSubImage_evolves [OF rs] by (rule evolves_trans)
        show ?thesis
        proof (cases rr)
          case (Inl err)
          with l g gate None False v w1 True rs have "w' = putLayer lid l2 c2 ?w1" "res = Inl err"
            by (auto simp: getSubImage_def split: prod.splits)
          with ev2 gate None show ?thesis using failed by blast
        next
          case (Inr si)
          with l g gate None False v w1 True rs
          have "res = Inr (subimagesCreated w)"
            by (auto simp: getSubImage_def newSubImage_def Let_def split: prod.splits)
          moreover from Inr l g gate None False v w1 True rs
          have "w' = w\<lparr> layers := (layers w)(lid \<mapsto> l2), binding_context := c2,
               subimages := (subimages w)(subimagesCreated w \<mapsto> si),
               subimagesCreated := Suc (subimagesCreated w),
               binding_session := (binding_session w)\<lparr>taskQueue :=
                 taskQueue (binding_session w) @ [ClearNeedsRedraw lid]\<rparr>,
               cache := (cache w)(context_id c2 \<mapsto>
                          Map.empty(lid \<mapsto> Map.empty(e \<mapsto> subimagesCreated w))) \<rparr>"
            by (auto simp: getSubImage_def newSubImage_def Let_def putLayer_def queueTask_def
                  cacheSubImage_def split: prod.splits)
          ultimately show ?thesis using computed gate None False v True rs Inr by blast
        qed
      qed
    qed
  qed
qed

lemma wf_getSubImage:
  assumes wf: "wellFormed w"
  shows "wellFormed (snd (getSubImage lid f e w))"
proof (cases "layers w lid")
  case None
  then show ?thesis using wf by (simp add: getSubImage_def)
next
  case (Some l)
  obtain res w' where g: "getSubImage lid f e w = (res, w')" by (metis surj_pair)
  from Some g have "wellFormed w'"
  proof (cases rule: getSubImage_cases)
    case unchanged
    then show ?thesis using wf by simp
  next
    case (failed l' c' err)
    have "layers (snd (newSubImage w)) lid = Some l"
      "binding_context (snd (newSubImage w)) = binding_context w"
      using Some by (simp_all add: newSubImage_def)
    with failed wf_putLayer [OF wf_newSubImage [OF wf], of lid l l' c'] show ?thesis by simp
  next
    case (computed l1 c1 l2 c2 si)
    let ?c = "binding_context w" and ?s = "binding_session w"
    have ev1: "evolves l ?c l1 c1" using computed(5) by (rule validate_evolves)
    have ev12: "evolves l1 c1 l2 c2" using computed(6) by (rule resolveSubImage_evolves)
    have ev: "evolves l ?c l2 c2" using ev1 ev12 by (rule evolves_trans)
    have st1: "settled l1" using validate_True_settled [OF computed(5,3)] by simp
    have "layerInitState l1 c1" using wf_stereoInit [OF wf Some] ev1 by (simp add: evolves_def)
    then have "initialised l1" using st1 by (rule settled_initialised)
    with ev12 have in2: "initialised l2" by (rule evolves_initialised)
    have v: "version c2 = version ?c" using ev by (simp add: evolves_def)
    show ?thesis
    proof (rule wellFormedI)
      show "cacheInv w'"
        unfolding cacheInv_def
      proof (intro allI impI)
        fix cid lid0 e0 r
        assume a: "tryGetCachedSubImage w' cid lid0 e0 = Some r"
        show "r < subimagesCreated w' \<and>
              (\<exists>l si. layers w' lid0 = Some l \<and> initialised l \<and> subimages w' r = Some si)"
        proof (cases "cid = context_id c2")
          case True
          with a computed(8) have "lid0 = lid \<and> e0 = e \<and> r = subimagesCreated w"
            by (auto simp: tryGetCachedSubImage_def split: if_splits)
          with computed(8) in2 show ?thesis by simp
        next
          case False
          with a computed(8) have "tryGetCachedSubImage w cid lid0 e0 = Some r"
            by (simp add: tryGetCachedSubImage_def)
          with wf_cacheInv [OF wf] have "r < subimagesCreated w
              \<and> (\<exists>l si. layers w lid0 = Some l \<and> initialised l \<and> subimages w r = Some si)"
            unfolding cacheInv_def by blast
          then obtain l0 si0 where r: "r < subimagesCreated w"
            and l0: "layers w lid0 = Some l0"
            and s0: "initialised l0" and si: "subimages w r = Some si0" by blast
          show ?thesis
          proof (cases "lid0 = lid")
            case True
            with l0 Some have "l0 = l" by simp
            with s0 evolves_initialised [OF ev] have "initialised l2" by simp
            with True r si computed(8) show ?thesis by simp
          next
            case False
            with r l0 s0 si computed(8) show ?thesis by simp
          qed
        qed
      qed
    next
      fix lid0 l0 assume a: "layers w' lid0 = Some l0"
      show "lid0 < layersCreated w'"
        using a computed(8) wf_layers [OF wf] Some by (cases "lid0 = lid") simp_all
      show "layerInitState l0 (binding_context w')"
      proof (cases "lid0 = lid")
        case True
        with a computed(8) have "l0 = l2" by simp
        with wf_stereoInit [OF wf Some] ev computed(8) show ?thesis by (simp add: evolves_def)
      next
        case False
        with a computed(8) have "layers w lid0 = Some l0" by simp
        with wf_stereoInit [OF wf this] v computed(8)
          layerInitState_version [of c2 ?c l0] show ?thesis by simp
      qed
    next
      fix r si0 assume "subimages w' r = Some si0"
      then show "r < subimagesCreated w'"
        using computed(8) wf_subimages [OF wf, of r] by (cases "r = subimagesCreated w") auto
    next
      assume "noViews (internalViews (binding_session w'))"
      then show "viewCache w' = Map.empty" using computed(8) wf_viewCache [OF wf] by simp
    qed
  qed
  with g show ?thesis by simp
qed

lemma getTextureType_needsRedraw [simp]:
  "getTextureType (l\<lparr>needsRedraw := b\<rparr>) = getTextureType l"
  by (auto simp add: getTextureType_def isMediaLayer_def split: layer_kind.splits)

lemma expected_needsRedraw [simp]:
  "expected (l\<lparr>needsRedraw := b\<rparr>) e = expected l e"
  unfolding expected_def getTextureType_needsRedraw
  by (simp split: sum.splits option.splits)

lemma needsRedraw_irrelevant [simp]:
  "settled (l\<lparr>needsRedraw := b\<rparr>) = settled l"
  "layerInitState (l\<lparr>needsRedraw := b\<rparr>) c = layerInitState l c"
  "initialised (l\<lparr>needsRedraw := b\<rparr>) = initialised l"
  by (simp_all add: settled_def layerInitState_def isMediaLayer_def quadLike_def
        initialised_def)

lemma wf_layer_update:
  assumes wf: "wellFormed w" and l: "layers w lid = Some l"
    and v: "version c' = version (binding_context w)"
    and j: "layerInitState l c' \<Longrightarrow> layerInitState l' c'"
    and st: "initialised l \<Longrightarrow> initialised l'"
  shows "wellFormed (w\<lparr>layers := (layers w)(lid \<mapsto> l'), binding_context := c'\<rparr>)"
proof (rule wellFormedI)
  let ?w = "w\<lparr>layers := (layers w)(lid \<mapsto> l'), binding_context := c'\<rparr>"
  show "cacheInv ?w"
  proof (rule cacheInv_keep [where w = w])
    show "cacheInv w" using wf by (rule wf_cacheInv)
    fix lid0 l0 assume a: "layers w lid0 = Some l0" "initialised l0"
    show "\<exists>l'. layers ?w lid0 = Some l' \<and> initialised l'"
    proof (cases "lid0 = lid")
      case True
      with a l have "l0 = l" by simp
      with a True st show ?thesis by simp
    next
      case False
      with a show ?thesis by simp
    qed
  qed simp_all
  fix lid0 l0 assume a: "layers ?w lid0 = Some l0"
  show "layerInitState l0 (binding_context ?w)"
  proof (cases "lid0 = lid")
    case True
    with a have "l0 = l'" by simp
    moreover have "layerInitState l c'"
      using wf_stereoInit [OF wf l] layerInitState_version [OF v, of l] by simp
    ultimately show ?thesis using j by simp
  next
    case False
    with a have "layers w lid0 = Some l0" by simp
    with wf have "layerInitState l0 (binding_context w)" by (rule wf_stereoInit)
    with layerInitState_version [OF v, of l0] show ?thesis by simp
  qed
  show "lid0 < layersCreated ?w"
    using a wf_layers [OF wf] l by (cases "lid0 = lid") simp_all
next
  fix r si assume "subimages (w\<lparr>layers := (layers w)(lid \<mapsto> l'), binding_context := c'\<rparr>) r = Some si"
  then show "r < subimagesCreated (w\<lparr>layers := (layers w)(lid \<mapsto> l'), binding_context := c'\<rparr>)"
    using wf_subimages [OF wf] by simp
next
  assume "noViews (internalViews (binding_session
            (w\<lparr>layers := (layers w)(lid \<mapsto> l'), binding_context := c'\<rparr>)))"
  then show "viewCache (w\<lparr>layers := (layers w)(lid \<mapsto> l'), binding_context := c'\<rparr>) = Map.empty"
    using wf_viewCache [OF wf] by simp
qed

lemma wf_alloc:
  assumes wf: "wellFormed w"
  shows "wellFormed (w\<lparr>subimages := (subimages w)(subimagesCreated w \<mapsto> si),
                      subimagesCreated := Suc (subimagesCreated w)\<rparr>)"
  by (rule wf_same_layers [OF wf])
     (use wf_subimages [OF wf] wf_viewCache [OF wf] in
       \<open>auto simp add: less_Suc_eq split: if_splits\<close>)

lemma wf_viewCache_update:
  assumes wf: "wellFormed w" and "\<not> noViews (internalViews (binding_session w))"
  shows "wellFormed (w\<lparr>viewCache := vc\<rparr>)"
  by (rule wf_same_layers [OF wf]) (use assms wf_subimages [OF wf] in auto)

lemma wf_getViewSubImage:
  assumes wf: "wellFormed w"
  shows "wellFormed (snd (getViewSubImage lid view w))"
proof (cases "tryGetCachedViewSubImage w (context_id (binding_context w)) lid view")
  case (Some r)
  then show ?thesis using wf by (simp add: getViewSubImage_def)
next
  case None
  let ?w1 = "snd (newSubImage w)"
  have w1: "binding_session ?w1 = binding_session w" "binding_context ?w1 = binding_context w"
    "layers ?w1 = layers w"
    by (simp_all add: newSubImage_def)
  have wf1: "wellFormed ?w1" using wf by (rule wf_newSubImage)
  show ?thesis
  proof (cases "noViews (internalViews (binding_session w)) \<or> layers w lid = None")
    case True
    with None w1 have "snd (getViewSubImage lid view w) = ?w1"
      by (auto simp: getViewSubImage_def noViews_def split_beta
            split: option.splits)
    with wf1 show ?thesis by simp
  next
    case False
    then obtain vs l where vs: "internalViews (binding_session w) = Some vs" "length vs \<noteq> 0"
      and l: "layers w lid = Some l"
      by (auto simp: noViews_def split: option.splits)
    obtain rr l1 c1 where rs: "resolveViewSubImage (binding_session w) vs (getViewIndex vs view) l
        (binding_context w) = (rr, l1, c1)" by (metis prod_cases3)
    note ev = resolveViewSubImage_evolves [OF rs]
    have v: "version c1 = version (binding_context w)" using ev by (simp add: evolves_def)
    show ?thesis
    proof (cases rr)
      case (Inl err)
      with None vs l rs w1 have "snd (getViewSubImage lid view w) = putLayer lid l1 c1 ?w1"
        by (simp add: getViewSubImage_def split_beta)
      moreover have "wellFormed (putLayer lid l1 c1 ?w1)"
        using wf_putLayer [OF wf1, of lid l l1 c1] l ev w1 by simp
      ultimately show ?thesis by simp
    next
      case (Inr si)
      let ?wa = "w\<lparr>subimages := (subimages w)(subimagesCreated w \<mapsto> si),
                    subimagesCreated := Suc (subimagesCreated w)\<rparr>"
      let ?l2 = "l1\<lparr>needsRedraw := Some False\<rparr>"
      let ?wb = "?wa\<lparr>layers := (layers ?wa)(lid \<mapsto> ?l2), binding_context := c1\<rparr>"
      have wfa: "wellFormed ?wa" using wf by (rule wf_alloc)
      have wfb: "wellFormed ?wb"
      proof (rule wf_layer_update [OF wfa, where l = l])
        show "layers ?wa lid = Some l" using l by simp
        show "version c1 = version (binding_context ?wa)" using v by simp
        show "layerInitState ?l2 c1" if "layerInitState l c1"
          using that ev layerInitState_version [OF v, of l] by (simp add: evolves_def)
        show "initialised ?l2" if "initialised l"
          using that evolves_initialised [OF ev] by simp
      qed
      have nv: "\<not> noViews (internalViews (binding_session ?wb))"
        using vs by (simp add: noViews_def)
      from Inr None vs l rs w1
      have "snd (getViewSubImage lid view w) =
              ?wb\<lparr>viewCache := (viewCache w)(context_id c1 \<mapsto>
                     Map.empty(lid \<mapsto> Map.empty(view_id view \<mapsto> subimagesCreated w)))\<rparr>"
        by (simp add: getViewSubImage_def split_beta Let_def)
           (simp add: newSubImage_def putLayer_def cacheViewSubImage_def)
      then show ?thesis using wf_viewCache_update [OF wfb nv] by simp
    qed
  qed
qed

lemma createCubeTexture_ctx:
  "createCubeTexture c ini fmt = (t, c') \<Longrightarrow>
     context_id c' = context_id c \<and> version c' = version c"
  by (auto simp: createCubeTexture_def createTexture_def)

lemma wf_context:
  assumes wf: "wellFormed w" and v: "version c' = version (binding_context w)"
  shows "wellFormed (w\<lparr>binding_context := c'\<rparr>)"
  by (rule wf_same_layers [OF wf]) (use v wf_subimages [OF wf] wf_viewCache [OF wf] in auto)

lemma wf_addLayer:
  assumes wf: "wellFormed w" and j: "layerInitState l (binding_context w)"
  shows "wellFormed (snd (addLayer l w))"
proof (rule wellFormedI)
  let ?w = "snd (addLayer l w)"
  have fresh: "layers w (layersCreated w) = None"
    using wf_layers [OF wf, of "layersCreated w"] by (cases "layers w (layersCreated w)") auto
  show "cacheInv ?w"
  proof (rule cacheInv_keep [where w = w])
    show "cacheInv w" using wf by (rule wf_cacheInv)
    fix lid0 l0 assume a: "layers w lid0 = Some l0" "initialised l0"
    with fresh have "lid0 \<noteq> layersCreated w" by auto
    with a show "\<exists>l'. layers ?w lid0 = Some l' \<and> initialised l'"
      by (simp add: addLayer_def)
  qed (simp_all add: addLayer_def)
  fix lid0 l0 assume a: "layers ?w lid0 = Some l0"
  show "lid0 < layersCreated ?w"
    using a wf_layers [OF wf, of lid0]
    by (cases "lid0 = layersCreated w") (auto simp: addLayer_def)
  show "layerInitState l0 (binding_context ?w)"
    using a j wf_stereoInit [OF wf, of lid0 l0]
    by (cases "lid0 = layersCreated w") (auto simp: addLayer_def)
next
  fix r si assume "subimages (snd (addLayer l w)) r = Some si"
  then show "r < subimagesCreated (snd (addLayer l w))"
    using wf_subimages [OF wf] by (simp add: addLayer_def)
next
  assume "noViews (internalViews (binding_session (snd (addLayer l w))))"
  then show "viewCache (snd (addLayer l w)) = Map.empty"
    using wf_viewCache [OF wf] by (simp add: addLayer_def)
qed

lemma layerInitState_fresh:
  "layerInitState (initialize s co (new_layer k ini)) c"
  by (cases co) (simp_all add: layerInitState_def initialize_def new_layer_def isEmptyList_def
        quadLike_def isMediaLayer_def Let_def)

lemma layerInitState_media:
  "layerInitState ((initialize s None (new_mediaLayer k mi video))\<lparr>needsRedraw := b\<rparr>) c"
  by (simp add: layerInitState_def initialize_def new_mediaLayer_def isMediaLayer_def
        isEmptyList_def)

lemma layerInitState_not_quadLike:
  "kind l = Cube \<or> kind l = Projection \<Longrightarrow> layerInitState l c"
  by (auto simp: layerInitState_def quadLike_def)

lemma wf_createQuadLayer: "wellFormed w \<Longrightarrow> wellFormed (snd (createQuadLayer ini w))"
  using wf_addLayer [of w "initialize (binding_session w) (Some (binding_context w))
                             (new_layer Quad ini)"]
  by (simp add: createQuadLayer_def layerInitState_fresh split_beta)

lemma wf_createCylinderLayer: "wellFormed w \<Longrightarrow> wellFormed (snd (createCylinderLayer ini w))"
  using wf_addLayer [of w "initialize (binding_session w) (Some (binding_context w))
                             (new_layer Cylinder ini)"]
  by (simp add: createCylinderLayer_def layerInitState_fresh split_beta)

lemma wf_createEquirectLayer: "wellFormed w \<Longrightarrow> wellFormed (snd (createEquirectLayer ini w))"
  using wf_addLayer [of w "initialize (binding_session w) (Some (binding_context w))
                             (new_layer Equirect ini)"]
  by (simp add: createEquirectLayer_def new_XREquirectLayer_def layerInitState_fresh split_beta)

lemma wf_media_createQuadLayer:
  "wellFormed w \<Longrightarrow> wellFormed (snd (media_createQuadLayer video mi w))"
  by (simp add: media_createQuadLayer_def Let_def split_beta initialize_def
        wf_addLayer layerInitState_def isMediaLayer_def new_mediaLayer_def isEmptyList_def)

lemma wf_media_createCylinderLayer:
  "wellFormed w \<Longrightarrow> wellFormed (snd (media_createCylinderLayer video mi w))"
  by (simp add: media_createCylinderLayer_def Let_def split_beta initialize_def
        wf_addLayer layerInitState_def isMediaLayer_def new_mediaLayer_def isEmptyList_def)

lemma wf_media_createEquirectLayer:
  "wellFormed w \<Longrightarrow> wellFormed (snd (media_createEquirectLayer video mi w))"
  by (simp add: media_createEquirectLayer_def Let_def split_beta initialize_def
        wf_addLayer layerInitState_def isMediaLayer_def new_mediaLayer_def isEmptyList_def)

lemma wf_createProjectionLayer:
  assumes wf: "wellFormed w"
  shows "wellFormed (snd (createProjectionLayer ini w))"
proof -
  let ?l = "initialize (binding_session w) (Some (binding_context w)) (new_XRProjectionLayer ini)"
  obtain r l1 c1 where i: "initializeIfNeeded (binding_session w) ?l (binding_context w) = (r, l1, c1)"
    by (metis prod_cases3)
  have k: "kind ?l = Projection"
    by (simp add: initialize_def new_XRProjectionLayer_def new_layer_def Let_def)
  note e = initializeIfNeeded_projection_evolves [OF i k]
  then have v: "version c1 = version (binding_context w)" by (simp add: evolves_def)
  have "wellFormed (snd (addLayer l1 (w\<lparr>binding_context := c1\<rparr>)))"
    using wf_addLayer [OF wf_context [OF wf v], of l1] e layerInitState_not_quadLike [of l1 c1]
    by simp
  with wf i show ?thesis
    by (cases r) (simp_all add: createProjectionLayer_def Let_def split_beta)
qed

lemma wf_createCubeLayer:
  assumes wf: "wellFormed w"
  shows "wellFormed (snd (createCubeLayer ini w))"
proof (cases "new_XRCubeLayer ini")
  case (Inl err)
  with wf show ?thesis by (simp add: createCubeLayer_def)
next
  case (Inr l)
  let ?l0 = "initialize (binding_session w) (Some (binding_context w)) l"
  obtain r1 l1 c1 where a1: "cube_allocateColorTexturesInternal ?l0 (binding_context w) = (r1, l1, c1)"
    by (metis prod_cases3)
  obtain r2 l2 c2 where a2: "cube_allocateDepthStencilTexturesInternal l1 c1 = (r2, l2, c2)"
    by (metis prod_cases3)
  have k0: "kind ?l0 = Cube" using Inr
    by (auto simp: new_XRCubeLayer_def new_layer_def initialize_def Let_def
          split: if_splits XRLayerLayout.splits)
  from a1 have k1: "kind l1 = kind ?l0" and v1: "version c1 = version (binding_context w)"
    by (auto simp: cube_allocateColorTexturesInternal_def setColorTextures_def
          split: if_splits prod.splits dest!: createCubeTexture_ctx)
  from a2 have k2: "kind l2 = kind l1" and v2: "version c2 = version c1"
    by (auto simp: cube_allocateDepthStencilTexturesInternal_def setDepthStencilTextures_def
          Let_def split: if_splits prod.splits option.splits dest!: createCubeTexture_ctx)
  have w1: "wellFormed (w\<lparr>binding_context := c1\<rparr>)" using wf v1 by (rule wf_context)
  have w2: "wellFormed (w\<lparr>binding_context := c2\<rparr>)" using wf v1 v2 by (simp add: wf_context)
  have "wellFormed (snd (addLayer l2 (w\<lparr>binding_context := c2\<rparr>)))"
    using wf_addLayer [OF w2, of l2] layerInitState_not_quadLike [of l2 c2] k0 k1 k2 by simp
  with wf w1 w2 Inr a1 a2 show ?thesis
    by (cases r1; cases r2) (simp_all add: createCubeLayer_def split_beta)
qed

lemma runTask_None: "runTask t ls lid = None \<longleftrightarrow> ls lid = None"
  by (cases t) (auto simp: runTask_def split: option.splits)

lemma runTask_Some:
  "ls lid = Some l \<Longrightarrow>
     runTask t ls lid = Some l \<or> runTask t ls lid = Some (l\<lparr>needsRedraw := Some False\<rparr>)"
  by (cases t) (auto simp: runTask_def split: option.splits)

lemma runTasks_None: "runTasks ts ls lid = None \<longleftrightarrow> ls lid = None"
  by (induction ts arbitrary: ls) (simp_all add: runTask_None)

lemma runTasks_Some:
  "ls lid = Some l \<Longrightarrow>
     runTasks ts ls lid = Some l \<or> runTasks ts ls lid = Some (l\<lparr>needsRedraw := Some False\<rparr>)"
proof (induction ts arbitrary: ls l)
  case Nil
  then show ?case by simp
next
  case (Cons t ts)
  from runTask_Some [of ls lid l t] Cons.prems
  have "runTask t ls lid = Some l
        \<or> runTask t ls lid = Some (l\<lparr>needsRedraw := Some False\<rparr>)" by simp
  then show ?case
  proof
    assume "runTask t ls lid = Some l"
    from Cons.IH [of "runTask t ls" l, OF this] show ?thesis by simp
  next
    assume "runTask t ls lid = Some (l\<lparr>needsRedraw := Some False\<rparr>)"
    from Cons.IH [of "runTask t ls" "l\<lparr>needsRedraw := Some False\<rparr>", OF this]
    show ?thesis by simp
  qed
qed

lemma wf_runTaskQueue:
  assumes wf: "wellFormed w"
  shows "wellFormed (runTaskQueue w)"
proof (rule wellFormedI)
  let ?w = "runTaskQueue w"
  let ?q = "taskQueue (binding_session w)"
  show "cacheInv ?w"
  proof (rule cacheInv_keep [where w = w])
    show "cacheInv w" using wf by (rule wf_cacheInv)
    fix lid0 l0 assume a: "layers w lid0 = Some l0" "initialised l0"
    from runTasks_Some [of "layers w" lid0 l0 ?q] a
    show "\<exists>l'. layers ?w lid0 = Some l' \<and> initialised l'"
      by (auto simp: runTaskQueue_def)
  qed (simp_all add: runTaskQueue_def)
  fix lid0 l0 assume a: "layers ?w lid0 = Some l0"
  then obtain l where l: "layers w lid0 = Some l"
    using runTasks_None [of ?q "layers w" lid0]
    by (cases "layers w lid0") (auto simp: runTaskQueue_def)
  from runTasks_Some [of "layers w" lid0 l ?q] l a
  obtain b where b: "l0 = l\<lparr>needsRedraw := b\<rparr>"
    by (auto simp: runTaskQueue_def intro: that [of "needsRedraw l"])
  show "lid0 < layersCreated ?w" using wf_layers [OF wf l] by (simp add: runTaskQueue_def)
  show "layerInitState l0 (binding_context ?w)"
    using wf_stereoInit [OF wf l] b by (simp add: runTaskQueue_def)
next
  fix r si assume "subimages (runTaskQueue w) r = Some si"
  then show "r < subimagesCreated (runTaskQueue w)"
    using wf_subimages [OF wf] by (simp add: runTaskQueue_def)
next
  assume "noViews (internalViews (binding_session (runTaskQueue w)))"
  then show "viewCache (runTaskQueue w) = Map.empty"
    using wf_viewCache [OF wf] by (simp add: runTaskQueue_def)
qed

lemma wf_first_pose:
  assumes wf: "wellFormed w" and n: "noViews (internalViews (binding_session w))"
  shows "wellFormed (w\<lparr>binding_session := (binding_session w)\<lparr>internalViews := Some vs\<rparr>\<rparr>)"
  by (rule wf_same_layers [OF wf]) (use wf_subimages [OF wf] wf_viewCache [OF wf n] in auto)

lemma wf_needs_redraw:
  assumes wf: "wellFormed w" and l: "layers w lid = Some l"
  shows "wellFormed (w\<lparr>layers := (layers w)(lid \<mapsto> l\<lparr>needsRedraw := Some b\<rparr>)\<rparr>)"
  using wf_layer_update [OF wf l, of "binding_context w" "l\<lparr>needsRedraw := Some b\<rparr>"]
  by simp

lemma wf_destroy:
  assumes wf: "wellFormed w" and l: "layers w lid = Some l"
  shows "wellFormed (w\<lparr>layers := (layers w)(lid \<mapsto> destroy l)\<rparr>)"
proof -
  have "wellFormed (w\<lparr>layers := (layers w)(lid \<mapsto> destroy l),
                     binding_context := binding_context w\<rparr>)"
  proof (rule wf_layer_update [OF wf l])
    show "layerInitState (destroy l) (binding_context w)"
      if "layerInitState l (binding_context w)"
      using that by (auto simp: layerInitState_def destroy_def quadLike_def isMediaLayer_def
                       isEmptyList_def)
    show "initialised (destroy l)" if "initialised l"
      using that by (simp add: initialised_def destroy_def quadLike_def)
  qed simp
  then show ?thesis by simp
qed

lemma wf_destroyLayer: "wellFormed w \<Longrightarrow> wellFormed (destroyLayer lid w)"
  by (cases "layers w lid") (simp_all add: destroyLayer_def wf_destroy)

lemma wf_new_binding: "wellFormed (new_XRWebGLBindingPolyfill s c)"
  by (rule wellFormedI)
     (simp_all add: new_XRWebGLBindingPolyfill_def cacheInv_def tryGetCachedSubImage_def)

theorem reachable_wellFormed: "reachable w \<Longrightarrow> wellFormed w"
proof (induction rule: reachable.induct)
  case (new_binding s c)
  show ?case by (rule wf_new_binding)
next
  case (first_pose w vs)
  then show ?case by (simp add: wf_first_pose)
next
  case (needs_redraw w lid l b)
  then show ?case by (simp add: wf_needs_redraw)
next
  case (destroy_layer w lid)
  then show ?case by (simp add: wf_destroyLayer)
next
  case (color_textures w lid l r l' c')
  from get_colorTextures_evolves [OF color_textures(3)] color_textures(2,4)
  show ?case by (auto intro: wf_putLayer)
next
  case (color_textures_meta w lid l rm l' c')
  from get_colorTexturesMeta_evolves [OF color_textures_meta(3)] color_textures_meta(2,4)
  show ?case by (auto intro: wf_putLayer)
next
  case (depth_stencil_textures w lid l r l' c')
  from get_depthStencilTextures_evolves [OF depth_stencil_textures(3)]
    depth_stencil_textures(2,4)
  show ?case by (auto intro: wf_putLayer)
qed (simp_all add: wf_createProjectionLayer wf_createQuadLayer wf_createCylinderLayer
      wf_createEquirectLayer wf_createCubeLayer wf_media_createQuadLayer
      wf_media_createCylinderLayer wf_media_createEquirectLayer wf_getSubImage
      wf_getViewSubImage wf_runTaskQueue)




lemmas world_eval_defs =
  stereoQuadWorld_def stereoInit512_def createQuadLayer_def new_XRWebGLBindingPolyfill_def
  stereoSession_def webgl2Context_def init512_def new_layer_def initialize_def addLayer_def
  withDefault_def frame7_def

lemmas getter_eval_defs =
  get_colorTextures_def get_colorTexturesMeta_def get_depthStencilTextures_def
  allocateColorTexturesInternal_def allocateDepthStencilTexturesInternal_def
  initializeIfNeeded_def deferredInitialize_def determineLayoutAttribute_def
  createNewColorTexture_def createNewDepthStencilTexture_def createGenericPolyfillTexture_def
  createTexture_def setColorTextures_def setDepthStencilTextures_def
  isMediaLayer_def isEmptyList_def noViews_def getTextureType_def

lemmas subImage_eval_defs =
  getSubImage_def validateStateofSubImageCreation_def resolveSubImage_def
  subImageDepthStencilTexture_def selectIndex_def js_index_def newSubImage_def
  new_XRWebGLSubImagePolyfill_def putLayer_def queueTask_def cacheSubImage_def
  tryGetCachedSubImage_def initializeViewport_def

lemma getSubImage_keeps:
  assumes wf: "wellFormed w" and l: "layers w k = Some l" and st: "settled l"
  shows "(\<exists>l'. layers (snd (getSubImage lid f e w)) k = Some l' \<and> settled l'
             \<and> expected l' e0 = expected l e0)
         \<and> (subimages w r0 = Some si0 \<longrightarrow>
              subimages (snd (getSubImage lid f e w)) r0 = Some si0)"
proof (cases "layers w lid")
  case None
  then show ?thesis using l st by (simp add: getSubImage_def)
next
  case (Some la)
  obtain res w' where g: "getSubImage lid f e w = (res, w')" by (metis surj_pair)
  have fresh: "subimages w r0 = Some si0 \<Longrightarrow> r0 \<noteq> subimagesCreated w"
    using wf_subimages [OF wf, of r0 si0] by auto
  from Some g have "(\<exists>l'. layers w' k = Some l' \<and> settled l' \<and> expected l' e0 = expected l e0)
         \<and> (subimages w r0 = Some si0 \<longrightarrow> subimages w' r0 = Some si0)"
  proof (cases rule: getSubImage_cases)
    case unchanged
    then show ?thesis using l st by simp
  next
    case (failed l' c' err)
    have s: "subimages w r0 = Some si0 \<longrightarrow> subimages w' r0 = Some si0"
      using failed(3) fresh by (auto simp: putLayer_def newSubImage_def)
    show ?thesis
    proof (cases "k = lid")
      case True
      with l Some have "la = l" by simp
      with failed(2) have ev: "evolves l (binding_context w) l' c'" by simp
      have "layers w' k = Some l'" using failed(3) True by (simp add: putLayer_def newSubImage_def)
      with evolves_settled [OF ev st] evolves_expected [OF ev st] s show ?thesis by simp
    next
      case False
      then have "layers w' k = layers w k" using failed(3)
        by (simp add: putLayer_def newSubImage_def)
      with l st s show ?thesis by simp
    qed
  next
    case (computed l1 c1 l2 c2 si)
    have s: "subimages w r0 = Some si0 \<longrightarrow> subimages w' r0 = Some si0"
      using computed(8) fresh by auto
    show ?thesis
    proof (cases "k = lid")
      case True
      with l Some have la: "la = l" by simp
      have ev1: "evolves l (binding_context w) l1 c1"
        using computed(5) validate_evolves la by blast
      have ev2: "evolves l1 c1 l2 c2" using computed(6) by (rule resolveSubImage_evolves)
      have st1: "settled l1" using ev1 st by (rule evolves_settled)
      have st2: "settled l2" using ev2 st1 by (rule evolves_settled)
      have "expected l2 e0 = expected l e0"
        using evolves_expected [OF ev1 st] evolves_expected [OF ev2 st1] by simp
      moreover have "layers w' k = Some l2" using computed(8) True by simp
      ultimately show ?thesis using st2 s by simp
    next
      case False
      then have "layers w' k = layers w k" using computed(8) by simp
      with l st s show ?thesis by simp
    qed
  qed
  with g show ?thesis by simp
qed

lemma getSubImages_keeps:
  "wellFormed w \<Longrightarrow> layers w k = Some l \<Longrightarrow> settled l \<Longrightarrow> subimages w r0 = Some si0 \<Longrightarrow>
   wellFormed (getSubImages calls w)
   \<and> (\<exists>l'. layers (getSubImages calls w) k = Some l' \<and> settled l'
          \<and> expected l' e0 = expected l e0)
   \<and> subimages (getSubImages calls w) r0 = Some si0"
proof (induction calls arbitrary: w l)
  case Nil
  then show ?case by simp
next
  case (Cons c calls)
  obtain lid f e where c: "c = (lid, f, e)" by (cases c) auto
  let ?w = "snd (getSubImage lid f e w)"
  have wf: "wellFormed ?w" using Cons.prems(1) by (rule wf_getSubImage)
  from getSubImage_keeps [OF Cons.prems(1-3), of lid f e e0 r0 si0] Cons.prems(4)
  obtain l' where l': "layers ?w k = Some l'" "settled l'" "expected l' e0 = expected l e0"
    and s: "subimages ?w r0 = Some si0" by auto
  from Cons.IH [OF wf l'(1,2) s] l'(3) c show ?case by simp
qed

lemma cachedIsCurrentI_none:
  "tryGetCachedSubImage w (context_id (binding_context w)) k e0 = None \<Longrightarrow>
   cachedIsCurrent w k e0"
  by (simp add: cachedIsCurrent_def)

lemma cachedIsCurrentI_some:
  "tryGetCachedSubImage w (context_id (binding_context w)) k e0 = Some r \<Longrightarrow>
   layers w k = Some l \<Longrightarrow> subimages w r = Some si \<Longrightarrow> settled l \<Longrightarrow>
   expected l e0 = Some (colorTexture si, viewport si) \<Longrightarrow> cachedIsCurrent w k e0"
  by (simp add: cachedIsCurrent_def)

lemma cachedIsCurrentD:
  "cachedIsCurrent w k e0 \<Longrightarrow>
   tryGetCachedSubImage w (context_id (binding_context w)) k e0 = Some r \<Longrightarrow>
   \<exists>l si. layers w k = Some l \<and> subimages w r = Some si \<and> settled l
      \<and> expected l e0 = Some (colorTexture si, viewport si)"
  by (auto simp: cachedIsCurrent_def split: option.splits)

lemma getSubImage_current:
  assumes wf: "wellFormed w" and cur: "cachedIsCurrent w k e0"
  shows "cachedIsCurrent (snd (getSubImage lid f e w)) k e0"
proof (cases "layers w lid")
  case None
  then show ?thesis using cur by (simp add: getSubImage_def)
next
  case (Some la)
  obtain res w' where g: "getSubImage lid f e w = (res, w')" by (metis surj_pair)
  let ?cid = "context_id (binding_context w)"
  have keep: "cachedIsCurrent w' k e0"
    if same: "tryGetCachedSubImage w' (context_id (binding_context w')) k e0
                = tryGetCachedSubImage w ?cid k e0"
  proof (cases "tryGetCachedSubImage w ?cid k e0")
    case None
    with same show ?thesis by (simp add: cachedIsCurrentI_none)
  next
    case (Some r)
    from cachedIsCurrentD [OF cur Some] obtain lk si where
      lk: "layers w k = Some lk" and si: "subimages w r = Some si" and st: "settled lk"
      and ex: "expected lk e0 = Some (colorTexture si, viewport si)" by blast
    from getSubImage_keeps [OF wf lk st, of lid f e e0 r si] g si obtain lk' where
      "layers w' k = Some lk'" "settled lk'" "expected lk' e0 = expected lk e0"
      "subimages w' r = Some si" by auto
    with same Some ex show ?thesis by (auto intro: cachedIsCurrentI_some)
  qed
  from Some g have "cachedIsCurrent w' k e0"
  proof (cases rule: getSubImage_cases)
    case unchanged
    then show ?thesis using cur by simp
  next
    case (failed l' c' err)
    have "context_id c' = ?cid" using failed(2) by (simp add: evolves_def)
    with failed(3) show ?thesis
      by (intro keep) (simp add: tryGetCachedSubImage_def putLayer_def newSubImage_def)
  next
    case (computed l1 c1 l2 c2 si)
    have st1: "settled l1" using validate_True_settled [OF computed(5,3)] by simp
    have ev12: "evolves l1 c1 l2 c2" using computed(6) by (rule resolveSubImage_evolves)
    have st2: "settled l2" using ev12 st1 by (rule evolves_settled)
    have ex: "expected l2 e = Some (colorTexture si, viewport si)"
      using resolveSubImage_expected [OF st1 computed(6)] evolves_expected [OF ev12 st1]
      by simp
    show ?thesis
    proof (cases "k = lid \<and> e0 = e")
      case True
      with computed(8) st2 ex show ?thesis
        by (intro cachedIsCurrentI_some [where r = "subimagesCreated w" and l = l2
                    and si = si])
           (simp_all add: tryGetCachedSubImage_def)
    next
      case False
      with computed(8) show ?thesis
        by (intro cachedIsCurrentI_none) (auto simp: tryGetCachedSubImage_def)
    qed
  qed
  with g show ?thesis by simp
qed

lemma getSubImages_current:
  "wellFormed w \<Longrightarrow> cachedIsCurrent w k e0 \<Longrightarrow>
   wellFormed (getSubImages calls w) \<and> cachedIsCurrent (getSubImages calls w) k e0"
proof (induction calls arbitrary: w)
  case Nil
  then show ?case by simp
next
  case (Cons c calls)
  obtain lid f e where c: "c = (lid, f, e)" by (cases c) auto
  have "wellFormed (snd (getSubImage lid f e w))" using Cons.prems(1) by (rule wf_getSubImage)
  moreover have "cachedIsCurrent (snd (getSubImage lid f e w)) k e0"
    using Cons.prems by (rule getSubImage_current)
  ultimately show ?case using Cons.IH c by simp
qed

lemma getSubImage_after:
  assumes g: "getSubImage lid f e w = (Inr r, w')"
  shows "\<exists>l. layers w' lid = Some l \<and> \<not> (isStatic l \<and> needsRedraw l = Some False)
           \<and> tryGetCachedSubImage w' (context_id (binding_context w')) lid e = Some r"
proof -
  from g obtain l where l: "layers w lid = Some l"
    by (cases "layers w lid") (auto simp: getSubImage_def)
  from l g show ?thesis
  proof (cases rule: getSubImage_cases)
    case unchanged
    with l show ?thesis by auto
  next
    case (failed l' c' err)
    then show ?thesis by simp
  next
    case (computed l1 c1 l2 c2 si)
    have v: "settled l1" "\<not> (isStatic l1 \<and> needsRedraw l1 = Some False)"
      using validate_True_settled [OF computed(5) computed(3)] by simp_all
    have ev2: "evolves l1 c1 l2 c2" using computed(6) by (rule resolveSubImage_evolves)
    have np: "kind l1 \<noteq> Projection" using v(1) by (simp add: settled_def)
    have gate: "\<not> (isStatic l2 \<and> needsRedraw l2 = Some False)"
      using ev2 v(2) np by (auto simp: evolves_def)
    have hit: "tryGetCachedSubImage w' (context_id (binding_context w')) lid e = Some r"
      using computed(7,8) by (simp add: tryGetCachedSubImage_def)
    from computed(8) gate hit show ?thesis by simp
  qed
qed

section \<open>When getSubImage succeeds\<close>

lemma depthAllocatable_ctx [simp]:
  "depthAllocatable (c\<lparr>texturesCreated := n\<rparr>) ini = depthAllocatable c ini"
  by (simp add: depthAllocatable_def getSupportedDepthFormats_def split: option.splits)

lemma createNewDepthStencilTexture_ok:
  "version c = WebGL2 \<or> tt = texture \<Longrightarrow>
   createNewDepthStencilTexture c w h tt fmt n =
     Inr (\<lparr> pt_texture = texturesCreated c, textureFormat = fmt, pt_width = w, pt_height = h,
             pt_layers = n, pt_type = tt \<rparr>, c\<lparr>texturesCreated := Suc (texturesCreated c)\<rparr>)"
  by (auto simp: createNewDepthStencilTexture_def createGenericPolyfillTexture_def
        createTexture_def)

















section \<open>getViewSubImage before the session has views\<close>

text \<open>
  C10, as stated, at a new binding of a session without views: the sub-image returned
  has no texture width and no texture height at all (the fields are never assigned),
  so they are not the number 0; only the viewport is zero-initialised.
\<close>

theorem view_sub_image_without_views_counterexample:
  "fst (getViewSubImage 0 leftView
          (snd (createProjectionLayer init512
                  (new_XRWebGLBindingPolyfill noViewsSession webgl2Context)))) = Inr 0
   \<and> map_option textureWidth
        (subimages (snd (getViewSubImage 0 leftView
           (snd (createProjectionLayer init512
                   (new_XRWebGLBindingPolyfill noViewsSession webgl2Context))))) 0)
       = Some None
   \<and> map_option textureHeight
        (subimages (snd (getViewSubImage 0 leftView
           (snd (createProjectionLayer init512
                   (new_XRWebGLBindingPolyfill noViewsSession webgl2Context))))) 0)
       = Some None"
  by (simp add: getViewSubImage_def createProjectionLayer_def new_XRWebGLBindingPolyfill_def
        noViewsSession_def stereoSession_def webgl2Context_def init512_def Let_def
        initializeIfNeeded_def deferredInitialize_def determineLayoutAttribute_def
        new_XRProjectionLayer_def new_layer_def initialize_def addLayer_def
        determineMaximumScaleFactor_def withDefault_def
        tryGetCachedViewSubImage_def newSubImage_def new_XRWebGLSubImagePolyfill_def)

text \<open>
  C10, amended. In every world that a binding reaches, for any layer and any view, a
  call of \<^verbatim>\<open>getViewSubImage\<close> while the session's view list is missing or empty does
  not throw: it returns a sub-image object that did not exist before, as its constructor
  leaves it (no color texture, no depth texture, no image index, texture width and
  height not assigned, viewport x, y, width and height 0), and it leaves the layers (so
  every \<^verbatim>\<open>needsRedraw\<close>), the session, the context and both caches as they were.
\<close>

theorem view_sub_image_without_views:
  assumes "reachable w" and "noViews (internalViews (binding_session w))"
  shows "\<exists>w'. getViewSubImage lid view w = (Inr (subimagesCreated w), w')
           \<and> subimages w (subimagesCreated w) = None
           \<and> subimages w' (subimagesCreated w)
               = Some \<lparr> colorTexture = None, depthStencilTexture = None, imageIndex = None,
                        textureWidth = None, textureHeight = None,
                        viewport = \<lparr> vp_x = 0, vp_y = 0, vp_width = 0, vp_height = 0 \<rparr> \<rparr>
           \<and> layers w' = layers w \<and> cache w' = cache w \<and> viewCache w' = viewCache w
           \<and> binding_session w' = binding_session w
           \<and> binding_context w' = binding_context w"
proof -
  have wf: "wellFormed w" using assms(1) by (rule reachable_wellFormed)
  have vc: "viewCache w = Map.empty" using wf assms(2) by (rule wf_viewCache)
  have fresh: "subimages w (subimagesCreated w) = None"
    using wf_subimages [OF wf, of "subimagesCreated w"]
    by (cases "subimages w (subimagesCreated w)") auto
  from vc have "tryGetCachedViewSubImage w (context_id (binding_context w)) lid view = None"
    by (simp add: tryGetCachedViewSubImage_def)
  with assms(2) fresh show ?thesis
    by (auto simp: getViewSubImage_def noViews_def newSubImage_def
          new_XRWebGLSubImagePolyfill_def split: option.splits)
qed

theorem view_sub_image_without_views_witness:
  "reachable (snd (createProjectionLayer init512
                     (new_XRWebGLBindingPolyfill noViewsSession webgl2Context)))
   \<and> noViews (internalViews (binding_session
         (snd (createProjectionLayer init512
                 (new_XRWebGLBindingPolyfill noViewsSession webgl2Context)))))
   \<and> fst (getViewSubImage 0 leftView
            (snd (createProjectionLayer init512
                    (new_XRWebGLBindingPolyfill noViewsSession webgl2Context)))) = Inr 0"
proof -
  let ?w = "snd (createProjectionLayer init512
                     (new_XRWebGLBindingPolyfill noViewsSession webgl2Context))"
  have r: "reachable ?w" by (intro reachable.intros)
  have c: "binding_session ?w = noViewsSession \<and> subimagesCreated ?w = 0"
    by (simp add: createProjectionLayer_def new_XRWebGLBindingPolyfill_def
        noViewsSession_def stereoSession_def webgl2Context_def init512_def Let_def
        initializeIfNeeded_def deferredInitialize_def determineLayoutAttribute_def
        new_XRProjectionLayer_def new_layer_def initialize_def addLayer_def
        determineMaximumScaleFactor_def withDefault_def)
  then have n: "noViews (internalViews (binding_session ?w))"
    by (simp add: noViews_def noViewsSession_def)
  from view_sub_image_without_views [OF r n, of 0 leftView] c r n show ?thesis by auto
qed

section \<open>Layers created with layout stereo\<close>





section \<open>Repeated getSubImage calls\<close>

text \<open>
  C1, as stated, on a quad layer of layout mono in a session with two views, all calls
  in one frame: \<^verbatim>\<open>getSubImage\<close> for the left eye returns the sub-image object 0; a
  call for the right eye follows, which stores its result in place of the whole cache
  entry of the context; the second call for the left eye then builds and returns a new
  object, 2, and not the object 0 again.
\<close>

theorem sub_image_identity_counterexample:
  "fst (getSubImage 0 frame7 eye_left monoQuadWorld) = Inr 0
   \<and> fst (getSubImage 0 frame7 eye_right
            (snd (getSubImage 0 frame7 eye_left monoQuadWorld))) = Inr 1
   \<and> fst (getSubImage 0 frame7 eye_left
            (snd (getSubImage 0 frame7 eye_right
                    (snd (getSubImage 0 frame7 eye_left monoQuadWorld))))) = Inr 2"
  by (simp add: monoQuadWorld_def world_eval_defs getter_eval_defs subImage_eval_defs Let_def)

text \<open>
  The cache outlives the textures of a layer. On the same quad layer: the left eye is
  requested (sub-image 0, texture 0) and the layer is destroyed. The next call for the
  left eye is answered from the cache with the sub-image 0 and its texture 0, which the
  layer has given up; a call for the right eye then allocates the texture 1, and the
  call for the left eye after it builds the sub-image 2 with the texture 1.
\<close>

lemma destroyed_layer_stale_sub_image:
  "\<not> cachedIsCurrent
        (destroyLayer 0 (snd (getSubImage 0 frame7 eye_left monoQuadWorld))) 0 eye_left
   \<and> fst (getSubImage 0 frame7 eye_left
            (destroyLayer 0 (snd (getSubImage 0 frame7 eye_left monoQuadWorld)))) = Inr 0
   \<and> map_option colorTexture
        (subimages (destroyLayer 0 (snd (getSubImage 0 frame7 eye_left monoQuadWorld))) 0)
       = Some (Some 0)
   \<and> fst (getSubImage 0 frame7 eye_left
            (snd (getSubImage 0 frame7 eye_right
               (destroyLayer 0 (snd (getSubImage 0 frame7 eye_left monoQuadWorld))))))
       = Inr 2
   \<and> map_option colorTexture
        (subimages
           (snd (getSubImage 0 frame7 eye_left
              (snd (getSubImage 0 frame7 eye_right
                 (destroyLayer 0 (snd (getSubImage 0 frame7 eye_left monoQuadWorld)))))))
           2)
       = Some (Some 1)"
  by (simp add: monoQuadWorld_def world_eval_defs getter_eval_defs subImage_eval_defs
        destroyLayer_def destroy_def cachedIsCurrent_def settled_def Let_def)

text \<open>
  C1, amended. (a) When \<^verbatim>\<open>getSubImage\<close> returns a sub-image for a layer and an eye,
  the same call repeated at once returns the identical object and changes nothing.
  (b) In every world that a binding reaches: if the sub-image that the cache holds for
  the layer and the eye, if it holds one, has the color texture and the viewport that
  the layer gives now (the layer has not been destroyed since that sub-image was
  built), and \<^verbatim>\<open>getSubImage\<close> returns a sub-image for them, any list of further
  \<^verbatim>\<open>getSubImage\<close> calls follows (any layers, any eyes, whatever they return), and the
  same call then returns a sub-image again, then the two objects have the same color
  texture and the same viewport (x, y, width and height), and the first object is still
  as it was returned.
\<close>

theorem sub_image_idempotence:
  "(getSubImage lid f e w = (Inr r1, w1) \<longrightarrow> getSubImage lid f e w1 = (Inr r1, w1))
   \<and> (reachable w \<and> cachedIsCurrent w lid e
        \<and> getSubImage lid f e w = (Inr r1, w1)
        \<and> getSubImage lid f e (getSubImages calls w1) = (Inr r2, w2) \<longrightarrow>
      (\<exists>si1 si2. subimages w1 r1 = Some si1 \<and> subimages w2 r1 = Some si1
          \<and> subimages w2 r2 = Some si2
          \<and> colorTexture si2 = colorTexture si1 \<and> viewport si2 = viewport si1))"
proof -
  have A: "getSubImage lid f e w1 = (Inr r1, w1)" if g: "getSubImage lid f e w = (Inr r1, w1)"
  proof -
    from getSubImage_after [OF g] obtain l where
      "layers w1 lid = Some l" "\<not> (isStatic l \<and> needsRedraw l = Some False)"
      "tryGetCachedSubImage w1 (context_id (binding_context w1)) lid e = Some r1" by auto
    then show ?thesis by (auto simp: getSubImage_def)
  qed
  have B: "\<exists>si1 si2. subimages w1 r1 = Some si1 \<and> subimages w2 r1 = Some si1
              \<and> subimages w2 r2 = Some si2
              \<and> colorTexture si2 = colorTexture si1 \<and> viewport si2 = viewport si1"
    if a: "reachable w \<and> cachedIsCurrent w lid e
            \<and> getSubImage lid f e w = (Inr r1, w1)
            \<and> getSubImage lid f e (getSubImages calls w1) = (Inr r2, w2)"
  proof -
    from a have wf: "wellFormed w" by (simp add: reachable_wellFormed)
    from a have cur: "cachedIsCurrent w lid e" and g1: "getSubImage lid f e w = (Inr r1, w1)"
      and g2: "getSubImage lid f e (getSubImages calls w1) = (Inr r2, w2)" by simp_all
    have wf1: "wellFormed w1" using wf_getSubImage [OF wf, of lid f e] g1 by simp
    have cur1: "cachedIsCurrent w1 lid e"
      using getSubImage_current [OF wf cur, of lid f e] g1 by simp
    from getSubImage_after [OF g1] have hit1:
      "tryGetCachedSubImage w1 (context_id (binding_context w1)) lid e = Some r1" by auto
    from cachedIsCurrentD [OF cur1 hit1] obtain l1 si1 where
      l1: "layers w1 lid = Some l1" "settled l1" and s1: "subimages w1 r1 = Some si1"
      and e1: "expected l1 e = Some (colorTexture si1, viewport si1)" by auto
    let ?w = "getSubImages calls w1"
    from getSubImages_keeps [OF wf1 l1 s1, of calls e] obtain l' where
      wf': "wellFormed ?w" and l': "layers ?w lid = Some l'" "settled l'"
      and e': "expected l' e = expected l1 e" and s': "subimages ?w r1 = Some si1" by auto
    have cur': "cachedIsCurrent ?w lid e"
      using getSubImages_current [OF wf1 cur1, of calls] by simp
    from getSubImage_keeps [OF wf' l', of lid f e e r1 si1] s' g2 obtain l2 where
      l2: "layers w2 lid = Some l2" "expected l2 e = expected l' e"
      and s2: "subimages w2 r1 = Some si1" by auto
    have cur2: "cachedIsCurrent w2 lid e"
      using getSubImage_current [OF wf' cur', of lid f e] g2 by simp
    from getSubImage_after [OF g2] have hit2:
      "tryGetCachedSubImage w2 (context_id (binding_context w2)) lid e = Some r2" by auto
    from cachedIsCurrentD [OF cur2 hit2] l2(1) obtain si2 where
      "subimages w2 r2 = Some si2" "expected l2 e = Some (colorTexture si2, viewport si2)"
      by auto
    with l2(2) e' e1 s1 s2 show ?thesis by simp
  qed
  from A B show ?thesis by blast
qed

text \<open>
  The witness is the run of the counterexample: the third call returns another object
  than the first, with the same color texture and the same viewport.
\<close>

theorem sub_image_idempotence_witness:
  "reachable monoQuadWorld
   \<and> cachedIsCurrent monoQuadWorld 0 eye_left
   \<and> fst (getSubImage 0 frame7 eye_left monoQuadWorld) = Inr 0
   \<and> getSubImage 0 frame7 eye_left (snd (getSubImage 0 frame7 eye_left monoQuadWorld))
       = (Inr 0, snd (getSubImage 0 frame7 eye_left monoQuadWorld))
   \<and> fst (getSubImage 0 frame7 eye_left
            (getSubImages [(0, frame7, eye_right)]
               (snd (getSubImage 0 frame7 eye_left monoQuadWorld)))) = Inr 2
   \<and> map_option colorTexture
        (subimages (snd (getSubImage 0 frame7 eye_left
            (getSubImages [(0, frame7, eye_right)]
               (snd (getSubImage 0 frame7 eye_left monoQuadWorld))))) 2)
     = map_option colorTexture
        (subimages (snd (getSubImage 0 frame7 eye_left monoQuadWorld)) 0)
   \<and> map_option viewport
        (subimages (snd (getSubImage 0 frame7 eye_left
            (getSubImages [(0, frame7, eye_right)]
               (snd (getSubImage 0 frame7 eye_left monoQuadWorld))))) 2)
     = map_option viewport
        (subimages (snd (getSubImage 0 frame7 eye_left monoQuadWorld)) 0)"
proof -
  let ?w1 = "snd (getSubImage 0 frame7 eye_left monoQuadWorld)"
  let ?w2 = "snd (getSubImage 0 frame7 eye_left (getSubImages [(0, frame7, eye_right)] ?w1))"
  have r: "reachable monoQuadWorld" unfolding monoQuadWorld_def by (intro reachable.intros)
  have f1: "fst (getSubImage 0 frame7 eye_left monoQuadWorld) = Inr 0"
    by (simp add: monoQuadWorld_def world_eval_defs getter_eval_defs subImage_eval_defs Let_def)
  have f2: "fst (getSubImage 0 frame7 eye_left (getSubImages [(0, frame7, eye_right)] ?w1))
              = Inr 2"
    by (simp add: monoQuadWorld_def world_eval_defs getter_eval_defs subImage_eval_defs Let_def)
  have g1: "getSubImage 0 frame7 eye_left monoQuadWorld = (Inr 0, ?w1)"
    using f1 by (metis prod.collapse)
  have g2: "getSubImage 0 frame7 eye_left (getSubImages [(0, frame7, eye_right)] ?w1)
              = (Inr 2, ?w2)"
    using f2 by (metis prod.collapse)
  have cur: "cachedIsCurrent monoQuadWorld 0 eye_left"
    by (simp add: cachedIsCurrent_def monoQuadWorld_def world_eval_defs
          tryGetCachedSubImage_def)
  from sub_image_idempotence [where lid = 0 and f = frame7 and e = eye_left and w = monoQuadWorld
         and ?r1.0 = 0 and ?w1.0 = ?w1 and calls = "[(0, frame7, eye_right)]"
         and ?r2.0 = 2 and ?w2.0 = ?w2]
       r cur g1 g2
  have a: "getSubImage 0 frame7 eye_left ?w1 = (Inr 0, ?w1)"
    and b: "\<exists>si1 si2. subimages ?w1 0 = Some si1 \<and> subimages ?w2 0 = Some si1
              \<and> subimages ?w2 2 = Some si2
              \<and> colorTexture si2 = colorTexture si1 \<and> viewport si2 = viewport si1"
    by blast+
  from b obtain si1 si2 where c: "subimages ?w1 0 = Some si1" "subimages ?w2 2 = Some si2"
    "colorTexture si2 = colorTexture si1" "viewport si2 = viewport si1" by blast
  have "map_option colorTexture (subimages ?w2 2) = map_option colorTexture (subimages ?w1 0)"
    "map_option viewport (subimages ?w2 2) = map_option viewport (subimages ?w1 0)"
    using c by simp_all
  with r cur f1 a f2 show ?thesis by blast
qed

section \<open>Static layers\<close>



section \<open>Color textures per layout and texture kind\<close>

lemma first_allocation:
  assumes q: "quadLike l" and m: "\<not> isMediaLayer l"
    and i: "init_layout (init l) \<noteq> layout_default"
    and h: "\<not> hasRunDeferredInitialize l"
    and v: "\<not> noViews (internalViews s)"
    and sup: "version c = WebGL2 \<or> textureType (init l) = texture"
  shows "allocateColorTexturesInternal s (textureType (init l)) (init l) l c =
      (Inr (),
       l\<lparr>hasRunDeferredInitialize := True,
         layout := (if init_layout (init l) = stereo then stereo_left_right
                    else init_layout (init l)),
         needsRedraw := Some True,
         p_texturesMeta := Some
           [\<lparr> pt_texture = texturesCreated c, textureFormat = colorFormat (init l),
              pt_width = (if init_layout (init l) = stereo
                             \<or> init_layout (init l) = stereo_left_right
                          then viewPixelWidth (init l) * 2 else viewPixelWidth (init l)),
              pt_height = (if init_layout (init l) = stereo_top_bottom
                           then viewPixelHeight (init l) * 2 else viewPixelHeight (init l)),
              pt_layers = 1, pt_type = textureType (init l) \<rparr>],
         p_colorTextures := Some [texturesCreated c]\<rparr>,
       c\<lparr>texturesCreated := Suc (texturesCreated c)\<rparr>)"
proof -
  define R where "R = (if init_layout (init l) = stereo then stereo_left_right
                       else init_layout (init l))"
  have R: "R \<noteq> stereo" "R \<noteq> layout_default" using i by (auto simp: R_def)
  have d: "determineLayoutAttribute (internalViews s) (textureType (init l)) (version c)
             (init_layout (init l)) = Inr R"
    using sup i by (auto simp: determineLayoutAttribute_def R_def)
  have q': "quadLike (l\<lparr>hasRunDeferredInitialize := True\<rparr>)" using q by (simp add: quadLike_def)
  have ini: "initializeIfNeeded s l c =
      (Inr (), l\<lparr>hasRunDeferredInitialize := True, layout := R, needsRedraw := Some True\<rparr>, c)"
    using h d by (simp add: initializeIfNeeded_def deferredInitialize_quadLike [OF q'])
  consider "init_layout (init l) = layout_mono" | "init_layout (init l) = stereo"
    | "init_layout (init l) = stereo_left_right" | "init_layout (init l) = stereo_top_bottom"
    using i by (cases "init_layout (init l)") auto
  then show ?thesis
    using v
    by cases
       (simp_all add: allocateColorTexturesInternal_def ini createNewColorTexture_ok [OF sup]
          setColorTextures_def R_def)
qed

text \<open>
  C2, as stated, on a quad layer created with layout stereo, the single-texture kind and
  512 by 512 pixels per view, in a session with two views on a WebGL2 context: the
  allocation of its color textures resolves the layout to stereo-left-right and creates
  one texture of 1024 by 512, not two textures of 512 by 512.
\<close>

theorem color_texture_allocation_counterexample:
  "layers stereoQuadWorld 0
     = Some (initialize stereoSession (Some webgl2Context) (new_layer Quad stereoInit512))
   \<and> layout (initialize stereoSession (Some webgl2Context) (new_layer Quad stereoInit512))
       = stereo
   \<and> allocatesColor
        (allocateColorTexturesInternal stereoSession texture
           (init (initialize stereoSession (Some webgl2Context)
                    (new_layer Quad stereoInit512)))
           (initialize stereoSession (Some webgl2Context) (new_layer Quad stereoInit512))
           webgl2Context)
        webgl2Context [(1024, 512, 1, texture)]
   \<and> \<not> allocatesColor
        (allocateColorTexturesInternal stereoSession texture
           (init (initialize stereoSession (Some webgl2Context)
                    (new_layer Quad stereoInit512)))
           (initialize stereoSession (Some webgl2Context) (new_layer Quad stereoInit512))
           webgl2Context)
        webgl2Context [(512, 512, 1, texture), (512, 512, 1, texture)]
   \<and> layout (fst (snd
        (allocateColorTexturesInternal stereoSession texture
           (init (initialize stereoSession (Some webgl2Context)
                    (new_layer Quad stereoInit512)))
           (initialize stereoSession (Some webgl2Context) (new_layer Quad stereoInit512))
           webgl2Context))) = stereo_left_right"
  by (simp add: world_eval_defs getter_eval_defs allocatesColor_def textureShape_def)

text \<open>
  C2, amended. \<^verbatim>\<open>_allocateColorTexturesInternal\<close> is the allocation of the quad,
  cylinder and equirect layers; it runs the deferred initialisation first, which
  resolves the layout, and creates textures of the texture kind of the layer, in a
  session with views and on a context that supports that kind. (a) The first
  allocation of a layer created with layout mono creates exactly one texture of
  (viewPixelWidth, viewPixelHeight); created with stereo-left-right, or with stereo,
  which is resolved to stereo-left-right, exactly one texture of (viewPixelWidth * 2,
  viewPixelHeight); created with stereo-top-bottom, exactly one texture of
  (viewPixelWidth, viewPixelHeight * 2). (b) A later allocation, of a layer whose
  textures have been destroyed, creates the same for the resolved layouts mono,
  stereo-left-right and stereo-top-bottom. (c) In every world that a binding reaches,
  every allocation that succeeds for a layer created with layout stereo creates exactly
  one texture of (viewPixelWidth * 2, viewPixelHeight). (d) Two separate textures of
  (viewPixelWidth, viewPixelHeight) each are what the allocation of a cube layer of
  layout stereo creates; a cube layer of layout mono gets one.
\<close>

theorem color_texture_allocation:
  "(quadLike l \<and> \<not> isMediaLayer l \<and> \<not> hasRunDeferredInitialize l
      \<and> \<not> noViews (internalViews s)
      \<and> (version c = WebGL2 \<or> textureType (init l) = texture) \<longrightarrow>
      (init_layout (init l) = layout_mono \<longrightarrow>
         allocatesColor (allocateColorTexturesInternal s (textureType (init l)) (init l) l c) c
           [(viewPixelWidth (init l), viewPixelHeight (init l), 1, textureType (init l))])
      \<and> (init_layout (init l) = stereo \<or> init_layout (init l) = stereo_left_right \<longrightarrow>
         allocatesColor (allocateColorTexturesInternal s (textureType (init l)) (init l) l c) c
           [(viewPixelWidth (init l) * 2, viewPixelHeight (init l), 1, textureType (init l))]
         \<and> layout (fst (snd (allocateColorTexturesInternal s (textureType (init l)) (init l)
                               l c))) = stereo_left_right)
      \<and> (init_layout (init l) = stereo_top_bottom \<longrightarrow>
         allocatesColor (allocateColorTexturesInternal s (textureType (init l)) (init l) l c) c
           [(viewPixelWidth (init l), viewPixelHeight (init l) * 2, 1,
             textureType (init l))]))
   \<and> (hasRunDeferredInitialize l \<and> \<not> noViews (internalViews s)
        \<and> (version c = WebGL2 \<or> tt = texture) \<longrightarrow>
      (layout l = layout_mono \<longrightarrow>
         allocatesColor (allocateColorTexturesInternal s tt ini l c) c
           [(viewPixelWidth ini, viewPixelHeight ini, 1, tt)])
      \<and> (layout l = stereo_left_right \<longrightarrow>
         allocatesColor (allocateColorTexturesInternal s tt ini l c) c
           [(viewPixelWidth ini * 2, viewPixelHeight ini, 1, tt)])
      \<and> (layout l = stereo_top_bottom \<longrightarrow>
         allocatesColor (allocateColorTexturesInternal s tt ini l c) c
           [(viewPixelWidth ini, viewPixelHeight ini * 2, 1, tt)]))
   \<and> (reachable w \<and> layers w lid = Some l \<and> quadLike l \<and> \<not> isMediaLayer l
        \<and> init_layout (init l) = stereo
        \<and> allocateColorTexturesInternal (binding_session w) (textureType (init l)) (init l) l
             (binding_context w) = (Inr u, l', c')
        \<and> \<not> noViews (internalViews (binding_session w)) \<longrightarrow>
      allocatesColor (Inr u, l', c') (binding_context w)
        [(viewPixelWidth (init l) * 2, viewPixelHeight (init l), 1, textureType (init l))]
      \<and> layout l' = stereo_left_right)
   \<and> (layout l = stereo \<longrightarrow>
      allocatesColor (cube_allocateColorTexturesInternal l c) c
        [(viewPixelWidth (init l), viewPixelHeight (init l), 1, texture),
         (viewPixelWidth (init l), viewPixelHeight (init l), 1, texture)])
   \<and> (layout l = layout_mono \<longrightarrow>
      allocatesColor (cube_allocateColorTexturesInternal l c) c
        [(viewPixelWidth (init l), viewPixelHeight (init l), 1, texture)])"
proof -
  let ?A = "allocateColorTexturesInternal s (textureType (init l)) (init l) l c"
  have A: "(init_layout (init l) = layout_mono \<longrightarrow>
         allocatesColor ?A c
           [(viewPixelWidth (init l), viewPixelHeight (init l), 1, textureType (init l))])
      \<and> (init_layout (init l) = stereo \<or> init_layout (init l) = stereo_left_right \<longrightarrow>
         allocatesColor ?A c
           [(viewPixelWidth (init l) * 2, viewPixelHeight (init l), 1, textureType (init l))]
         \<and> layout (fst (snd ?A)) = stereo_left_right)
      \<and> (init_layout (init l) = stereo_top_bottom \<longrightarrow>
         allocatesColor ?A c
           [(viewPixelWidth (init l), viewPixelHeight (init l) * 2, 1,
             textureType (init l))])"
    if h: "quadLike l \<and> \<not> isMediaLayer l \<and> \<not> hasRunDeferredInitialize l
      \<and> \<not> noViews (internalViews s)
      \<and> (version c = WebGL2 \<or> textureType (init l) = texture)"
  proof (cases "init_layout (init l) = layout_default")
    case True
    then show ?thesis by simp
  next
    case False
    from h have "quadLike l" "\<not> isMediaLayer l" "\<not> hasRunDeferredInitialize l"
      "\<not> noViews (internalViews s)" "version c = WebGL2 \<or> textureType (init l) = texture"
      by simp_all
    from first_allocation [OF this(1,2) False this(3,4,5)]
    show ?thesis by (auto simp: allocatesColor_def textureShape_def)
  qed
  have B: "(layout l = layout_mono \<longrightarrow>
         allocatesColor (allocateColorTexturesInternal s tt ini l c) c
           [(viewPixelWidth ini, viewPixelHeight ini, 1, tt)])
      \<and> (layout l = stereo_left_right \<longrightarrow>
         allocatesColor (allocateColorTexturesInternal s tt ini l c) c
           [(viewPixelWidth ini * 2, viewPixelHeight ini, 1, tt)])
      \<and> (layout l = stereo_top_bottom \<longrightarrow>
         allocatesColor (allocateColorTexturesInternal s tt ini l c) c
           [(viewPixelWidth ini, viewPixelHeight ini * 2, 1, tt)])"
    if "hasRunDeferredInitialize l \<and> \<not> noViews (internalViews s)
        \<and> (version c = WebGL2 \<or> tt = texture)"
    using that
    by (auto simp: allocateColorTexturesInternal_def initializeIfNeeded_def
          createNewColorTexture_ok allocatesColor_def setColorTextures_def textureShape_def)
  have C: "allocatesColor (Inr u, l', c') (binding_context w)
        [(viewPixelWidth (init l) * 2, viewPixelHeight (init l), 1, textureType (init l))]
      \<and> layout l' = stereo_left_right"
    if h: "reachable w \<and> layers w lid = Some l \<and> quadLike l \<and> \<not> isMediaLayer l
        \<and> init_layout (init l) = stereo
        \<and> allocateColorTexturesInternal (binding_session w) (textureType (init l)) (init l) l
             (binding_context w) = (Inr u, l', c')
        \<and> \<not> noViews (internalViews (binding_session w))"
  proof -
    let ?s = "binding_session w" and ?c = "binding_context w"
    from h have wf: "wellFormed w" by (simp add: reachable_wellFormed)
    from h have l: "layers w lid = Some l" and q: "quadLike l" and m: "\<not> isMediaLayer l"
      and i: "init_layout (init l) = stereo" and v: "\<not> noViews (internalViews ?s)"
      and a: "allocateColorTexturesInternal ?s (textureType (init l)) (init l) l ?c
                = (Inr u, l', c')" by simp_all
    have inv: "layerInitState l ?c" using wf l by (rule wf_stereoInit)
    show ?thesis
    proof (cases "version ?c = WebGL2 \<or> textureType (init l) = texture")
      case sup: True
      show ?thesis
      proof (cases "hasRunDeferredInitialize l")
        case False
        have nd: "init_layout (init l) \<noteq> layout_default" using i by simp
        from first_allocation [OF q m nd False v sup] a i
        show ?thesis by (auto simp: allocatesColor_def textureShape_def)
      next
        case True
        with inv q m i sup have "layout l = stereo_left_right"
          by (auto simp: layerInitState_def)
        with True v sup a show ?thesis
          by (auto simp: allocateColorTexturesInternal_def initializeIfNeeded_def
                createNewColorTexture_ok allocatesColor_def setColorTextures_def
                textureShape_def)
      qed
    next
      case False
      then have w1: "version ?c \<noteq> WebGL2" and ta: "textureType (init l) = texture_array"
        by (auto intro: XRTextureType.exhaust)
      have q': "quadLike (l\<lparr>hasRunDeferredInitialize := True\<rparr>)"
        using q by (simp add: quadLike_def)
      show ?thesis
      proof (cases "hasRunDeferredInitialize l")
        case False
        with a v w1 ta show ?thesis
          by (simp add: allocateColorTexturesInternal_def initializeIfNeeded_def
                deferredInitialize_quadLike [OF q'] determineLayoutAttribute_def)
      next
        case True
        with inv q m i have lay: "layout l = stereo_left_right \<or> layout l = stereo"
          by (auto simp: layerInitState_def)
        with True a v w1 ta show ?thesis
          by (auto simp: allocateColorTexturesInternal_def initializeIfNeeded_def
                createNewColor_array_WebGL1)
      qed
    qed
  qed
  have D: "layout l = stereo \<longrightarrow>
      allocatesColor (cube_allocateColorTexturesInternal l c) c
        [(viewPixelWidth (init l), viewPixelHeight (init l), 1, texture),
         (viewPixelWidth (init l), viewPixelHeight (init l), 1, texture)]"
    by (simp add: cube_allocateColorTexturesInternal_def createCubeTexture_def
          createTexture_def setColorTextures_def allocatesColor_def textureShape_def)
  have E: "layout l = layout_mono \<longrightarrow>
      allocatesColor (cube_allocateColorTexturesInternal l c) c
        [(viewPixelWidth (init l), viewPixelHeight (init l), 1, texture)]"
    by (simp add: cube_allocateColorTexturesInternal_def createCubeTexture_def
          createTexture_def setColorTextures_def allocatesColor_def textureShape_def)
  from A B C D E show ?thesis by blast
qed

text \<open>
  The witness is the example of the specification, on quad layers as the binding
  creates them, with 512 by 512 pixels per view: created mono, one texture of 512 by
  512; created stereo-left-right, one of 1024 by 512; created stereo, one of 1024 by 512
  as well; after \<^verbatim>\<open>destroy()\<close> the mono layer gets one texture of 512 by 512 again. A
  cube layer constructed with layout stereo gets two textures of 512 by 512.
\<close>

theorem color_texture_allocation_witness:
  "allocatesColor
     (allocateColorTexturesInternal stereoSession texture
        (init (initialize stereoSession (Some webgl2Context) (new_layer Quad init512)))
        (initialize stereoSession (Some webgl2Context) (new_layer Quad init512))
        webgl2Context)
     webgl2Context [(512, 512, 1, texture)]
   \<and> allocatesColor
     (allocateColorTexturesInternal stereoSession texture
        (init (initialize stereoSession (Some webgl2Context)
                 (new_layer Quad (init512\<lparr>init_layout := stereo_left_right\<rparr>))))
        (initialize stereoSession (Some webgl2Context)
           (new_layer Quad (init512\<lparr>init_layout := stereo_left_right\<rparr>)))
        webgl2Context)
     webgl2Context [(1024, 512, 1, texture)]
   \<and> allocatesColor
     (allocateColorTexturesInternal stereoSession texture
        (init (initialize stereoSession (Some webgl2Context) (new_layer Quad stereoInit512)))
        (initialize stereoSession (Some webgl2Context) (new_layer Quad stereoInit512))
        webgl2Context)
     webgl2Context [(1024, 512, 1, texture)]
   \<and> hasRunDeferredInitialize
        (destroy (fst (snd (get_colorTextures stereoSession
           (initialize stereoSession (Some webgl2Context) (new_layer Quad init512))
           webgl2Context))))
   \<and> allocatesColor
     (allocateColorTexturesInternal stereoSession texture
        (init (initialize stereoSession (Some webgl2Context) (new_layer Quad init512)))
        (destroy (fst (snd (get_colorTextures stereoSession
           (initialize stereoSession (Some webgl2Context) (new_layer Quad init512))
           webgl2Context))))
        (snd (snd (get_colorTextures stereoSession
           (initialize stereoSession (Some webgl2Context) (new_layer Quad init512))
           webgl2Context))))
     (snd (snd (get_colorTextures stereoSession
           (initialize stereoSession (Some webgl2Context) (new_layer Quad init512))
           webgl2Context)))
     [(512, 512, 1, texture)]
   \<and> reachable stereoQuadWorld
   \<and> allocatesColor
     (cube_allocateColorTexturesInternal
        (initialize stereoSession (Some webgl2Context) (projr (new_XRCubeLayer stereoInit512)))
        webgl2Context)
     webgl2Context [(512, 512, 1, texture), (512, 512, 1, texture)]"
proof -
  let ?mono = "initialize stereoSession (Some webgl2Context) (new_layer Quad init512)"
  let ?slr = "initialize stereoSession (Some webgl2Context)
                (new_layer Quad (init512\<lparr>init_layout := stereo_left_right\<rparr>))"
  let ?st = "initialize stereoSession (Some webgl2Context) (new_layer Quad stereoInit512)"
  let ?g = "get_colorTextures stereoSession ?mono webgl2Context"
  let ?cube = "initialize stereoSession (Some webgl2Context)
                 (projr (new_XRCubeLayer stereoInit512))"
  note alloc = color_texture_allocation
  have r: "reachable stereoQuadWorld" unfolding stereoQuadWorld_def by (intro reachable.intros)
  have g: "?g = (Inr (Some [0]),
                 setColorTextures
                   [\<lparr> pt_texture = 0, textureFormat = 6408, pt_width = 512, pt_height = 512,
                      pt_layers = 1, pt_type = texture \<rparr>]
                   (?mono\<lparr>hasRunDeferredInitialize := True, layout := layout_mono,
                            needsRedraw := Some True\<rparr>),
                 webgl2Context\<lparr>texturesCreated := 1\<rparr>)"
    by (simp add: world_eval_defs getter_eval_defs)
  have a1: "allocatesColor (allocateColorTexturesInternal stereoSession texture (init ?mono)
              ?mono webgl2Context) webgl2Context [(512, 512, 1, texture)]"
    using alloc [where l = ?mono and s = stereoSession and c = webgl2Context]
    by (simp add: world_eval_defs quadLike_def isMediaLayer_def noViews_def)
  have a2: "allocatesColor (allocateColorTexturesInternal stereoSession texture
              (init ?slr) ?slr webgl2Context)
              webgl2Context [(1024, 512, 1, texture)]"
    using alloc [where l = ?slr and s = stereoSession and c = webgl2Context]
    by (simp add: world_eval_defs quadLike_def isMediaLayer_def noViews_def)
  have a3: "allocatesColor (allocateColorTexturesInternal stereoSession texture (init ?st)
              ?st webgl2Context) webgl2Context [(1024, 512, 1, texture)]"
    using alloc [where l = ?st and s = stereoSession and c = webgl2Context]
    by (simp add: world_eval_defs quadLike_def isMediaLayer_def noViews_def)
  have h4: "hasRunDeferredInitialize (destroy (fst (snd ?g)))"
    "layout (destroy (fst (snd ?g))) = layout_mono"
    "version (snd (snd ?g)) = WebGL2"
    unfolding g by (simp_all add: destroy_def setColorTextures_def webgl2Context_def)
  have a4: "allocatesColor (allocateColorTexturesInternal stereoSession texture (init ?mono)
              (destroy (fst (snd ?g))) (snd (snd ?g))) (snd (snd ?g)) [(512, 512, 1, texture)]"
    using alloc [where l = "destroy (fst (snd ?g))" and s = stereoSession
                   and c = "snd (snd ?g)" and tt = texture and ini = "init ?mono"] h4
    by (simp add: world_eval_defs noViews_def)
  have a5: "allocatesColor (cube_allocateColorTexturesInternal ?cube webgl2Context)
              webgl2Context [(512, 512, 1, texture), (512, 512, 1, texture)]"
    using alloc [where l = ?cube and c = webgl2Context]
    by (simp add: world_eval_defs new_XRCubeLayer_def isReferenceSpace_def)
  from a1 a2 a3 h4(1) a4 r a5 show ?thesis by blast
qed

end
